(* ===== verification/Prelude.thy ===== *)
theory Prelude
  imports Main "HOL-Library.Word"
begin

text \<open>
  Shared vocabulary of the development: the types that name the program's values
  (clock readings, Mongo object ids), the process configuration the controller reads,
  JavaScript truthiness of optional request fields,
  decimal printing and lexing of numbers (used by the JWT payload and by messages), and
  the generic lemmas on lists, characters and words that the component theories share.
\<close>

unbundle bit_operations_syntax

named_theorems codec_simps "equations that evaluate the decimal codec on concrete text"
named_theorems store_simps "characteristic equations of the record-store queries"

text \<open>\<open>Date.now()\<close>: milliseconds since the epoch, never negative.\<close>
type_synonym time = nat

text \<open>A Mongo \<open>_id\<close>; only its identity matters to the controller.\<close>
type_synonym oid = nat

text \<open>
  The process environment read by the controller and the \<open>User\<close> model
  (\<open>process.env\<close>), as the texts it holds: the signing key \<open>JWT_SECRET\<close> (an unset
  key is the empty text: both are falsy to \<open>jsonwebtoken\<close>), the session lifetime
  \<open>JWT_EXPIRE\<close> and the cookie lifetime \<open>JWT_COOKIE_EXPIRE\<close> (\<open>None\<close> when unset),
  and \<open>NODE_ENV\<close>.
\<close>

record config =
  jwt_secret :: string
  jwt_expire :: "string option"
  jwt_cookie_expire :: "string option"
  node_env :: string

text \<open>
  JavaScript truthiness of a request field read from \<open>req.body\<close> or \<open>req.query\<close>:
  \<open>undefined\<close> (the key is absent) and the empty string are falsy.
\<close>

definition truthy :: "string option \<Rightarrow> bool" where
  "truthy v = (case v of None \<Rightarrow> False | Some s \<Rightarrow> s \<noteq> [])"

section \<open>Decimal numerals\<close>

definition digit_char :: "nat \<Rightarrow> char" where
  "digit_char d = char_of (48 + d)"

definition is_digit :: "char \<Rightarrow> bool" where
  "is_digit c \<longleftrightarrow> (48::nat) \<le> of_char c \<and> of_char c \<le> (57::nat)"

text \<open>\<open>String(n)\<close> for a non-negative integer: most significant digit first.\<close>

fun show_nat :: "nat \<Rightarrow> string" where
  "show_nat n = (if n < 10 then [digit_char n] else show_nat (n div 10) @ [digit_char (n mod 10)])"

declare show_nat.simps [simp del]

fun digits_value :: "nat \<Rightarrow> string \<Rightarrow> nat" where
  "digits_value acc [] = acc"
| "digits_value acc (c # cs) = digits_value (10 * acc + (of_char c - 48)) cs"

text \<open>Reads the longest run of digits at the front of a text, and returns the rest.\<close>

definition lex_nat :: "string \<Rightarrow> (nat \<times> string) option" where
  "lex_nat s =
     (let ds = takeWhile is_digit s
      in if ds = [] then None else Some (digits_value 0 ds, dropWhile is_digit s))"

text \<open>A text that is a decimal numeral and nothing else.\<close>

definition parse_nat :: "string \<Rightarrow> nat option" where
  "parse_nat s = (case lex_nat s of Some (n, []) \<Rightarrow> Some n | _ \<Rightarrow> None)"

section \<open>Lemmas\<close>

lemma truthy_simps [simp]:
  "truthy None = False" "truthy (Some s) = (s \<noteq> [])"
  by (simp_all add: truthy_def)

subsection \<open>Decimal numerals\<close>

lemma of_char_digit_char [simp]: "d < 10 \<Longrightarrow> of_char (digit_char d) = 48 + d"
  by (simp add: digit_char_def)

lemma is_digit_digit_char [simp]: "d < 10 \<Longrightarrow> is_digit (digit_char d)"
  by (simp add: is_digit_def)

lemma show_nat_digits: "c \<in> set (show_nat n) \<Longrightarrow> is_digit c"
proof (induction n rule: show_nat.induct)
  case (1 n)
  then show ?case
    by (cases "n < 10") (auto simp: show_nat.simps [of n])
qed

lemma show_nat_not_Nil [simp]: "show_nat n \<noteq> []"
  by (simp add: show_nat.simps [of n])

lemma digits_value_append:
  "digits_value acc (xs @ ys) = digits_value (digits_value acc xs) ys"
  by (induction xs arbitrary: acc) simp_all

lemma digits_value_show_nat: "digits_value 0 (show_nat n) = n"
proof (induction n rule: show_nat.induct)
  case (1 n)
  show ?case
  proof (cases "n < 10")
    case True
    then show ?thesis by (simp add: show_nat.simps [of n])
  next
    case False
    with "1.IH" have "digits_value 0 (show_nat (n div 10)) = n div 10" by simp
    with False show ?thesis
      by (simp add: show_nat.simps [of n] digits_value_append)
  qed
qed

lemma show_nat_inj [simp]: "show_nat m = show_nat n \<longleftrightarrow> m = n"
  by (metis digits_value_show_nat)

text \<open>Round trip: lexing a printed number followed by a non-digit gives it back.\<close>

lemma lex_nat_show_nat [codec_simps]:
  assumes "r = [] \<or> \<not> is_digit (hd r)"
  shows "lex_nat (show_nat n @ r) = Some (n, r)"
proof -
  have tw: "takeWhile is_digit r = []" and dw: "dropWhile is_digit r = r"
    using assms by (cases r; auto)+
  have "takeWhile is_digit (show_nat n @ r) = show_nat n"
    by (simp add: show_nat_digits tw)
  moreover have "dropWhile is_digit (show_nat n @ r) = r"
    by (simp add: show_nat_digits dw)
  ultimately show ?thesis
    by (simp add: lex_nat_def digits_value_show_nat)
qed

lemma lex_nat_Some: "lex_nat s = Some (n, r) \<Longrightarrow> \<exists>p. s = p @ r"
  by (auto simp: lex_nat_def Let_def split: if_splits intro: takeWhile_dropWhile_id [symmetric])

lemma parse_nat_show_nat [simp]: "parse_nat (show_nat n) = Some n"
  using lex_nat_show_nat [of "[]" n] by (simp add: parse_nat_def)

subsection \<open>Bytes as 8-bit words\<close>

lemma unat_of_char: "unat (of_char a :: 8 word) = of_char a"
proof -
  have "(of_char a :: 8 word) = word_of_nat (of_char a)"
    by (simp only: of_nat_of_char)
  then show ?thesis
    using nat_of_char_less_256 [of a] by (simp add: unat_of_nat)
qed

lemma of_char_word_inj [simp]: "(of_char a :: 8 word) = of_char b \<longleftrightarrow> a = b"
  by (metis unat_of_char of_char_eq_iff)

lemma word_xor_eq_0_iff [simp]: "((x::'a::len word) XOR y = 0) \<longleftrightarrow> x = y"
  by (metis bit.xor_left_self bit.xor_self)

subsection \<open>Searching lists\<close>

text \<open>\<open>find\<close> is how a query that returns the first matching document is read.\<close>

lemma find_SomeD [dest]: "find P xs = Some x \<Longrightarrow> P x \<and> x \<in> set xs"
  by (auto simp: find_Some_iff)

lemma find_distinct_key:
  "distinct (map f xs) \<Longrightarrow> x \<in> set xs \<Longrightarrow> find (\<lambda>y. f y = f x) xs = Some x"
proof (induction xs)
  case Nil
  then show ?case by simp
next
  case (Cons y ys)
  then show ?case by (auto simp: image_iff)
qed

lemma find_map_same:
  "(\<And>y. y \<in> set xs \<Longrightarrow> P (g y) = P y) \<Longrightarrow>
   find P (map g xs) = map_option g (find P xs)"
  by (induction xs) auto

lemma filter_le1_unique:
  "length (filter P xs) \<le> 1 \<Longrightarrow> distinct xs \<Longrightarrow> x \<in> set xs \<Longrightarrow> y \<in> set xs \<Longrightarrow>
   P x \<Longrightarrow> P y \<Longrightarrow> x = y"
proof (induction xs)
  case Nil
  then show ?case by simp
next
  case (Cons z zs)
  have "filter P zs \<noteq> []" if "w \<in> set zs" "P w" for w
    using that by (auto simp: filter_empty_conv)
  with Cons show ?case by (auto split: if_splits)
qed

lemma find_unique:
  assumes "x \<in> set xs" "P x" "\<And>y. y \<in> set xs \<Longrightarrow> P y \<Longrightarrow> y = x"
  shows "find P xs = Some x"
proof -
  have "\<exists>y \<in> set xs. P y" using assms(1,2) by blast
  then obtain y where "find P xs = Some y" by (metis find_None_iff not_None_eq)
  moreover then have "y = x" using assms(3) by auto
  ultimately show ?thesis by simp
qed

end
