(* ===== verification/Base64.thy ===== *)
theory Base64
  imports Prelude
begin

text \<open>
  The base64url encoding (RFC 4648 section 5, without padding) with which
  \<open>jsonwebtoken\<close> writes the header and the payload of a token, and with which it reads
  them back (\<open>Buffer.from(segment, 'base64')\<close>). A text is a list of bytes (Isabelle's
  \<open>char\<close> is a byte). Three bytes make four symbols of six bits; a final group of one
  or two bytes makes two or three symbols. The decoder takes the symbols four at a time and
  refuses a symbol outside the alphabet and a final group of one symbol, which no encoding
  produces; bits past the last byte are ignored, as Node's decoder ignores them.
\<close>

section \<open>The alphabet\<close>

definition b64_alphabet :: string where
  "b64_alphabet = ''ABCDEFGHIJKLMNOPQRSTUVWXYZabcdefghijklmnopqrstuvwxyz0123456789-_''"

definition b64_sym :: "nat \<Rightarrow> char" where
  "b64_sym n = b64_alphabet ! n"

definition b64_val :: "char \<Rightarrow> nat option" where
  "b64_val c =
     (let k = of_char c :: nat in
      if 65 \<le> k \<and> k \<le> 90 then Some (k - 65)
      else if 97 \<le> k \<and> k \<le> 122 then Some (k - 71)
      else if 48 \<le> k \<and> k \<le> 57 then Some (k + 4)
      else if k = 45 then Some 62
      else if k = 95 then Some 63 else None)"

section \<open>Encoding\<close>

fun b64url_encode :: "string \<Rightarrow> string" where
  "b64url_encode (a # b # c # rest) =
     (let x = of_char a :: nat; y = of_char b :: nat; z = of_char c :: nat in
      [b64_sym (x div 4), b64_sym (x mod 4 * 16 + y div 16),
       b64_sym (y mod 16 * 4 + z div 64), b64_sym (z mod 64)]) @ b64url_encode rest"
| "b64url_encode [a, b] =
     (let x = of_char a :: nat; y = of_char b :: nat in
      [b64_sym (x div 4), b64_sym (x mod 4 * 16 + y div 16), b64_sym (y mod 16 * 4)])"
| "b64url_encode [a] = (let x = of_char a :: nat in [b64_sym (x div 4), b64_sym (x mod 4 * 16)])"
| "b64url_encode [] = []"

section \<open>Decoding\<close>

text \<open>The bytes of one group of two, three or four symbol values.\<close>

definition b64_bytes :: "nat list \<Rightarrow> string" where
  "b64_bytes vs =
     (case vs of
        [i, j] \<Rightarrow> [char_of (i * 4 + j div 16)]
      | [i, j, k] \<Rightarrow> [char_of (i * 4 + j div 16), char_of (j mod 16 * 16 + k div 4)]
      | [i, j, k, l] \<Rightarrow> [char_of (i * 4 + j div 16), char_of (j mod 16 * 16 + k div 4),
                         char_of (k mod 4 * 64 + l)]
      | _ \<Rightarrow> [])"

definition b64_group :: "string \<Rightarrow> string option" where
  "b64_group g =
     (if length g < 2 then None
      else map_option b64_bytes (those (map b64_val g)))"

fun b64url_decode :: "string \<Rightarrow> string option" where
  "b64url_decode (a # b # c # d # rest) =
     (case b64_group [a, b, c, d] of
        None \<Rightarrow> None
      | Some bs \<Rightarrow> map_option (\<lambda>r. bs @ r) (b64url_decode rest))"
| "b64url_decode s = (if s = [] then Some [] else b64_group s)"

section \<open>Lemmas\<close>

lemma length_b64_alphabet: "length b64_alphabet = 64"
  by (simp add: b64_alphabet_def)

lemma b64_val_alphabet: "map b64_val b64_alphabet = map Some [0..<64]"
  by (simp add: b64_alphabet_def b64_val_def upt_rec)

lemma b64_val_sym [simp]: "n < 64 \<Longrightarrow> b64_val (b64_sym n) = Some n"
  using arg_cong [OF b64_val_alphabet, where f = "\<lambda>xs. xs ! n"]
  by (simp add: b64_sym_def length_b64_alphabet)

lemma b64_sym_not_dot [simp]: "n < 64 \<Longrightarrow> b64_sym n \<noteq> CHR ''.''"
proof
  assume "n < 64" "b64_sym n = CHR ''.''"
  then have "CHR ''.'' \<in> set b64_alphabet"
    by (metis b64_sym_def length_b64_alphabet nth_mem)
  then show False by (simp add: b64_alphabet_def)
qed

lemma b64_bits [simp]:
  fixes x y z :: nat
  shows "x < 256 \<Longrightarrow> x div 4 < 64" "y < 256 \<Longrightarrow> x mod 4 * 16 + y div 16 < 64"
    and "z < 256 \<Longrightarrow> y mod 16 * 4 + z div 64 < 64"
  by simp_all

text \<open>The bytes decoded from the symbol values of an encoded group are the group.\<close>

lemma b64_split:
  fixes x y z :: nat
  shows "y < 256 \<Longrightarrow> (x mod 4 * 16 + y div 16) div 16 = x mod 4"
    and "y < 256 \<Longrightarrow> (x mod 4 * 16 + y div 16) mod 16 = y div 16"
    and "z < 256 \<Longrightarrow> (y mod 16 * 4 + z div 64) div 4 = y mod 16"
    and "z < 256 \<Longrightarrow> (y mod 16 * 4 + z div 64) mod 4 = z div 64"
  by simp_all

lemma b64_bytes_enc:
  fixes x y z :: nat
  shows "y < 256 \<Longrightarrow> z < 256 \<Longrightarrow>
           b64_bytes [x div 4, x mod 4 * 16 + y div 16, y mod 16 * 4 + z div 64, z mod 64] =
           [char_of x, char_of y, char_of z]"
    and "y < 256 \<Longrightarrow> b64_bytes [x div 4, x mod 4 * 16 + y div 16, y mod 16 * 4] = [char_of x, char_of y]"
    and "b64_bytes [x div 4, x mod 4 * 16] = [char_of x]"
  by (simp_all add: b64_bytes_def b64_split)

text \<open>Decoding inverts encoding: every text survives the round trip through base64url.\<close>

lemma b64url_decode_encode [simp]: "b64url_decode (b64url_encode s) = Some s"
  by (induction s rule: b64url_encode.induct)
     (simp_all add: Let_def b64_group_def b64_bytes_enc)

lemma b64url_encode_not_dot [simp]: "CHR ''.'' \<notin> set (b64url_encode s)"
  by (induction s rule: b64url_encode.induct) (auto simp: Let_def dest: sym)

text \<open>A base64url segment followed by a dot is split off at that dot.\<close>

lemma b64url_segment [simp]:
  "takeWhile (\<lambda>c. c \<noteq> CHR ''.'') (b64url_encode x @ CHR ''.'' # r) = b64url_encode x"
  "dropWhile (\<lambda>c. c \<noteq> CHR ''.'') (b64url_encode x @ CHR ''.'' # r) = CHR ''.'' # r"
proof -
  have "\<And>c. c \<in> set (b64url_encode x) \<Longrightarrow> c \<noteq> CHR ''.''" using b64url_encode_not_dot by blast
  then show "takeWhile (\<lambda>c. c \<noteq> CHR ''.'') (b64url_encode x @ CHR ''.'' # r) = b64url_encode x"
    "dropWhile (\<lambda>c. c \<noteq> CHR ''.'') (b64url_encode x @ CHR ''.'' # r) = CHR ''.'' # r"
    by simp_all
qed

lemma b64url_encode_inj [simp]: "b64url_encode s = b64url_encode t \<longleftrightarrow> s = t"
  by (metis b64url_decode_encode option.inject)

end
