(* ===== verification/JsText.thy ===== *)
theory JsText
  imports Prelude
begin

text \<open>
  The conversions from text that the program's libraries apply to request fields and to
  the process environment:
  \<^item> \<open>Number(s)\<close> (ECMA-262 StringToNumber), which Mongoose's \<open>castNumber\<close> and
    \<open>castDate\<close> call and which \<open>JWT_COOKIE_EXPIRE * 24 * \<dots>\<close> applies: surrounding
    white space is dropped, the empty text is 0, \<open>Infinity\<close> with a sign, unsigned
    \<open>0x\<close>/\<open>0o\<close>/\<open>0b\<close> integers, and signed decimal literals with a fraction and an
    exponent; anything else is \<open>NaN\<close>. A finite value is kept exactly as a sign, a
    mantissa and a power of ten (the rounding to a double is not modelled);
  \<^item> the \<open>ms\<close> package's \<open>parse\<close>, with which \<open>jsonwebtoken\<close> reads a string
    \<open>expiresIn\<close>: a number with an optional unit, milliseconds when the unit is absent;
  \<^item> the text of an ObjectId: 24 hexadecimal digits, as \<open>toString()\<close> writes it and
    as \<open>new ObjectId(s)\<close> (bson 6) accepts it;
  \<^item> signed integers as \<open>JSON.stringify\<close> writes them (the \<open>exp\<close> claim);
  \<^item> \<open>new Date(base + v * f)\<close> for a number \<open>v\<close>, with TimeClip: an invalid Date
    beyond 8.64e15 ms from the epoch, otherwise the time truncated to a millisecond.
\<close>

section \<open>Number()\<close>

datatype js_num = NaN | Infinity bool | Finite bool nat int

text \<open>StrWhiteSpaceChar among the one-byte characters: TAB, LF, VT, FF, CR, space, NBSP.\<close>

definition js_space :: "char \<Rightarrow> bool" where
  "js_space c \<longleftrightarrow> (of_char c :: nat) \<in> {9, 10, 11, 12, 13, 32, 160}"

definition js_trim :: "string \<Rightarrow> string" where
  "js_trim s = rev (dropWhile js_space (rev (dropWhile js_space s)))"

definition all_digits :: "string \<Rightarrow> bool" where
  "all_digits ds \<longleftrightarrow> ds \<noteq> [] \<and> list_all is_digit ds"

definition hex_val :: "char \<Rightarrow> nat option" where
  "hex_val c =
     (let k = of_char c :: nat in
      if 48 \<le> k \<and> k \<le> 57 then Some (k - 48)
      else if 97 \<le> k \<and> k \<le> 102 then Some (k - 87)
      else if 65 \<le> k \<and> k \<le> 70 then Some (k - 55) else None)"

fun radix_digits :: "nat \<Rightarrow> nat \<Rightarrow> string \<Rightarrow> nat option" where
  "radix_digits r acc [] = Some acc"
| "radix_digits r acc (c # cs) =
     (case hex_val c of
        Some d \<Rightarrow> if d < r then radix_digits r (r * acc + d) cs else None
      | None \<Rightarrow> None)"

text \<open>\<open>0x\<close>, \<open>0o\<close> and \<open>0b\<close> literals (no sign, at least one digit).\<close>

definition radix_literal :: "string \<Rightarrow> nat option" where
  "radix_literal t =
     (case t of
        c0 # x # ds \<Rightarrow>
          if c0 \<noteq> CHR ''0'' \<or> ds = [] then None
          else if x = CHR ''x'' \<or> x = CHR ''X'' then radix_digits 16 0 ds
          else if x = CHR ''o'' \<or> x = CHR ''O'' then radix_digits 8 0 ds
          else if x = CHR ''b'' \<or> x = CHR ''B'' then radix_digits 2 0 ds
          else None
      | _ \<Rightarrow> None)"

definition exp_part :: "string \<Rightarrow> int option" where
  "exp_part s =
     (case s of
        [] \<Rightarrow> None
      | c # ds \<Rightarrow>
          if c = CHR ''+'' then (if all_digits ds then Some (int (digits_value 0 ds)) else None)
          else if c = CHR ''-'' then (if all_digits ds then Some (- int (digits_value 0 ds)) else None)
          else if all_digits s then Some (int (digits_value 0 s)) else None)"

text \<open>
  An unsigned decimal literal \<open>digits [. digits] [e|E [+|-] digits]\<close> or
  \<open>. digits [\<dots>]\<close>, as mantissa and power of ten.
\<close>

definition decimal_literal :: "string \<Rightarrow> (nat \<times> int) option" where
  "decimal_literal u =
     (let ip = takeWhile is_digit u; r1 = dropWhile is_digit u;
          (fp, r2) = (case r1 of
                        c # r \<Rightarrow> if c = CHR ''.'' then (takeWhile is_digit r, dropWhile is_digit r) else ([], r1)
                      | [] \<Rightarrow> ([], []));
          m = digits_value 0 (ip @ fp)
      in if ip = [] \<and> fp = [] then None
         else case r2 of
                [] \<Rightarrow> Some (m, - int (length fp))
              | c # r \<Rightarrow>
                  if c = CHR ''e'' \<or> c = CHR ''E''
                  then map_option (\<lambda>k. (m, k - int (length fp))) (exp_part r) else None)"

definition js_number :: "string \<Rightarrow> js_num" where
  "js_number s =
     (let t = js_trim s in
      if t = [] then Finite False 0 0
      else if t = ''Infinity'' \<or> t = ''+Infinity'' then Infinity False
      else if t = ''-Infinity'' then Infinity True
      else case radix_literal t of
             Some n \<Rightarrow> Finite False n 0
           | None \<Rightarrow>
               (let (neg, u) = (if hd t = CHR ''-'' then (True, tl t)
                                else if hd t = CHR ''+'' then (False, tl t) else (False, t))
                in case decimal_literal u of
                     None \<Rightarrow> NaN
                   | Some (m, e) \<Rightarrow> Finite neg m e))"

text \<open>The integer part of a finite number (truncation toward zero, ToIntegerOrInfinity).\<close>

definition js_trunc :: "bool \<Rightarrow> nat \<Rightarrow> int \<Rightarrow> int" where
  "js_trunc neg m e =
     (let a = (if 0 \<le> e then m * 10 ^ nat e else m div 10 ^ nat (- e))
      in if neg then - int a else int a)"

section \<open>The ms package\<close>

text \<open>The unit of a timespan, matched without regard to case, as milliseconds.\<close>

definition ms_unit :: "string \<Rightarrow> nat option" where
  "ms_unit w =
     (let l = map (\<lambda>c. if 65 \<le> (of_char c :: nat) \<and> (of_char c :: nat) \<le> 90 then char_of (of_char c + (32 :: nat)) else c) w
      in if l \<in> {''years'', ''year'', ''yrs'', ''yr'', ''y''} then Some 31557600000
         else if l \<in> {''weeks'', ''week'', ''w''} then Some 604800000
         else if l \<in> {''days'', ''day'', ''d''} then Some 86400000
         else if l \<in> {''hours'', ''hour'', ''hrs'', ''hr'', ''h''} then Some 3600000
         else if l \<in> {''minutes'', ''minute'', ''mins'', ''min'', ''m''} then Some 60000
         else if l \<in> {''seconds'', ''second'', ''secs'', ''sec'', ''s''} then Some 1000
         else if l \<in> {[], ''milliseconds'', ''millisecond'', ''msecs'', ''msec'', ''ms''} then Some 1
         else None)"

text \<open>
  \<open>ms(s)\<close> for a text: at most 100 characters matching
  \<open>/^(-?(?:\d+)?\.?\d+) *(unit)?$/i\<close>; the value is the number times the unit, as a
  signed numerator over a power of ten.
\<close>

definition ms_parse :: "string \<Rightarrow> (int \<times> nat) option" where
  "ms_parse s =
     (if s = [] \<or> 100 < length s then None
      else
        let (neg, r) = (if hd s = CHR ''-'' then (True, tl s) else (False, s));
            ip = takeWhile is_digit r; r1 = dropWhile is_digit r;
            (fp, r2) = (case r1 of
                          c # r' \<Rightarrow> if c = CHR ''.'' then (takeWhile is_digit r', dropWhile is_digit r') else ([], r1)
                        | [] \<Rightarrow> ([], []));
            ok = (if r1 \<noteq> [] \<and> hd r1 = CHR ''.'' then fp \<noteq> [] else ip \<noteq> [])
        in if \<not> ok then None
           else case ms_unit (dropWhile (\<lambda>c. c = CHR '' '') r2) of
                  None \<Rightarrow> None
                | Some f \<Rightarrow>
                    let n = int (digits_value 0 (ip @ fp) * f)
                    in Some (if neg then - n else n, 10 ^ length fp))"

text \<open>
  \<open>jsonwebtoken\<close>'s \<open>timespan\<close>: the seconds to add to \<open>iat\<close> for an
  \<open>expiresIn\<close> text, \<open>Math.floor(iat + ms(s) / 1000) - iat\<close>; none when it is unset
  or not a timespan (\<open>sign\<close> then throws).
\<close>

definition expires_in :: "string option \<Rightarrow> int option" where
  "expires_in v =
     (case v of
        None \<Rightarrow> None
      | Some s \<Rightarrow> map_option (\<lambda>(num, den). num div int (den * 1000)) (ms_parse s))"

section \<open>ObjectId text\<close>

definition hex_digit :: "nat \<Rightarrow> char" where
  "hex_digit d = (if d < 10 then char_of (48 + d) else char_of (87 + d))"

fun hex_of :: "nat \<Rightarrow> string" where
  "hex_of n = (if n < 16 then [hex_digit n] else hex_of (n div 16) @ [hex_digit (n mod 16)])"

declare hex_of.simps [simp del]

text \<open>
  \<open>ObjectId.toString()\<close>: the id in lower-case hexadecimal, padded with zeros to 24
  digits (every id of twelve bytes has exactly 24).
\<close>

definition show_oid :: "oid \<Rightarrow> string" where
  "show_oid i = (let h = hex_of i in replicate (24 - length h) CHR ''0'' @ h)"

text \<open>\<open>new ObjectId(s)\<close>: exactly 24 hexadecimal digits of either case.\<close>

definition parse_oid :: "string \<Rightarrow> oid option" where
  "parse_oid s = (if length s = 24 then radix_digits 16 0 s else None)"

text \<open>The longest run of hexadecimal digits at the front of a text, read as a number.\<close>

definition lex_hex :: "string \<Rightarrow> (nat \<times> string) option" where
  "lex_hex s =
     (let ds = takeWhile (\<lambda>c. hex_val c \<noteq> None) s
      in if ds = [] then None
         else map_option (\<lambda>n. (n, dropWhile (\<lambda>c. hex_val c \<noteq> None) s)) (radix_digits 16 0 ds))"

section \<open>Integers\<close>

text \<open>\<open>String(i)\<close> for an integer.\<close>

definition show_int :: "int \<Rightarrow> string" where
  "show_int i = (if i < 0 then CHR ''-'' # show_nat (nat (- i)) else show_nat (nat i))"

definition lex_int :: "string \<Rightarrow> (int \<times> string) option" where
  "lex_int s =
     (case s of
        c # r \<Rightarrow> if c = CHR ''-'' then map_option (\<lambda>(n, r'). (- int n, r')) (lex_nat r)
                else map_option (\<lambda>(n, r'). (int n, r')) (lex_nat s)
      | [] \<Rightarrow> None)"

section \<open>Dates\<close>

text \<open>A finite number as an exact fraction: signed numerator, positive denominator.\<close>

definition frac_of :: "bool \<Rightarrow> nat \<Rightarrow> int \<Rightarrow> int \<times> nat" where
  "frac_of neg m e =
     (let a = (if 0 \<le> e then int (m * 10 ^ nat e) else int m)
      in (if neg then - a else a, if 0 \<le> e then 1 else 10 ^ nat (- e)))"

text \<open>
  TimeClip (ECMA-262 21.4.1.31) of a fraction: an invalid date beyond 8.64e15 ms from the
  epoch, otherwise the value truncated toward zero.
\<close>

definition time_clip :: "int \<times> nat \<Rightarrow> int option" where
  "time_clip nd =
     (let (n, d) = nd
      in if 8640000000000000 * int d < \<bar>n\<bar> then None
         else Some (if 0 \<le> n then n div int d else - ((- n) div int d)))"

text \<open>\<open>new Date(base + v * f)\<close> for a number \<open>v\<close>: a time, or none for an invalid date.\<close>

definition js_date :: "int \<Rightarrow> js_num \<Rightarrow> nat \<Rightarrow> int option" where
  "js_date base v f =
     (case v of
        Finite neg m e \<Rightarrow> (let (n, d) = frac_of neg m e in time_clip (base * int d + n * int f, d))
      | _ \<Rightarrow> None)"

section \<open>Lemmas\<close>

lemma js_space_digit [simp]: "is_digit c \<Longrightarrow> \<not> js_space c"
  by (auto simp: is_digit_def js_space_def)

lemma js_trim_digits: "list_all is_digit s \<Longrightarrow> js_trim s = s"
proof -
  assume d: "list_all is_digit s"
  have "dropWhile js_space s = s"
    using d by (cases s) (simp_all add: dropWhile_eq_self_iff)
  moreover have "dropWhile js_space (rev s) = rev s"
  proof (cases "s = []")
    case False
    then have "last s \<in> set s" by simp
    with d False show ?thesis by (simp add: dropWhile_eq_self_iff hd_rev list_all_iff)
  qed simp
  ultimately show ?thesis by (simp add: js_trim_def)
qed

lemma radix_letter_not_digit:
  "is_digit x \<Longrightarrow> x \<noteq> CHR ''x'' \<and> x \<noteq> CHR ''X'' \<and> x \<noteq> CHR ''o'' \<and> x \<noteq> CHR ''O'' \<and>
     x \<noteq> CHR ''b'' \<and> x \<noteq> CHR ''B''"
  by (auto simp: is_digit_def)

lemma radix_literal_digits: "list_all is_digit s \<Longrightarrow> radix_literal s = None"
proof (cases s rule: remdups_adj.cases)
  case (3 c0 x ds)
  moreover assume "list_all is_digit s"
  ultimately show ?thesis
    using radix_letter_not_digit [of x] by (simp add: radix_literal_def)
qed (simp_all add: radix_literal_def)

lemma decimal_literal_digits:
  assumes "all_digits s"
  shows "decimal_literal s = Some (digits_value 0 s, 0)"
proof -
  have d: "dropWhile is_digit s = []" "takeWhile is_digit s = s" "s \<noteq> []"
    using assms by (simp_all add: all_digits_def list_all_iff)
  show ?thesis
    unfolding decimal_literal_def Let_def d(1,2) using d(3) by simp
qed

text \<open>A decimal numeral is read by \<open>Number()\<close> as the number it writes.\<close>

lemma js_number_show_nat [simp]: "js_number (show_nat n) = Finite False n 0"
proof -
  let ?s = "show_nat n"
  have d: "list_all is_digit ?s" by (simp add: list_all_iff show_nat_digits)
  have ne: "?s \<noteq> []" by simp
  then have h: "is_digit (hd ?s)" using d by (cases ?s) simp_all
  then have sg: "hd ?s \<noteq> CHR ''-''" "hd ?s \<noteq> CHR ''+''" by (auto simp: is_digit_def)
  have inf: "?s \<noteq> ''Infinity''" "?s \<noteq> ''+Infinity''" "?s \<noteq> ''-Infinity''"
    using h by (auto simp: is_digit_def)
  have dl: "decimal_literal ?s = Some (n, 0)"
    using decimal_literal_digits [of ?s] d ne by (simp add: all_digits_def digits_value_show_nat)
  show ?thesis
    unfolding js_number_def Let_def js_trim_digits [OF d] radix_literal_digits [OF d]
    using ne sg inf dl by simp
qed

lemma js_trunc_int [simp]: "js_trunc False m 0 = int m"
  by (simp add: js_trunc_def)

lemma radix_digits_append:
  "radix_digits r acc (xs @ ys) = (case radix_digits r acc xs of None \<Rightarrow> None | Some a \<Rightarrow> radix_digits r a ys)"
  by (induction xs arbitrary: acc) (auto split: option.split)

lemma hex_val_hex_digit [simp]: "d < 16 \<Longrightarrow> hex_val (hex_digit d) = Some d"
  by (auto simp: hex_val_def hex_digit_def)

lemma hex_digit_hex [simp]: "d < 16 \<Longrightarrow> hex_val (hex_digit d) \<noteq> None"
  by simp

lemma radix_digits_hex_of:
  "radix_digits 16 acc (hex_of n) = Some (acc * 16 ^ length (hex_of n) + n)"
proof (induction n arbitrary: acc rule: hex_of.induct)
  case (1 n)
  show ?case
  proof (cases "n < 16")
    case True
    then show ?thesis by (simp add: hex_of.simps [of n])
  next
    case False
    with "1.IH" show ?thesis
      by (simp add: hex_of.simps [of n] radix_digits_append algebra_simps)
  qed
qed

lemma hex_of_bound: "n < 16 ^ k \<Longrightarrow> length (hex_of n) \<le> max 1 k"
proof (induction n arbitrary: k rule: hex_of.induct)
  case (1 n)
  show ?case
  proof (cases "n < 16")
    case False
    then obtain k' where k: "k = Suc k'"
      using "1.prems" by (cases k) auto
    with "1.prems" have lt: "n div 16 < 16 ^ k'" by (simp add: less_mult_imp_div_less mult.commute)
    moreover have "1 \<le> n div 16" using False by simp
    ultimately have "k' \<noteq> 0" by (cases k') auto
    with lt False "1.IH" [of k'] k show ?thesis by (simp add: hex_of.simps [of n])
  qed (simp add: hex_of.simps [of n])
qed

lemma radix_digits_zeros [simp]: "radix_digits 16 0 (replicate k CHR ''0'' @ s) = radix_digits 16 0 s"
  by (induction k) (simp_all add: hex_val_def)

lemma hex_of_digits: "c \<in> set (hex_of n) \<Longrightarrow> hex_val c \<noteq> None"
proof (induction n rule: hex_of.induct)
  case (1 n)
  then show ?case
    by (cases "n < 16") (auto simp: hex_of.simps [of n])
qed

lemma show_oid_digits: "c \<in> set (show_oid i) \<Longrightarrow> hex_val c \<noteq> None"
proof -
  assume "c \<in> set (show_oid i)"
  then have "c = CHR ''0'' \<or> c \<in> set (hex_of i)"
    by (auto simp: show_oid_def Let_def split: if_splits)
  then show ?thesis
  proof
    assume "c = CHR ''0''" then show ?thesis by (simp add: hex_val_def)
  qed (rule hex_of_digits)
qed

lemma radix_digits_show_oid: "radix_digits 16 0 (show_oid i) = Some i"
  by (simp add: show_oid_def Let_def radix_digits_hex_of)

text \<open>The text of an id that fits in twelve bytes reads back as that id.\<close>

lemma parse_show_oid [simp]: "i < 2 ^ 96 \<Longrightarrow> parse_oid (show_oid i) = Some i"
proof -
  assume "i < 2 ^ 96"
  then have "i < 16 ^ 24" by simp
  then have "length (hex_of i) \<le> 24" using hex_of_bound [of i 24] by simp
  then show ?thesis by (simp add: parse_oid_def show_oid_def Let_def radix_digits_hex_of)
qed

text \<open>An id's text in a token payload, followed by its closing quote, lexes back to the id.\<close>

lemma lex_hex_show_oid:
  assumes "hex_val c = None"
  shows "lex_hex (show_oid i @ c # r) = Some (i, c # r)"
proof -
  have all: "\<forall>x\<in>set (show_oid i). hex_val x \<noteq> None" using show_oid_digits by blast
  have "takeWhile (\<lambda>c. hex_val c \<noteq> None) (show_oid i @ c # r) = show_oid i"
    "dropWhile (\<lambda>c. hex_val c \<noteq> None) (show_oid i @ c # r) = c # r"
    using all assms by simp_all
  moreover have "show_oid i \<noteq> []" by (simp add: show_oid_def Let_def hex_of.simps [of i])
  ultimately show ?thesis by (simp add: lex_hex_def radix_digits_show_oid)
qed

lemma show_nat_hd_digit: "is_digit (hd (show_nat n))"
  using show_nat_digits [of "hd (show_nat n)" n] show_nat_not_Nil [of n] by simp

lemma lex_int_show_int [codec_simps]:
  assumes "r = [] \<or> \<not> is_digit (hd r)"
  shows "lex_int (show_int i @ r) = Some (i, r)"
proof (cases "i < 0")
  case True
  then show ?thesis
    using lex_nat_show_nat [OF assms, of "nat (- i)"] by (simp add: show_int_def lex_int_def)
next
  case False
  obtain c cs where cs: "show_nat (nat i) = c # cs" by (cases "show_nat (nat i)") auto
  have "is_digit c" using show_nat_hd_digit [of "nat i"] cs by simp
  then have "c \<noteq> CHR ''-''" by (auto simp: is_digit_def)
  then show ?thesis
    using False cs lex_nat_show_nat [OF assms, of "nat i"] by (simp add: show_int_def lex_int_def)
qed

lemma lex_hex_Some: "lex_hex s = Some (n, r) \<Longrightarrow> \<exists>p. s = p @ r"
  by (auto simp: lex_hex_def Let_def split: if_splits intro: takeWhile_dropWhile_id [symmetric])

lemma lex_int_Some: "lex_int s = Some (n, r) \<Longrightarrow> \<exists>p. s = p @ r"
  by (auto simp: lex_int_def split: list.splits if_splits dest!: lex_nat_Some)

lemma show_oid_inj [simp]: "show_oid i = show_oid j \<longleftrightarrow> i = j"
  by (metis option.inject radix_digits_show_oid)


end
