(* ===== verification/Crypto.thy ===== *)
theory Crypto
  imports Base64 JsText "HOL-Library.Monad_Syntax"
begin

text \<open>
  The two stateless credential components of the spec, which the controller reaches
  through the \<open>User\<close> model (not under src/, so modelled from the spec):
  \<^item> SecretHasher (spec 4.1): the primitives are parameters, gathered in the record
    \<open>crypto\<close>, so that every lemma holds for any hash and MAC the deployment uses; the
    constant-time comparison \<open>timing_safe_equal\<close> is defined here and shown equal to
    string equality;
  \<^item> TokenSigner (spec 4.2): HS256 session tokens in their wire form
    \<open>header.payload.signature\<close>, header and payload base64url-encoded JSON texts
    (Base64); signing, decoding with its round trip, and verification with signature
    before expiry.
\<close>

section \<open>SecretHasher\<close>

text \<open>
  \<open>bcrypt_hash\<close> is the salted password hash of the \<open>User\<close> model's pre-save hook,
  \<open>sha256_hex\<close> is \<open>crypto.createHash('sha256').update(s).digest('hex')\<close> and
  \<open>hmac_sha256 key msg\<close> is the HS256 signature, already in its text encoding.
\<close>

record crypto =
  bcrypt_hash :: "string \<Rightarrow> string"
  sha256_hex :: "string \<Rightarrow> string"
  hmac_sha256 :: "string \<Rightarrow> string \<Rightarrow> string"

text \<open>
  The constant-time comparison: every byte pair is visited, the differences are
  accumulated with OR into one 8-bit word, and only the final word is inspected. The
  lengths are compared up front (they are public).
\<close>

fun xor_acc :: "8 word \<Rightarrow> string \<Rightarrow> string \<Rightarrow> 8 word" where
  "xor_acc acc (a # as) (b # bs) = xor_acc (acc OR (of_char a XOR of_char b)) as bs"
| "xor_acc acc _ _ = acc"

definition timing_safe_equal :: "string \<Rightarrow> string \<Rightarrow> bool" where
  "timing_safe_equal a b \<longleftrightarrow> length a = length b \<and> xor_acc 0 a b = 0"

text \<open>The number of loop iterations: it depends on the lengths only, never on where the texts differ.\<close>

fun xor_acc_steps :: "string \<Rightarrow> string \<Rightarrow> nat" where
  "xor_acc_steps (a # as) (b # bs) = Suc (xor_acc_steps as bs)"
| "xor_acc_steps _ _ = 0"

text \<open>
  \<open>UserSchema.methods.matchPassword\<close>: \<open>bcrypt.compare(entered, this.password)\<close>,
  which rehashes the entered text and compares the results in constant time.
\<close>

definition match_password :: "crypto \<Rightarrow> string \<Rightarrow> string \<Rightarrow> bool" where
  "match_password C entered stored = timing_safe_equal (bcrypt_hash C entered) stored"

section \<open>TokenSigner\<close>

record jwt_claims =
  claim_id :: oid
  claim_iat :: nat
  claim_exp :: int

datatype jwt_error = TokenInvalid | TokenExpired

text \<open>\<open>base64url({"alg":"HS256","typ":"JWT"})\<close>.\<close>

definition jwt_header :: string where
  "jwt_header = ''eyJhbGciOiJIUzI1NiIsInR5cCI6IkpXVCJ9''"

definition claims_json :: "jwt_claims \<Rightarrow> string" where
  "claims_json c =
     ''{\"id\":\"'' @ show_oid (claim_id c) @ ''\",\"iat\":'' @ show_nat (claim_iat c)
     @ '',\"exp\":'' @ show_int (claim_exp c) @ ''}''"

definition signing_input :: "jwt_claims \<Rightarrow> string" where
  "signing_input c = jwt_header @ ''.'' @ b64url_encode (claims_json c)"

definition jwt_encode :: "jwt_claims \<Rightarrow> string \<Rightarrow> string" where
  "jwt_encode c sig = signing_input c @ ''.'' @ sig"

definition expect :: "string \<Rightarrow> string \<Rightarrow> string option" where
  "expect p s = (if take (length p) s = p then Some (drop (length p) s) else None)"

definition lex_claims :: "string \<Rightarrow> (jwt_claims \<times> string) option" where
  "lex_claims s = do {
     s1 \<leftarrow> expect ''{\"id\":\"'' s;
     (i, s2) \<leftarrow> lex_hex s1;
     s3 \<leftarrow> expect ''\",\"iat\":'' s2;
     (ia, s4) \<leftarrow> lex_nat s3;
     s5 \<leftarrow> expect '',\"exp\":'' s4;
     (e, s6) \<leftarrow> lex_int s5;
     s7 \<leftarrow> expect ''}'' s6;
     Some (\<lparr>claim_id = i, claim_iat = ia, claim_exp = e\<rparr>, s7)
   }"

text \<open>
  \<open>jwt.decode\<close>: split a wire token at its dots into its claims (the payload segment
  base64url-decoded, then parsed as a whole JSON text), the signed part
  \<open>header.payload\<close> as received, and the signature text.
\<close>

definition jwt_decode :: "string \<Rightarrow> (jwt_claims \<times> string \<times> string) option" where
  "jwt_decode s = do {
     s1 \<leftarrow> expect (jwt_header @ ''.'') s;
     json \<leftarrow> b64url_decode (takeWhile (\<lambda>c. c \<noteq> CHR ''.'') s1);
     (c, r) \<leftarrow> lex_claims json;
     if r \<noteq> [] then None
     else do {
       sig \<leftarrow> expect ''.'' (dropWhile (\<lambda>c. c \<noteq> CHR ''.'') s1);
       Some (c, take (length s - Suc (length sig)) s, sig)
     }
   }"

text \<open>
  \<open>jwt.sign({id}, key, {expiresIn})\<close>: \<open>iat\<close> is the clock in whole seconds and
  \<open>exp = iat + ttl\<close>, with \<open>ttl\<close> the seconds \<open>expiresIn\<close> stands for.
\<close>

definition jwt_sign :: "crypto \<Rightarrow> string \<Rightarrow> int \<Rightarrow> oid \<Rightarrow> time \<Rightarrow> string" where
  "jwt_sign C key ttl i now =
     (let c = \<lparr>claim_id = i, claim_iat = now div 1000, claim_exp = int (now div 1000) + ttl\<rparr>
      in jwt_encode c (hmac_sha256 C key (signing_input c)))"

text \<open>
  \<open>jwt.verify(token, key)\<close>: an empty key, a malformed token or a wrong signature is
  \<open>TokenInvalid\<close>; only a correctly signed token is checked for expiry, which holds
  once the clock in seconds reaches \<open>exp\<close>.
\<close>

definition jwt_verify :: "crypto \<Rightarrow> string \<Rightarrow> time \<Rightarrow> string \<Rightarrow> jwt_error + oid" where
  "jwt_verify C key now s =
     (if key = [] then Inl TokenInvalid else
      case jwt_decode s of
        None \<Rightarrow> Inl TokenInvalid
      | Some (c, msg, sig) \<Rightarrow>
          if \<not> timing_safe_equal (hmac_sha256 C key msg) sig then Inl TokenInvalid
          else if claim_exp c \<le> int (now div 1000) then Inl TokenExpired
          else Inr (claim_id c))"

section \<open>Lemmas\<close>

subsection \<open>The constant-time comparison\<close>

lemma xor_acc_eq_0:
  "length a = length b \<Longrightarrow> xor_acc acc a b = 0 \<longleftrightarrow> acc = 0 \<and> a = b"
proof (induction acc a b rule: xor_acc.induct)
  case (1 acc a as b bs)
  then show ?case by (auto simp: or_eq_0_iff)
qed auto

lemma xor_acc_steps_min: "xor_acc_steps a b = min (length a) (length b)"
  by (induction a b rule: xor_acc_steps.induct) auto

subsection \<open>The codec\<close>

lemma expect_append [codec_simps]: "expect p (p @ r) = Some r"
  by (simp add: expect_def)

lemma expect_Cons [codec_simps]:
  "expect [] s = Some s"
  "expect (c # p) [] = None"
  "expect (c # p) (d # s) = (if c = d then expect p s else None)"
  by (simp_all add: expect_def)

lemma expect_append_same [codec_simps]: "expect (xs @ ys) (xs @ zs) = expect ys zs"
  by (induction xs) (simp_all add: codec_simps)

lemma expect_Some: "expect p s = Some r \<Longrightarrow> s = p @ r"
  unfolding expect_def by (metis append_take_drop_id option.inject option.distinct(1))

lemma is_digit_quote: "\<not> is_digit CHR ''\"''" and is_digit_comma: "\<not> is_digit CHR '',''"
  and is_digit_brace: "\<not> is_digit CHR ''}''"
  by (simp_all add: is_digit_def)

lemma lex_claims_claims_json [codec_simps]: "lex_claims (claims_json c @ r) = Some (c, r)"
  by (simp add: lex_claims_def claims_json_def codec_simps is_digit_comma is_digit_brace
      lex_hex_show_oid hex_val_def)

lemma lex_claims_Some: "lex_claims s = Some (c, r) \<Longrightarrow> \<exists>p. s = p @ r"
  by (auto simp: lex_claims_def bind_eq_Some_conv dest!: expect_Some lex_nat_Some lex_hex_Some lex_int_Some)

text \<open>The header constant is the encoding of the header the library writes.\<close>

lemma jwt_header_json: "jwt_header = b64url_encode ''{\"alg\":\"HS256\",\"typ\":\"JWT\"}''"
  by (simp add: jwt_header_def b64_sym_def b64_alphabet_def)

lemma jwt_decode_encode [codec_simps]:
  "jwt_decode (jwt_encode c sig) = Some (c, signing_input c, sig)"
  using lex_claims_claims_json [of c "[]"]
  by (simp add: jwt_decode_def jwt_encode_def signing_input_def codec_simps)

text \<open>What the decoder accepts is its signed part, a dot and its signature.\<close>

lemma jwt_decode_Some: "jwt_decode s = Some (c, msg, sig) \<Longrightarrow> s = msg @ ''.'' @ sig"
proof -
  let ?P = "\<lambda>c. c \<noteq> CHR ''.''"
  assume "jwt_decode s = Some (c, msg, sig)"
  then obtain s1 where s1: "s = (jwt_header @ ''.'') @ s1" "dropWhile ?P s1 = ''.'' @ sig"
      and msg: "msg = take (length s - Suc (length sig)) s"
    by (auto simp: jwt_decode_def bind_eq_Some_conv split: if_splits dest!: expect_Some)
  let ?X = "jwt_header @ ''.'' @ takeWhile ?P s1"
  have "s = ?X @ ''.'' @ sig"
    using s1 takeWhile_dropWhile_id [of ?P s1] by (metis append_assoc)
  moreover from this have "msg = ?X" using msg by simp
  ultimately show ?thesis by simp
qed

lemma claims_json_inj [simp]: "claims_json c = claims_json d \<longleftrightarrow> c = d"
  by (metis lex_claims_claims_json option.inject prod.inject)

lemma signing_input_inj [simp]: "signing_input c = signing_input d \<longleftrightarrow> c = d"
  by (simp add: signing_input_def)

subsection \<open>SecretHasher\<close>

lemma timing_safe_equal_iff: "timing_safe_equal a b \<longleftrightarrow> a = b"
  by (auto simp: timing_safe_equal_def xor_acc_eq_0)

text \<open>
  Spec 4.1: the comparison decides equality, and its loop runs over the common length
  of the two texts whatever their contents, never stopping at the first difference.
\<close>

theorem timing_safe_equal_constant_time:
  "timing_safe_equal a b = (a = b) \<and> xor_acc_steps a b = min (length a) (length b)"
  by (simp add: timing_safe_equal_iff xor_acc_steps_min)

lemma match_password_iff [simp]: "match_password C p h \<longleftrightarrow> bcrypt_hash C p = h"
  by (simp add: match_password_def timing_safe_equal_iff)

subsection \<open>TokenSigner\<close>

lemma jwt_verify_encode:
  "k \<noteq> [] \<Longrightarrow> jwt_verify C k now (jwt_encode c sig) =
     (if hmac_sha256 C k (signing_input c) \<noteq> sig then Inl TokenInvalid
      else if claim_exp c \<le> int (now div 1000) then Inl TokenExpired
      else Inr (claim_id c))"
  by (simp add: jwt_verify_def codec_simps timing_safe_equal_iff)

theorem jwt_verify_sign:
  "k \<noteq> [] \<Longrightarrow> int (now' div 1000) < int (now div 1000) + ttl \<Longrightarrow>
   jwt_verify C k now' (jwt_sign C k ttl i now) = Inr i"
  by (simp add: jwt_sign_def Let_def jwt_verify_encode)

theorem jwt_verify_sign_expired:
  "k \<noteq> [] \<Longrightarrow> int (now div 1000) + ttl \<le> int (now' div 1000) \<Longrightarrow>
   jwt_verify C k now' (jwt_sign C k ttl i now) = Inl TokenExpired"
  by (simp add: jwt_sign_def Let_def jwt_verify_encode)

theorem jwt_verify_Inr:
  assumes "jwt_verify C k now s = Inr i"
  shows "\<exists>c msg. jwt_decode s = Some (c, msg, hmac_sha256 C k msg) \<and>
      s = msg @ ''.'' @ hmac_sha256 C k msg \<and> claim_id c = i \<and> int (now div 1000) < claim_exp c"
proof (cases "jwt_decode s")
  case None
  with assms show ?thesis by (simp add: jwt_verify_def split: if_splits)
next
  case (Some d)
  then obtain c msg sig where d: "jwt_decode s = Some (c, msg, sig)"
    by (cases d) auto
  with assms have "sig = hmac_sha256 C k msg" "claim_id c = i" "int (now div 1000) < claim_exp c"
    by (auto simp: jwt_verify_def timing_safe_equal_iff split: if_splits)
  with d show ?thesis by (auto dest: jwt_decode_Some)
qed

end
