(* ===== verification/Store.thy ===== *)
theory Store
  imports Crypto
begin

text \<open>
  The UserRecordStore of the spec: the \<open>User\<close> document, the collection as a list in
  natural order (so that \<open>findOne\<close> is the first match), the queries the controller
  issues, Mongoose's \<open>doc.save()\<close>, and the methods of the \<open>User\<close> model that
  src/controllers/userController.js calls (\<open>matchPassword\<close> is in Crypto). The model
  file is not under src/: these definitions follow the spec (sections 3, 4.3 and 6) and
  the way the controller uses them. Also here: the errors a handler can throw and the
  per-request environment (clock, random bytes, which store writes fail).
\<close>

section \<open>Documents, errors, environment\<close>

text \<open>
  The fields the controller reads or writes. \<open>password\<close> holds the bcrypt hash once
  the document is saved; the reset fields are absent (\<open>undefined\<close> or \<open>null\<close>) or
  present, the expiry as a Date in milliseconds from the epoch (before 1970 too).
\<close>

record user =
  uid :: oid
  userName :: string
  email :: string
  password :: string
  firstName :: string
  lastName :: string
  gender :: string
  resetPasswordToken :: "string option"
  resetPasswordExpire :: "int option"

type_synonym store = "user list"

text \<open>
  What an async handler rejects with: \<open>new Error(msg)\<close>, a \<open>TypeError\<close> raised by
  JavaScript or a library, a failed write to the database, Mongoose's \<open>CastError\<close>
  (the type cast to, the text, the path, and the model when a query's filter was cast),
  Mongoose's \<open>ValidationError\<close> (the model of a document, none for an update, and
  the message of each failed path in the order they failed), or Mongoose's
  \<open>DocumentNotFoundError\<close> when the saved document is gone.
\<close>

datatype js_error =
  Error string
| TypeError string
| StoreError
| CastError string string string "string option"
| ValidationError "string option" "(string \<times> string) list"
| DocumentNotFound

text \<open>\<open>parts.join(sep)\<close>.\<close>

fun join_with :: "string \<Rightarrow> string list \<Rightarrow> string" where
  "join_with sep [] = []"
| "join_with sep [x] = x"
| "join_with sep (x # xs) = x @ sep @ join_with sep xs"

text \<open>
  A text between double quotes, as Mongoose prints a value or a path in a message
  (\<open>util.inspect\<close>; the escaping of quotes, backslashes and control characters is not
  modelled).
\<close>

definition quoted :: "string \<Rightarrow> string" where
  "quoted s = CHR 0x22 # s @ [CHR 0x22]"

text \<open>The message of the \<open>required\<close> validator of a path.\<close>

definition required_error :: "string \<Rightarrow> string \<times> string" where
  "required_error p = (p, ''Path '' @ [CHR 0x60] @ p @ [CHR 0x60] @ '' is required.'')"

text \<open>\<open>err.message\<close>, as the catch blocks of the controller read it.\<close>

definition err_message :: "js_error \<Rightarrow> string" where
  "err_message e = (case e of
      Error m \<Rightarrow> m
    | TypeError m \<Rightarrow> m
    | StoreError \<Rightarrow> ''connection to the store failed''
    | CastError k v p m \<Rightarrow>
        ''Cast to '' @ k @ '' failed for value '' @ quoted v @ '' (type string) at path '' @ quoted p @
        (case m of None \<Rightarrow> [] | Some n \<Rightarrow> '' for model '' @ quoted n)
    | ValidationError m es \<Rightarrow>
        (case m of None \<Rightarrow> ''Validation failed'' | Some n \<Rightarrow> n @ '' validation failed'') @ '': '' @
        join_with '', '' (map (\<lambda>(p, msg). p @ '': '' @ msg) es)
    | DocumentNotFound \<Rightarrow> ''No document found'')"

text \<open>
  What a request observes of the world besides the store: \<open>Date.now()\<close>, the hex text
  of \<open>crypto.randomBytes(20)\<close>, the positions (0 for the first) of the handler's
  store writes that fail, and \<open>Date.parse\<close> of the JavaScript engine (ECMA-262 21.4.3.2:
  the ISO format and implementation-defined fallbacks), which gives a time clipped to
  the range of Dates or none; the engine's choice is left open.
\<close>

record env =
  req_time :: time
  random_hex :: string
  failing_writes :: "nat list"
  date_parse :: "string \<Rightarrow> int option"

definition write_fails :: "env \<Rightarrow> nat \<Rightarrow> bool" where
  "write_fails ev k \<longleftrightarrow> k \<in> set (failing_writes ev)"

section \<open>Queries\<close>

text \<open>\<open>User.findOne({email})\<close>.\<close>

definition find_by_email :: "store \<Rightarrow> string \<Rightarrow> user option" where
  "find_by_email st e = find (\<lambda>u. email u = e) st"

text \<open>\<open>User.findById(id)\<close>.\<close>

definition find_by_id :: "store \<Rightarrow> oid \<Rightarrow> user option" where
  "find_by_id st i = find (\<lambda>u. uid u = i) st"

text \<open>
  The filter \<open>resetPasswordExpire: {$gt: now}\<close>: a missing field never matches a
  comparison.
\<close>

definition reset_live :: "time \<Rightarrow> user \<Rightarrow> bool" where
  "reset_live now u = (case resetPasswordExpire u of None \<Rightarrow> False | Some x \<Rightarrow> int now < x)"

text \<open>\<open>User.findOne({resetPasswordToken, resetPasswordExpire: {$gt: Date.now()}})\<close>.\<close>

definition find_by_reset :: "store \<Rightarrow> string \<Rightarrow> time \<Rightarrow> user option" where
  "find_by_reset st h now = find (\<lambda>u. resetPasswordToken u = Some h \<and> reset_live now u) st"

text \<open>
  A document read by a query without \<open>.select('+password')\<close>: the schema hides the
  password (\<open>select: false\<close>), so the loaded document has none (read as \<open>''\<close>).
\<close>

definition without_password :: "user \<Rightarrow> user" where
  "without_password u = u\<lparr>password := []\<rparr>"

text \<open>
  The write of a saved document: a path is modified when the handler assigned it a value
  other than the one read (\<open>orig\<close> against \<open>u\<close>); the write \<open>$set\<close>s the
  modified paths to their values after the pre-save hooks (\<open>w\<close>) on the stored
  document \<open>v\<close> with the same \<open>_id\<close>; other paths keep what is stored.
\<close>

definition pick :: "'a \<Rightarrow> 'a \<Rightarrow> 'a \<Rightarrow> 'a \<Rightarrow> 'a" where
  "pick assigned read stored saved = (if assigned = read then stored else saved)"

definition merge_delta :: "user \<Rightarrow> user \<Rightarrow> user \<Rightarrow> user \<Rightarrow> user" where
  "merge_delta orig u w v =
     v\<lparr>userName := pick (userName u) (userName orig) (userName v) (userName w),
       email := pick (email u) (email orig) (email v) (email w),
       password := pick (password u) (password orig) (password v) (password w),
       firstName := pick (firstName u) (firstName orig) (firstName v) (firstName w),
       lastName := pick (lastName u) (lastName orig) (lastName v) (lastName w),
       gender := pick (gender u) (gender orig) (gender v) (gender w),
       resetPasswordToken :=
         pick (resetPasswordToken u) (resetPasswordToken orig) (resetPasswordToken v) (resetPasswordToken w),
       resetPasswordExpire :=
         pick (resetPasswordExpire u) (resetPasswordExpire orig) (resetPasswordExpire v) (resetPasswordExpire w)\<rparr>"

definition store_update :: "user \<Rightarrow> user \<Rightarrow> user \<Rightarrow> store \<Rightarrow> store" where
  "store_update orig u w st = map (\<lambda>v. if uid v = uid u then merge_delta orig u w v else v) st"

section \<open>The User model\<close>

text \<open>The reset window of \<open>getResetPasswordToken\<close>: ten minutes, in milliseconds.\<close>

definition reset_window :: nat where
  "reset_window = 10 * 60 * 1000"

text \<open>
  \<open>user.getResetPasswordToken()\<close>: the random hex text is the token handed back;
  its SHA-256 and the expiry \<open>now + 10 min\<close> are set on the document (not yet saved).
\<close>

definition getResetPasswordToken :: "crypto \<Rightarrow> time \<Rightarrow> string \<Rightarrow> user \<Rightarrow> string \<times> user" where
  "getResetPasswordToken C now rnd u =
     (rnd, u\<lparr>resetPasswordToken := Some (sha256_hex C rnd),
             resetPasswordExpire := Some (int (now + reset_window))\<rparr>)"

text \<open>
  \<open>user.getSignedJwtToken()\<close>: \<open>jwt.sign({id: this._id}, JWT_SECRET, {expiresIn:
  JWT_EXPIRE})\<close>. \<open>sign\<close> throws when the key is falsy, when \<open>expiresIn\<close> is
  unset or empty (its options check), and when \<open>ms\<close> cannot read it as a timespan;
  \<open>jwt_sign_error\<close> is that error. Otherwise the token's \<open>exp\<close> is \<open>iat\<close> plus
  \<open>session_ttl\<close> seconds (a bare number is milliseconds to \<open>ms\<close>), and
  \<open>getSignedJwtToken\<close> is the token returned.
\<close>

definition jwt_sign_error :: "config \<Rightarrow> js_error option" where
  "jwt_sign_error cfg =
     (if jwt_secret cfg = [] then Some (Error ''secretOrPrivateKey must have a value'')
      else if jwt_expire cfg = None \<or> jwt_expire cfg = Some []
      then Some (Error ''\"expiresIn\" should be a number of seconds or string representing a timespan'')
      else case expires_in (jwt_expire cfg) of
             None \<Rightarrow> Some (Error (''\"expiresIn\" should be a number of seconds or string representing a timespan''
                                   @ '' eg: \"1d\", \"20h\", 60''))
           | Some _ \<Rightarrow> None)"

definition session_ttl :: "config \<Rightarrow> int" where
  "session_ttl cfg = (case expires_in (jwt_expire cfg) of Some t \<Rightarrow> t | None \<Rightarrow> 0)"

definition getSignedJwtToken :: "crypto \<Rightarrow> config \<Rightarrow> time \<Rightarrow> user \<Rightarrow> string" where
  "getSignedJwtToken C cfg now u = jwt_sign C (jwt_secret cfg) (session_ttl cfg) (uid u) now"

text \<open>The pre-save hook: the password is hashed when it was modified, left alone otherwise.\<close>

definition pre_save :: "crypto \<Rightarrow> user \<Rightarrow> user \<Rightarrow> user" where
  "pre_save C orig u = (if password u \<noteq> password orig then u\<lparr>password := bcrypt_hash C (password u)\<rparr> else u)"

text \<open>
  The required paths of the schema (email and password) that a document leaves empty:
  \<open>undefined\<close> and \<open>''\<close> both fail \<open>required\<close>.
\<close>

definition missing_paths :: "user \<Rightarrow> string list" where
  "missing_paths u = (if email u = [] then [''email''] else []) @ (if password u = [] then [''password''] else [])"

text \<open>
  \<open>doc.save(opts)\<close> of a document read as \<open>orig\<close> and changed to \<open>u\<close>. Validation
  (unless \<open>validateBeforeSave: false\<close>) runs first, on every path that was loaded or
  modified, whether or not anything changed; in this controller every validated save
  either loaded the password (\<open>select('+password')\<close>) or assigned it, so both required
  paths are checked. Then nothing is written when nothing changed (a path is modified
  when its value differs from the one read: one set back to the value read is
  unmarked); otherwise the pre-save hook runs and the modified paths are written, which
  may fail, and which finds no document when it was deleted meanwhile.
\<close>

definition doc_save ::
  "crypto \<Rightarrow> bool \<Rightarrow> bool \<Rightarrow> user \<Rightarrow> user \<Rightarrow> store \<Rightarrow> js_error + (user \<times> store)" where
  "doc_save C validate fails orig u st =
     (if validate \<and> missing_paths u \<noteq> [] then Inl (ValidationError (Some ''User'') (map required_error (missing_paths u)))
      else if u = orig then Inr (u, st)
      else if fails then Inl StoreError
      else if uid u \<notin> set (map uid st) then Inl DocumentNotFound
      else let u' = pre_save C orig u in Inr (u', store_update orig u u' st))"

section \<open>Invariants of the collection\<close>

text \<open>Object ids are unique, and so are emails (the schema's unique index).\<close>

definition wf_store :: "store \<Rightarrow> bool" where
  "wf_store st \<longleftrightarrow> distinct (map uid st) \<and> distinct (map email st)"

text \<open>Spec section 3: the reset token hash and its expiry are both present or both absent.\<close>

definition reset_paired :: "user \<Rightarrow> bool" where
  "reset_paired u \<longleftrightarrow> (resetPasswordToken u = None) = (resetPasswordExpire u = None)"

section \<open>Lemmas\<close>

lemma pick_simps [simp]: "pick a a x y = x" "a \<noteq> b \<Longrightarrow> pick a b x y = y"
  by (simp_all add: pick_def)

lemma merge_delta_simps [simp]:
  "uid (merge_delta orig u w v) = uid v"
  "email (merge_delta orig u w v) = pick (email u) (email orig) (email v) (email w)"
  "password (merge_delta orig u w v) = pick (password u) (password orig) (password v) (password w)"
  "resetPasswordToken (merge_delta orig u w v) =
     pick (resetPasswordToken u) (resetPasswordToken orig) (resetPasswordToken v) (resetPasswordToken w)"
  "resetPasswordExpire (merge_delta orig u w v) =
     pick (resetPasswordExpire u) (resetPasswordExpire orig) (resetPasswordExpire v) (resetPasswordExpire w)"
  by (simp_all add: merge_delta_def)

text \<open>
  When the document was read from the stored one (all paths equal, but perhaps the
  hidden password) and only the password differs between \<open>u\<close> and \<open>w\<close>, the
  merged write is the saved document, with the stored password where the handler did
  not assign one.
\<close>

lemma merge_delta_read:
  assumes "orig\<lparr>password := password v\<rparr> = v" and "w\<lparr>password := password u\<rparr> = u"
    and "uid u = uid v"
  shows "merge_delta orig u w v = w\<lparr>password := pick (password u) (password orig) (password v) (password w)\<rparr>"
  using assms by (cases u, cases v, cases orig, cases w) (simp add: merge_delta_def pick_def)

lemma map_uid_store_update [simp]: "map uid (store_update orig u w st) = map uid st"
  by (induction st) (simp_all add: store_update_def)

lemma store_update_same_email:
  "email u = email orig \<Longrightarrow> map email (store_update orig u w st) = map email st"
  by (simp add: store_update_def)

lemma find_by_id_store_update:
  "distinct (map uid st) \<Longrightarrow> v \<in> set st \<Longrightarrow> uid v = uid u \<Longrightarrow>
   find_by_id (store_update orig u w st) (uid u) = Some (merge_delta orig u w v)"
proof (induction st)
  case Nil
  then show ?case by simp
next
  case (Cons x xs)
  then show ?case by (auto simp: store_update_def find_by_id_def image_iff)
qed

lemma set_store_updateD:
  "x \<in> set (store_update orig u w st) \<Longrightarrow>
   (\<exists>v \<in> set st. uid v = uid u \<and> x = merge_delta orig u w v) \<or> (x \<in> set st \<and> uid x \<noteq> uid u)"
  by (auto simp: store_update_def)

lemma uid_unique:
  "distinct (map uid st) \<Longrightarrow> v \<in> set st \<Longrightarrow> w \<in> set st \<Longrightarrow> uid w = uid v \<Longrightarrow> w = v"
  by (metis distinct_map inj_onD)

lemma find_by_reset_Some [dest]:
  "find_by_reset st h now = Some v \<Longrightarrow> v \<in> set st \<and> resetPasswordToken v = Some h \<and> reset_live now v"
  by (auto simp: find_by_reset_def)

lemma find_by_email_Some [dest]: "find_by_email st e = Some v \<Longrightarrow> v \<in> set st \<and> email v = e"
  by (auto simp: find_by_email_def)

lemma find_by_id_Some [dest]: "find_by_id st i = Some v \<Longrightarrow> v \<in> set st \<and> uid v = i"
  by (auto simp: find_by_id_def)

lemma getSignedJwtToken_uid: "uid u = uid v \<Longrightarrow> getSignedJwtToken C cfg now u = getSignedJwtToken C cfg now v"
  by (simp add: getSignedJwtToken_def)

text \<open>
  Saving a document read without its password, after assigning it fields \<open>g\<close> that
  leave the id alone: every stored document with that id becomes the assigned one, with
  the password of the store when none was assigned and the hash of the assigned one
  otherwise.
\<close>

lemma doc_save_read:
  assumes "v \<in> set st" "distinct (map uid st)"
    and "u1 = g (without_password v)" "uid u1 = uid v" "u1 \<noteq> without_password v"
    and "\<not> (val \<and> missing_paths u1 \<noteq> [])" "\<not> f"
  shows "doc_save C val f (without_password v) u1 st =
           Inr (pre_save C (without_password v) u1,
                map (\<lambda>w. if uid w = uid v
                          then (pre_save C (without_password v) u1)\<lparr>password :=
                                 (if password u1 = [] then password v else bcrypt_hash C (password u1))\<rparr>
                          else w) st)"
proof -
  let ?o = "without_password v" and ?w = "pre_save C (without_password v) u1"
  have merge: "merge_delta ?o u1 ?w x = ?w\<lparr>password := (if password u1 = [] then password v else bcrypt_hash C (password u1))\<rparr>"
    if "x \<in> set st" "uid x = uid v" for x
  proof -
    have "x = v" using uid_unique assms(1,2) that by blast
    moreover have "?w\<lparr>password := password u1\<rparr> = u1"
      by (simp add: pre_save_def without_password_def)
    ultimately show ?thesis
      using merge_delta_read [where orig = ?o and v = x and w = ?w and u = u1] assms(4)
      by (simp add: without_password_def pre_save_def pick_def)
  qed
  have "uid u1 \<in> set (map uid st)" using assms(1,4) by simp
  then show ?thesis
    using assms(4-7) merge by (simp add: doc_save_def store_update_def Let_def)
qed

lemma find_by_id_in_wf:
  "distinct (map uid st) \<Longrightarrow> u \<in> set st \<Longrightarrow> find_by_id st (uid u) = Some u"
  by (simp add: find_by_id_def find_distinct_key)

lemma pre_save_simps [simp]:
  "uid (pre_save C orig u) = uid u" "email (pre_save C orig u) = email u"
  "resetPasswordToken (pre_save C orig u) = resetPasswordToken u"
  "resetPasswordExpire (pre_save C orig u) = resetPasswordExpire u"
  by (simp_all add: pre_save_def)

text \<open>What a successful save returns and writes.\<close>

lemma doc_save_Inr:
  assumes "doc_save C val f orig u st = Inr (u', st')"
  shows "(u = orig \<and> u' = u \<and> st' = st) \<or>
    (u \<noteq> orig \<and> u' = pre_save C orig u \<and> st' = store_update orig u u' st \<and> uid u \<in> set (map uid st))"
  using assms by (auto simp: doc_save_def Let_def split: if_splits)

text \<open>A save that keeps the email keeps the collection well formed.\<close>

lemma doc_save_wf_store:
  assumes "doc_save C val f orig u st = Inr (u', st')" and "wf_store st"
    and "email u = email orig"
  shows "wf_store st'"
  using doc_save_Inr [OF assms(1)] assms(2,3)
  by (auto simp: wf_store_def store_update_same_email)

text \<open>A token issued for a user verifies to that user's id as long as it has not expired.\<close>

lemma jwt_sign_error_None:
  "jwt_sign_error cfg = None \<longleftrightarrow> jwt_secret cfg \<noteq> [] \<and> expires_in (jwt_expire cfg) \<noteq> None"
  by (auto simp: jwt_sign_error_def expires_in_def ms_parse_def split: option.splits)

lemma jwt_verify_getSignedJwtToken:
  assumes "jwt_sign_error cfg = None" "int (now' div 1000) < int (now div 1000) + session_ttl cfg"
  shows "jwt_verify C (jwt_secret cfg) now' (getSignedJwtToken C cfg now u) = Inr (uid u)"
  using assms by (simp add: getSignedJwtToken_def jwt_sign_def Let_def jwt_verify_encode jwt_sign_error_None)

text \<open>Queries on a collection where one document's fields were rewritten in place.\<close>

lemma find_by_id_map:
  "(\<And>w. uid (g w) = uid w) \<Longrightarrow> find_by_id (map g st) i = map_option g (find_by_id st i)"
  by (simp add: find_by_id_def find_map_same)

lemma find_by_email_map:
  "(\<And>w. email (g w) = email w) \<Longrightarrow> find_by_email (map g st) e = map_option g (find_by_email st e)"
  by (simp add: find_by_email_def find_map_same)

lemma find_by_reset_map:
  "(\<And>w. resetPasswordToken (g w) = resetPasswordToken w) \<Longrightarrow>
   (\<And>w. resetPasswordExpire (g w) = resetPasswordExpire w) \<Longrightarrow>
   find_by_reset (map g st) h now = map_option g (find_by_reset st h now)"
  by (simp add: find_by_reset_def reset_live_def find_map_same)

lemma wf_store_map:
  "(\<And>w. uid (g w) = uid w) \<Longrightarrow> (\<And>w. email (g w) = email w) \<Longrightarrow> wf_store (map g st) = wf_store st"
  by (simp add: wf_store_def comp_def)


end
