(* ===== verification/Http.thy ===== *)
theory Http
  imports Store "HOL-Library.Sublist"
begin

text \<open>
  The Express side of a handler: the response it builds through \<open>res.status\<close>,
  \<open>res.setHeader\<close>, \<open>res.cookie\<close> and \<open>res.json\<close>, and the two response helpers of
  src/controllers/userController.js that do not touch the store, \<open>sendTokenResponse\<close>
  (lines 199-214), which issues the session cookie, and \<open>logout\<close> (lines 189-197),
  which overwrites it. A response is a value; the handler returns it.
\<close>

section \<open>Requests and outcomes\<close>

text \<open>
  \<open>req.body\<close>, \<open>req.query\<close> and \<open>req.params\<close> as association lists of texts, and
  the id of \<open>req.user\<close>, which the authentication middleware sets (absent when no
  middleware ran).
\<close>

record request =
  body :: "(string \<times> string) list"
  query :: "(string \<times> string) list"
  params :: "(string \<times> string) list"
  auth_user :: "oid option"

definition body_field :: "request \<Rightarrow> string \<Rightarrow> string option" where
  "body_field req k = map_of (body req) k"

section \<open>Responses\<close>

text \<open>
  A JSON value as \<open>res.json\<close> receives it; a \<open>Date\<close> (\<open>JDate\<close>, milliseconds from
  the epoch) is written by \<open>JSON.stringify\<close> as its ISO 8601 text.
\<close>

datatype json =
  JNull
| JBool bool
| JNum int
| JStr string
| JDate int
| JArr "json list"
| JObj "(string \<times> json) list"

text \<open>The options of \<open>res.cookie(name, value, options)\<close>; \<open>expires\<close> in milliseconds.\<close>

record cookie =
  cookie_value :: string
  cookie_expires :: int
  cookie_http_only :: bool
  cookie_secure :: bool

record response =
  status :: nat
  headers :: "(string \<times> string) list"
  cookies :: "(string \<times> cookie) list"
  json_body :: "json option"

text \<open>What a handler produces: its response or what it throws, and the collection it leaves.\<close>

type_synonym outcome = "(js_error + response) \<times> store"

text \<open>A fresh \<open>res\<close>: status 200, nothing set.\<close>

definition new_response :: response where
  "new_response = \<lparr>status = 200, headers = [], cookies = [], json_body = None\<rparr>"

definition res_status :: "nat \<Rightarrow> response \<Rightarrow> response" where
  "res_status n r = r\<lparr>status := n\<rparr>"

definition res_set_header :: "string \<Rightarrow> string \<Rightarrow> response \<Rightarrow> response" where
  "res_set_header k v r = r\<lparr>headers := (k, v) # filter (\<lambda>(k', _). k' \<noteq> k) (headers r)\<rparr>"

definition res_cookie :: "string \<Rightarrow> cookie \<Rightarrow> response \<Rightarrow> response" where
  "res_cookie name c r = r\<lparr>cookies := cookies r @ [(name, c)]\<rparr>"

text \<open>
  \<open>res.json(body)\<close>: the Content-Type defaults to \<open>application/json\<close>, and \<open>res.send\<close>
  adds the charset to whatever type is set.
\<close>

definition res_json :: "json \<Rightarrow> response \<Rightarrow> response" where
  "res_json j r =
     (let t = (case map_of (headers r) ''Content-Type'' of None \<Rightarrow> ''application/json'' | Some t \<Rightarrow> t)
      in (res_set_header ''Content-Type'' (t @ ''; charset=utf-8'') r)\<lparr>json_body := Some j\<rparr>)"

text \<open>The session token a response sets, if any: the last \<open>token\<close> cookie.\<close>

definition response_token :: "response \<Rightarrow> string option" where
  "response_token r = map_option cookie_value (map_of (rev (cookies r)) ''token'')"

text \<open>\<open>res.status(200).setHeader('Content-Type', 'application/json').json(j)\<close>.\<close>

definition json_ok :: "json \<Rightarrow> response" where
  "json_ok j = res_json j (res_set_header ''Content-Type'' ''application/json'' (res_status 200 new_response))"

text \<open>
  What every \<open>res.json\<close> answer looks like on the wire: a JSON body, and a Content-Type
  to which the charset was added.
\<close>

definition json_response :: "response \<Rightarrow> bool" where
  "json_response r \<longleftrightarrow>
     json_body r \<noteq> None \<and>
     (case map_of (headers r) ''Content-Type'' of None \<Rightarrow> False | Some t \<Rightarrow> suffix ''; charset=utf-8'' t)"

section \<open>sendTokenResponse and logout\<close>

text \<open>
  The cookie's \<open>expires\<close>: \<open>new Date(Date.now() + process.env.JWT_COOKIE_EXPIRE * 24 *
  60 * 60 * 1000)\<close>. The text is coerced by \<open>Number()\<close>; unset or not numeric it is
  \<open>NaN\<close>, and so is the date; a date beyond the range of Date is invalid too.
\<close>

definition cookie_expiry :: "time \<Rightarrow> string option \<Rightarrow> int option" where
  "cookie_expiry now v =
     (case v of None \<Rightarrow> None | Some s \<Rightarrow> js_date (int now) (js_number s) (24 * 60 * 60 * 1000))"

text \<open>
  \<open>sendTokenResponse(user, statusCode, res)\<close>: the signed token (line 200, where
  \<open>jwt.sign\<close> may throw) goes both into an http-only cookie that expires
  \<open>JWT_COOKIE_EXPIRE\<close> days from now (secure in production) and into the JSON body. An
  invalid date makes \<open>res.cookie\<close> throw.
\<close>

definition sendTokenResponse :: "crypto \<Rightarrow> config \<Rightarrow> time \<Rightarrow> user \<Rightarrow> nat \<Rightarrow> js_error + response" where
  "sendTokenResponse C cfg now u code =
     (case jwt_sign_error cfg of
        Some e \<Rightarrow> Inl e
      | None \<Rightarrow>
          (let token = getSignedJwtToken C cfg now u
           in case cookie_expiry now (jwt_cookie_expire cfg) of
                None \<Rightarrow> Inl (TypeError ''option expires is invalid'')
              | Some t \<Rightarrow>
                  let opts = \<lparr>cookie_value = token, cookie_expires = t,
                              cookie_http_only = True, cookie_secure = (node_env cfg = ''production'')\<rparr>
                  in Inr (res_json (JObj [(''success'', JBool True), (''token'', JStr token)])
                            (res_cookie ''token'' opts (res_status code new_response)))))"

text \<open>
  The configuration under which \<open>sendTokenResponse\<close> answers at time \<open>now\<close>: a key and
  a timespan \<open>jsonwebtoken\<close> accepts, and a valid cookie date.
\<close>

definition session_ok :: "config \<Rightarrow> time \<Rightarrow> bool" where
  "session_ok cfg now \<longleftrightarrow> jwt_sign_error cfg = None \<and> cookie_expiry now (jwt_cookie_expire cfg) \<noteq> None"

text \<open>\<open>logout\<close>: the token cookie is overwritten with \<open>'none'\<close>, expiring in ten seconds.\<close>

definition logout :: "time \<Rightarrow> response" where
  "logout now =
     res_json (JObj [(''success'', JBool True), (''msg'', JStr ''Successfully logged out!'')])
       (res_cookie ''token''
          \<lparr>cookie_value = ''none'', cookie_expires = int now + 10 * 1000,
           cookie_http_only = True, cookie_secure = False\<rparr>
          (res_status 200 new_response))"

section \<open>Lemmas\<close>

lemma response_token_res_json [simp]: "response_token (res_json j r) = response_token r"
  by (simp add: res_json_def res_set_header_def response_token_def Let_def)

lemma response_token_res_cookie [simp]:
  "response_token (res_cookie n c r) =
     (if n = ''token'' then Some (cookie_value c) else response_token r)"
  by (simp add: res_cookie_def response_token_def)

lemma response_token_res_status [simp]: "response_token (res_status n r) = response_token r"
  by (simp add: res_status_def response_token_def)

lemma status_res_json [simp]: "status (res_json j r) = status r"
  by (simp add: res_json_def res_set_header_def Let_def)

lemma status_res_cookie [simp]: "status (res_cookie n c r) = status r"
  by (simp add: res_cookie_def)

lemma status_res_status [simp]: "status (res_status n r) = n"
  by (simp add: res_status_def)

lemma json_ok_simps [simp]: "json_body (json_ok j) = Some j" "status (json_ok j) = 200"
  "response_token (json_ok j) = None"
  by (simp_all add: json_ok_def res_json_def res_set_header_def res_status_def new_response_def
      response_token_def Let_def)

lemma json_response_res_json [simp]: "json_response (res_json j r)"
  by (simp add: json_response_def res_json_def res_set_header_def Let_def suffix_def)

lemma json_response_json_ok [simp]: "json_response (json_ok j)"
  by (simp add: json_ok_def)

lemma sendTokenResponse_json:
  "sendTokenResponse C cfg now u code = Inr r \<Longrightarrow> json_response r \<and> status r = code"
  by (auto simp: sendTokenResponse_def Let_def split: option.splits)

lemma sendTokenResponse_Inr:
  "sendTokenResponse C cfg now u code = Inr r \<Longrightarrow>
   status r = code \<and> response_token r = Some (getSignedJwtToken C cfg now u)"
  by (auto simp: sendTokenResponse_def Let_def split: option.splits)

lemma sendTokenResponse_Inl:
  "sendTokenResponse C cfg now u code = Inl e \<longleftrightarrow>
   jwt_sign_error cfg = Some e \<or>
   (jwt_sign_error cfg = None \<and> cookie_expiry now (jwt_cookie_expire cfg) = None \<and>
    e = TypeError ''option expires is invalid'')"
  by (auto simp: sendTokenResponse_def Let_def split: option.splits)

lemma sendTokenResponse_ok:
  "session_ok cfg now \<Longrightarrow> \<exists>r. sendTokenResponse C cfg now u code = Inr r"
  by (auto simp: sendTokenResponse_def session_ok_def Let_def)

lemma sendTokenResponse_session_ok:
  "sendTokenResponse C cfg now u code = Inr r \<Longrightarrow> session_ok cfg now"
  by (auto simp: sendTokenResponse_def session_ok_def Let_def split: option.splits)

lemma sendTokenResponse_not_ok:
  "\<not> session_ok cfg now \<Longrightarrow> \<exists>e. sendTokenResponse C cfg now u code = Inl e"
  by (metis sendTokenResponse_session_ok sumE)

text \<open>A cookie lifetime written as a numeral of days, within the range of Date.\<close>

lemma cookie_expiry_days:
  "int now + int d * 86400000 \<le> 8640000000000000 \<Longrightarrow>
   cookie_expiry now (Some (show_nat d)) = Some (int now + int d * 86400000)"
  by (simp add: cookie_expiry_def js_date_def frac_of_def time_clip_def)

text \<open>
  C22. The session cookie: http-only, secure exactly in production, and alive for
  \<open>JWT_COOKIE_EXPIRE\<close> days, where the comment on line 203 says about two hours.
\<close>

theorem sendTokenResponse_cookie:
  assumes "jwt_sign_error cfg = None" "jwt_cookie_expire cfg = Some (show_nat d)"
    and "int now + int d * 86400000 \<le> 8640000000000000"
  shows "\<exists>r. sendTokenResponse C cfg now u code = Inr r \<and> status r = code \<and>
     cookies r = [(''token'', \<lparr>cookie_value = getSignedJwtToken C cfg now u,
                     cookie_expires = int now + int d * 86400000, cookie_http_only = True,
                     cookie_secure = (node_env cfg = ''production'')\<rparr>)]"
  using assms cookie_expiry_days [OF assms(3)]
  by (simp add: sendTokenResponse_def res_json_def res_set_header_def res_cookie_def
      res_status_def new_response_def Let_def)

text \<open>
  C23. Spec 4.4: logout only tells the client to drop its token. The cookie is overwritten
  with \<open>none\<close>, which no key verifies, and expires ten seconds later.
\<close>

theorem logout_clears_session:
  "response_token (logout now) = Some ''none'' \<and> status (logout now) = 200 \<and>
   jwt_verify C k now' ''none'' = Inl TokenInvalid"
  by (simp add: logout_def jwt_verify_def jwt_decode_def jwt_header_def codec_simps)

end
