(* ===== verification/Auth.thy ===== *)
theory Auth
  imports Http
begin

text \<open>
  The CredentialService of the spec as src/controllers/userController.js implements it:
  the handlers \<open>login\<close> (lines 111-127), \<open>forgotPassword\<close> (129-154),
  \<open>resetPassword\<close> (156-173) and \<open>updatePassword\<close> (175-187). Each handler takes the
  request and the collection and returns what it responds or throws together with the
  collection it leaves behind: a throw after a write keeps the write. Every \<open>await\<close>
  of a query or a save is one step of the function, in the order of the source.
\<close>

section \<open>Handlers\<close>

text \<open>
  \<open>login\<close>: both fields are required; an unknown email and a wrong password are two
  different errors, as in the source.
\<close>

definition login :: "crypto \<Rightarrow> config \<Rightarrow> env \<Rightarrow> request \<Rightarrow> store \<Rightarrow> outcome" where
  "login C cfg ev req st =
     (let e = body_field req ''email''; p = body_field req ''password''
      in if \<not> truthy e \<or> \<not> truthy p then (Inl (Error ''Enter email and pw''), st)
         else case find_by_email st (the e) of
                None \<Rightarrow> (Inl (Error ''Invalid Credentials''), st)
              | Some u \<Rightarrow>
                  if \<not> match_password C (the p) (password u)
                  then (Inl (Error ''Invalid Credential''), st)
                  else (sendTokenResponse C cfg (req_time ev) u 200, st))"

text \<open>
  \<open>forgotPassword\<close>: the reset token is set on the document and saved without
  validation; the plaintext token is sent back in the response. When the save fails, the
  catch block clears both reset fields, saves again, and throws. A missing email matches
  no document. The query does not select the password.
\<close>

definition forgot_ok_response :: "string \<Rightarrow> response" where
  "forgot_ok_response tok =
     res_json (JObj [(''success'', JBool True), (''msg'', JStr (''YOU CAN RESET PW WITH TOKEN: '' @ tok))])
       (res_set_header ''Content-Type'' ''application/json'' (res_status 200 new_response))"

definition forgotPassword :: "crypto \<Rightarrow> config \<Rightarrow> env \<Rightarrow> request \<Rightarrow> store \<Rightarrow> outcome" where
  "forgotPassword C cfg ev req st =
     (case (case body_field req ''email'' of None \<Rightarrow> None | Some e \<Rightarrow> find_by_email st e) of
        None \<Rightarrow> (Inl (Error ''NO USER FOUND''), st)
      | Some v \<Rightarrow>
          (let u = without_password v;
               (tok, u1) = getResetPasswordToken C (req_time ev) (random_hex ev) u
           in case doc_save C False (write_fails ev 0) u u1 st of
                Inr (_, st1) \<Rightarrow> (Inr (forgot_ok_response tok), st1)
              | Inl _ \<Rightarrow>
                  (let u2 = u1\<lparr>resetPasswordToken := None, resetPasswordExpire := None\<rparr>
                   in case doc_save C False (write_fails ev 1) u u2 st of
                        Inl e \<Rightarrow> (Inl e, st)
                      | Inr (_, st2) \<Rightarrow> (Inl (Error ''FAILED TO SAVE PASSWORD TOKEN''), st2))))"

text \<open>
  \<open>resetPassword\<close>: hashing \<open>req.query.resetToken\<close> throws when it is absent; the
  document must hold that hash with an expiry still in the future. The new password is
  set and the expiry cleared (line 167 and again line 168; the token hash is left), and
  the document is saved with validation, which hashes the new password. The query does
  not select the password, so assigning one always modifies it.
\<close>

definition resetPassword :: "crypto \<Rightarrow> config \<Rightarrow> env \<Rightarrow> request \<Rightarrow> store \<Rightarrow> outcome" where
  "resetPassword C cfg ev req st =
     (case map_of (query req) ''resetToken'' of
        None \<Rightarrow> (Inl (TypeError ''The data argument must be of type string''), st)
      | Some t \<Rightarrow>
          (case find_by_reset st (sha256_hex C t) (req_time ev) of
             None \<Rightarrow> (Inl (Error ''Invalid Token''), st)
           | Some v \<Rightarrow>
               (let u = without_password v;
                    u1 = u\<lparr>password := (case body_field req ''password'' of None \<Rightarrow> [] | Some p \<Rightarrow> p),
                           resetPasswordExpire := None\<rparr>
                in case doc_save C True (write_fails ev 0) u u1 st of
                     Inl e \<Rightarrow> (Inl e, st)
                   | Inr (u2, st1) \<Rightarrow> (sendTokenResponse C cfg (req_time ev) u2 200, st1))))"

text \<open>
  \<open>updatePassword\<close>: the signed-in user must give the current password; the document
  is then saved as it was read (no field is assigned) and a fresh token is sent.
  \<open>bcrypt.compare\<close> rejects an absent password.
\<close>

definition updatePassword :: "crypto \<Rightarrow> config \<Rightarrow> env \<Rightarrow> request \<Rightarrow> store \<Rightarrow> outcome" where
  "updatePassword C cfg ev req st =
     (case auth_user req of
        None \<Rightarrow> (Inl (TypeError ''Cannot read properties of undefined''), st)
      | Some i \<Rightarrow>
          (case find_by_id st i of
             None \<Rightarrow> (Inl (Error ''Invalid Credentials''), st)
           | Some u \<Rightarrow>
               (case body_field req ''password'' of
                  None \<Rightarrow> (Inl (Error ''Illegal arguments: undefined, string''), st)
                | Some p \<Rightarrow>
                    if \<not> match_password C p (password u) then (Inl (Error ''Password is incorrect''), st)
                    else (case doc_save C True (write_fails ev 0) u u st of
                            Inl e \<Rightarrow> (Inl e, st)
                          | Inr (u', st') \<Rightarrow> (sendTokenResponse C cfg (req_time ev) u' 200, st')))))"

section \<open>Effects on the collection\<close>

text \<open>The effect on the collection of a write of the two reset fields of one document.\<close>

definition set_reset_fields :: "oid \<Rightarrow> string option \<Rightarrow> int option \<Rightarrow> store \<Rightarrow> store" where
  "set_reset_fields i h x st =
     map (\<lambda>w. if uid w = i then w\<lparr>resetPasswordToken := h, resetPasswordExpire := x\<rparr> else w) st"

text \<open>The effect on the collection of a successful reset: new password hash, expiry cleared.\<close>

definition consume_reset :: "oid \<Rightarrow> string \<Rightarrow> store \<Rightarrow> store" where
  "consume_reset i h st =
     map (\<lambda>w. if uid w = i then w\<lparr>password := h, resetPasswordExpire := None\<rparr> else w) st"

section \<open>Lemmas\<close>

lemmas handler_defs = login_def forgotPassword_def resetPassword_def updatePassword_def

subsection \<open>login\<close>

lemma login_store [simp]: "snd (login C cfg ev req st) = st"
  by (simp add: login_def Let_def split: option.splits)

lemma login_cases:
  "login C cfg ev req st =
     (if \<not> truthy (body_field req ''email'') \<or> \<not> truthy (body_field req ''password'')
      then (Inl (Error ''Enter email and pw''), st)
      else case find_by_email st (the (body_field req ''email'')) of
             None \<Rightarrow> (Inl (Error ''Invalid Credentials''), st)
           | Some u \<Rightarrow>
               if bcrypt_hash C (the (body_field req ''password'')) \<noteq> password u
               then (Inl (Error ''Invalid Credential''), st)
               else (sendTokenResponse C cfg (req_time ev) u 200, st))"
  by (simp add: login_def Let_def split: option.split)

text \<open>C10. A login succeeds only for a stored email whose password hashes to the stored hash.\<close>

theorem login_Inr:
  assumes "fst (login C cfg ev req st) = Inr r"
  shows "\<exists>e p u. body_field req ''email'' = Some e \<and> body_field req ''password'' = Some p \<and>
           find_by_email st e = Some u \<and> bcrypt_hash C p = password u \<and>
           response_token r = Some (getSignedJwtToken C cfg (req_time ev) u)"
proof -
  obtain e p where ep: "body_field req ''email'' = Some e" "body_field req ''password'' = Some p"
    using assms by (auto simp: login_cases truthy_def split: if_splits option.splits)
  then obtain u where u: "find_by_email st e = Some u" "bcrypt_hash C p = password u"
    and snd: "sendTokenResponse C cfg (req_time ev) u 200 = Inr r"
    using assms by (auto simp: login_cases split: if_splits option.splits)
  from sendTokenResponse_Inr [OF snd] ep u show ?thesis by blast
qed

text \<open>C9. Spec scenario A: the right email and password give a session token for that user.\<close>

theorem login_ok:
  assumes "body_field req ''email'' = Some e" "e \<noteq> []"
    and "body_field req ''password'' = Some p" "p \<noteq> []"
    and "find_by_email st e = Some u" "bcrypt_hash C p = password u"
    and "session_ok cfg (req_time ev)" "0 < session_ttl cfg"
  shows "\<exists>r t. login C cfg ev req st = (Inr r, st) \<and> status r = 200 \<and> response_token r = Some t \<and>
           jwt_verify C (jwt_secret cfg) (req_time ev) t = Inr (uid u)"
proof -
  obtain r where r: "sendTokenResponse C cfg (req_time ev) u 200 = Inr r"
    using sendTokenResponse_ok assms(7) by blast
  have "login C cfg ev req st = (Inr r, st)"
    using assms r by (simp add: login_cases)
  moreover have "jwt_verify C (jwt_secret cfg) (req_time ev) (getSignedJwtToken C cfg (req_time ev) u) = Inr (uid u)"
    using assms(7,8) by (simp add: session_ok_def jwt_verify_getSignedJwtToken)
  ultimately show ?thesis
    using sendTokenResponse_Inr [OF r] by blast
qed

lemma login_unknown_email:
  "body_field req ''email'' = Some e \<Longrightarrow> e \<noteq> [] \<Longrightarrow> truthy (body_field req ''password'') \<Longrightarrow>
   find_by_email st e = None \<Longrightarrow> login C cfg ev req st = (Inl (Error ''Invalid Credentials''), st)"
  by (simp add: login_cases)

lemma login_wrong_password:
  "body_field req ''email'' = Some e \<Longrightarrow> e \<noteq> [] \<Longrightarrow> body_field req ''password'' = Some p \<Longrightarrow>
   p \<noteq> [] \<Longrightarrow> find_by_email st e = Some u \<Longrightarrow> bcrypt_hash C p \<noteq> password u \<Longrightarrow>
   login C cfg ev req st = (Inl (Error ''Invalid Credential''), st)"
  by (simp add: login_cases)

text \<open>
  C7. Spec section 7 and scenario B ask that an unknown email and a wrong password be
  indistinguishable. The source throws two different messages, so the error reveals
  whether an email has an account.
\<close>

theorem login_reveals_account:
  assumes "body_field req ''email'' = Some e" "e \<noteq> []"
    and "body_field req ''password'' = Some p" "p \<noteq> []"
    and "find_by_email st_u e = None"
    and "find_by_email st_k e = Some u" "bcrypt_hash C p \<noteq> password u"
  shows "fst (login C cfg ev req st_u) \<noteq> fst (login C cfg ev req st_k)"
  using assms by (simp add: login_cases)

subsection \<open>updatePassword\<close>

text \<open>
  C8. The spec (4.4) has \<open>updatePassword\<close> hash and store the new password. The source
  assigns nothing before \<open>user.save()\<close>: whatever the request, the collection is left
  as it was.
\<close>

theorem updatePassword_store: "snd (updatePassword C cfg ev req st) = st"
  by (simp add: updatePassword_def doc_save_def split: option.splits)

text \<open>C16. Spec scenario E: a wrong current password is refused and nothing changes.\<close>

theorem updatePassword_wrong_password:
  "auth_user req = Some i \<Longrightarrow> find_by_id st i = Some u \<Longrightarrow> body_field req ''password'' = Some p \<Longrightarrow>
   bcrypt_hash C p \<noteq> password u \<Longrightarrow>
   updatePassword C cfg ev req st = (Inl (Error ''Password is incorrect''), st)"
  by (simp add: updatePassword_def)

subsection \<open>forgotPassword\<close>

lemma set_reset_fields_same:
  assumes "v \<in> set st" "distinct (map uid st)"
  shows "set_reset_fields (uid v) (resetPasswordToken v) (resetPasswordExpire v) st = st"
proof -
  have "w\<lparr>resetPasswordToken := resetPasswordToken v, resetPasswordExpire := resetPasswordExpire v\<rparr> = w"
    if "w \<in> set st" "uid w = uid v" for w
    using uid_unique [OF assms(2,1) that] by simp
  then show ?thesis by (simp add: set_reset_fields_def map_idI)
qed

lemma reset_fields_unchanged:
  "(without_password v)\<lparr>resetPasswordToken := h, resetPasswordExpire := x\<rparr> = without_password v \<longleftrightarrow>
   h = resetPasswordToken v \<and> x = resetPasswordExpire v"
  by (auto simp: without_password_def dest: arg_cong [where f = resetPasswordToken]
      arg_cong [where f = resetPasswordExpire])

lemma save_reset_fields:
  assumes "v \<in> set st" "distinct (map uid st)" "\<not> f"
  shows "\<exists>y. doc_save C False f (without_password v)
             ((without_password v)\<lparr>resetPasswordToken := h, resetPasswordExpire := x\<rparr>) st =
           Inr (y, set_reset_fields (uid v) h x st)"
proof (cases "(without_password v)\<lparr>resetPasswordToken := h, resetPasswordExpire := x\<rparr> = without_password v")
  case True
  then have "h = resetPasswordToken v" "x = resetPasswordExpire v"
    by (simp_all add: reset_fields_unchanged)
  with True assms(1,2) show ?thesis
    by (simp add: doc_save_def set_reset_fields_same)
next
  case False
  have "w\<lparr>resetPasswordToken := h, resetPasswordExpire := x\<rparr> =
      (without_password v)\<lparr>resetPasswordToken := h, resetPasswordExpire := x, password := password v\<rparr>"
    if "w \<in> set st" "uid w = uid v" for w
    using uid_unique [OF assms(2,1) that] by (simp add: without_password_def)
  with doc_save_read [OF assms(1,2) refl, where g = "\<lambda>u. u\<lparr>resetPasswordToken := h, resetPasswordExpire := x\<rparr>"]
    False assms(3) show ?thesis
    by (simp add: without_password_def pre_save_def set_reset_fields_def)
qed

text \<open>
  A known email gets a fresh token: its hash and expiry are stored on that document, and
  the token itself is in the response body.
\<close>

theorem forgotPassword_ok:
  assumes "body_field req ''email'' = Some e" "find_by_email st e = Some v"
    and "distinct (map uid st)" "\<not> write_fails ev 0"
  shows "forgotPassword C cfg ev req st =
     (Inr (forgot_ok_response (random_hex ev)),
      set_reset_fields (uid v) (Some (sha256_hex C (random_hex ev))) (Some (int (req_time ev + reset_window))) st)"
proof -
  from assms(2) have "v \<in> set st" by auto
  from save_reset_fields [OF this assms(3,4)] obtain y where
    "doc_save C False (write_fails ev 0) (without_password v)
       ((without_password v)\<lparr>resetPasswordToken := Some (sha256_hex C (random_hex ev)),
          resetPasswordExpire := Some (int (req_time ev + reset_window))\<rparr>) st =
     Inr (y, set_reset_fields (uid v) (Some (sha256_hex C (random_hex ev))) (Some (int (req_time ev + reset_window))) st)"
    by blast
  with assms(1,2) show ?thesis
    by (simp add: forgotPassword_def getResetPasswordToken_def)
qed

text \<open>
  C15. When the first save fails (and the new token differs from the stored one, so that there
  is something to write), the catch block's second save clears both fields and the
  handler throws.
\<close>

theorem forgotPassword_rollback:
  assumes "body_field req ''email'' = Some e" "find_by_email st e = Some v"
    and "distinct (map uid st)" "write_fails ev 0" "\<not> write_fails ev 1"
    and "(resetPasswordToken v, resetPasswordExpire v) \<noteq>
         (Some (sha256_hex C (random_hex ev)), Some (int (req_time ev + reset_window)))"
  shows "forgotPassword C cfg ev req st =
     (Inl (Error ''FAILED TO SAVE PASSWORD TOKEN''), set_reset_fields (uid v) None None st)"
proof -
  let ?u = "without_password v"
  let ?u1 = "?u\<lparr>resetPasswordToken := Some (sha256_hex C (random_hex ev)),
                 resetPasswordExpire := Some (int (req_time ev + reset_window))\<rparr>"
  from assms(2) have v: "v \<in> set st" by auto
  have "?u1 \<noteq> ?u"
    using assms(6) by (auto simp: reset_fields_unchanged)
  then have first: "doc_save C False (write_fails ev 0) ?u ?u1 st = Inl StoreError"
    using assms(4) by (simp add: doc_save_def)
  from save_reset_fields [OF v assms(3,5)] obtain y where
    "doc_save C False (write_fails ev 1) ?u (?u\<lparr>resetPasswordToken := None, resetPasswordExpire := None\<rparr>) st =
     Inr (y, set_reset_fields (uid v) None None st)"
    by blast
  with first assms(1,2) show ?thesis
    by (simp add: forgotPassword_def getResetPasswordToken_def)
qed

lemma forgotPassword_unknown:
  "(case body_field req ''email'' of None \<Rightarrow> None | Some e \<Rightarrow> find_by_email st e) = None \<Longrightarrow>
   forgotPassword C cfg ev req st = (Inl (Error ''NO USER FOUND''), st)"
  by (simp add: forgotPassword_def)

subsection \<open>resetPassword\<close>

lemma save_new_password:
  assumes "v \<in> set st" "distinct (map uid st)" "p \<noteq> []" "\<not> f" "email v \<noteq> []"
  shows "\<exists>y. doc_save C True f (without_password v)
             ((without_password v)\<lparr>password := p, resetPasswordExpire := None\<rparr>) st =
           Inr (y, consume_reset (uid v) (bcrypt_hash C p) st) \<and> uid y = uid v"
proof -
  have ne: "(without_password v)\<lparr>password := p, resetPasswordExpire := None\<rparr> \<noteq> without_password v"
    using assms(3) by (auto simp: without_password_def dest: arg_cong [where f = password])
  have "w\<lparr>password := bcrypt_hash C p, resetPasswordExpire := None\<rparr> =
      (without_password v)\<lparr>password := bcrypt_hash C p, resetPasswordExpire := None\<rparr>"
    if "w \<in> set st" "uid w = uid v" for w
    using uid_unique [OF assms(2,1) that] by (simp add: without_password_def)
  with doc_save_read [OF assms(1,2) refl, where g = "\<lambda>u. u\<lparr>password := p, resetPasswordExpire := None\<rparr>"]
    ne assms(3-5) show ?thesis
    by (simp add: without_password_def pre_save_def consume_reset_def missing_paths_def)
qed

text \<open>
  Spec scenario C: a live token with a new password stores the new password's hash,
  clears the expiry and signs the user in.
\<close>

theorem resetPassword_ok:
  assumes "map_of (query req) ''resetToken'' = Some t"
    and "find_by_reset st (sha256_hex C t) (req_time ev) = Some v"
    and "body_field req ''password'' = Some p" "p \<noteq> []"
    and "\<not> write_fails ev 0" "distinct (map uid st)" "session_ok cfg (req_time ev)"
    and "email v \<noteq> []"
  shows "\<exists>r. resetPassword C cfg ev req st = (Inr r, consume_reset (uid v) (bcrypt_hash C p) st) \<and>
             response_token r = Some (getSignedJwtToken C cfg (req_time ev) v)"
proof -
  from assms(2) have v: "v \<in> set st" by auto
  from save_new_password [OF v assms(6,4,5,8)] obtain y where
    y: "doc_save C True (write_fails ev 0) (without_password v)
          ((without_password v)\<lparr>password := p, resetPasswordExpire := None\<rparr>) st =
        Inr (y, consume_reset (uid v) (bcrypt_hash C p) st)" "uid y = uid v"
    by blast
  obtain r where r: "sendTokenResponse C cfg (req_time ev) y 200 = Inr r"
    using sendTokenResponse_ok assms(7) by blast
  have "resetPassword C cfg ev req st = (Inr r, consume_reset (uid v) (bcrypt_hash C p) st)"
    using assms(1-3) y r by (simp add: resetPassword_def)
  moreover have "response_token r = Some (getSignedJwtToken C cfg (req_time ev) v)"
    using sendTokenResponse_Inr [OF r] getSignedJwtToken_uid [OF y(2)] by simp
  ultimately show ?thesis by blast
qed

text \<open>Every successful reset is one of those.\<close>

lemma resetPassword_Inr:
  assumes "resetPassword C cfg ev req st = (Inr r, st')" "distinct (map uid st)"
  shows "\<exists>t v p. map_of (query req) ''resetToken'' = Some t \<and>
           find_by_reset st (sha256_hex C t) (req_time ev) = Some v \<and>
           body_field req ''password'' = Some p \<and> p \<noteq> [] \<and> \<not> write_fails ev 0 \<and>
           st' = consume_reset (uid v) (bcrypt_hash C p) st"
proof -
  obtain t v where tv: "map_of (query req) ''resetToken'' = Some t"
      "find_by_reset st (sha256_hex C t) (req_time ev) = Some v"
    using assms(1) by (auto simp: resetPassword_def split: option.splits)
  then have v: "v \<in> set st" by auto
  have live: "resetPasswordExpire v \<noteq> None"
    using find_by_reset_Some [OF tv(2)] by (auto simp: reset_live_def split: option.splits)
  obtain p where p: "body_field req ''password'' = Some p" "p \<noteq> []" "\<not> write_fails ev 0" "email v \<noteq> []"
    using assms(1) tv live
    by (auto simp: resetPassword_def doc_save_def without_password_def Let_def missing_paths_def
        split: option.splits if_splits dest: arg_cong [where f = resetPasswordExpire])
  from save_new_password [OF v assms(2) p(2-4)] obtain y where
    "doc_save C True (write_fails ev 0) (without_password v)
       ((without_password v)\<lparr>password := p, resetPasswordExpire := None\<rparr>) st =
     Inr (y, consume_reset (uid v) (bcrypt_hash C p) st)"
    by blast
  with assms(1) tv p have "st' = consume_reset (uid v) (bcrypt_hash C p) st"
    by (simp add: resetPassword_def split: sum.splits)
  with tv p show ?thesis by blast
qed

lemma set_consume_resetD:
  "w \<in> set (consume_reset i h st) \<Longrightarrow>
   (\<exists>v \<in> set st. uid v = i \<and> w = v\<lparr>password := h, resetPasswordExpire := None\<rparr>) \<or> (w \<in> set st \<and> uid w \<noteq> i)"
  by (auto simp: consume_reset_def)

lemma consume_reset_member:
  "v \<in> set st \<Longrightarrow> v\<lparr>password := h, resetPasswordExpire := None\<rparr> \<in> set (consume_reset (uid v) h st)"
  by (force simp: consume_reset_def)

text \<open>
  C5. Spec sections 3 and 4.3 require that a consumed reset token have both of its fields
  cleared. Line 168 clears the expiry a second time instead of the token hash, so after a
  successful reset the document keeps the hash with no expiry.
\<close>

theorem resetPassword_leaves_token_hash:
  assumes "resetPassword C cfg ev req st = (Inr r, st')" "distinct (map uid st)"
    and "map_of (query req) ''resetToken'' = Some t"
  shows "\<exists>u \<in> set st'. resetPasswordToken u = Some (sha256_hex C t) \<and> \<not> reset_paired u"
proof -
  obtain v p where v: "find_by_reset st (sha256_hex C t) (req_time ev) = Some v"
    and st': "st' = consume_reset (uid v) (bcrypt_hash C p) st"
    using resetPassword_Inr [OF assms(1,2)] assms(3) by auto
  from v have "v \<in> set st" "resetPasswordToken v = Some (sha256_hex C t)" by auto
  then show ?thesis
    using consume_reset_member [of v st "bcrypt_hash C p"] st'
    by (intro bexI [where x = "v\<lparr>password := bcrypt_hash C p, resetPasswordExpire := None\<rparr>"])
       (auto simp: reset_paired_def)
qed

text \<open>
  C6. Spec section 8: a reset token is single use. A second request with the same token,
  at any later time, finds no document, provided no other document holds the same hash.
\<close>

theorem resetPassword_single_use:
  assumes "resetPassword C cfg ev req st = (Inr r, st')" "distinct (map uid st)"
    and "map_of (query req) ''resetToken'' = Some t"
    and "length (filter (\<lambda>w. resetPasswordToken w = Some (sha256_hex C t)) st) \<le> 1"
  shows "resetPassword C cfg ev' req st' = (Inl (Error ''Invalid Token''), st')"
proof -
  let ?h = "sha256_hex C t"
  obtain v p where v: "find_by_reset st ?h (req_time ev) = Some v"
    and st': "st' = consume_reset (uid v) (bcrypt_hash C p) st"
    using resetPassword_Inr [OF assms(1,2)] assms(3) by auto
  from v have vin: "v \<in> set st" and vh: "resetPasswordToken v = Some ?h" by auto
  have dist: "distinct st" using assms(2) by (simp add: distinct_map)
  have "\<not> (resetPasswordToken w = Some ?h \<and> reset_live (req_time ev') w)" if "w \<in> set st'" for w
  proof -
    from that st' consider (this_doc) x where "x \<in> set st" "uid x = uid v"
        "w = x\<lparr>password := bcrypt_hash C p, resetPasswordExpire := None\<rparr>"
      | (other) "w \<in> set st" "uid w \<noteq> uid v"
      by (auto dest: set_consume_resetD)
    then show ?thesis
    proof cases
      case this_doc
      then show ?thesis by (simp add: reset_live_def)
    next
      case other
      then show ?thesis
        using filter_le1_unique [OF assms(4) dist, of w v] vin vh by auto
    qed
  qed
  then have "find_by_reset st' ?h (req_time ev') = None"
    by (simp add: find_by_reset_def find_None_iff)
  with assms(3) show ?thesis by (simp add: resetPassword_def)
qed

subsection \<open>Every answer is JSON\<close>

lemma login_json:
  "fst (login C cfg ev req st) = Inr r \<Longrightarrow> json_response r \<and> status r \<in> {200, 201}"
  by (auto simp: login_cases split: if_splits option.splits dest: sendTokenResponse_json)

lemma forgotPassword_json:
  "fst (forgotPassword C cfg ev req st) = Inr r \<Longrightarrow> json_response r \<and> status r \<in> {200, 201}"
  by (auto simp: forgotPassword_def forgot_ok_response_def Let_def res_status_def res_set_header_def
      split: option.splits sum.splits prod.splits)

lemma resetPassword_json:
  "fst (resetPassword C cfg ev req st) = Inr r \<Longrightarrow> json_response r \<and> status r \<in> {200, 201}"
  by (auto simp: resetPassword_def Let_def split: option.splits sum.splits prod.splits dest: sendTokenResponse_json)

lemma updatePassword_json:
  "fst (updatePassword C cfg ev req st) = Inr r \<Longrightarrow> json_response r \<and> status r \<in> {200, 201}"
  by (auto simp: updatePassword_def split: option.splits sum.splits prod.splits if_splits dest: sendTokenResponse_json)

subsection \<open>What a handler can do to the collection\<close>

text \<open>A save of the two reset fields that succeeds writes exactly those fields.\<close>

lemma save_reset_fields_Inr:
  assumes "v \<in> set st" "distinct (map uid st)"
    and "doc_save C False f (without_password v)
           ((without_password v)\<lparr>resetPasswordToken := h, resetPasswordExpire := x\<rparr>) st = Inr (y, st')"
  shows "st' = set_reset_fields (uid v) h x st"
proof (cases f)
  case False
  then show ?thesis
    using save_reset_fields [OF assms(1,2) False, where C = C and h = h and x = x] assms(3) by auto
next
  case True
  with assms(3) have "h = resetPasswordToken v \<and> x = resetPasswordExpire v" "st' = st"
    by (auto simp: doc_save_def reset_fields_unchanged split: if_splits)
  then show ?thesis using set_reset_fields_same [OF assms(1,2)] by simp
qed

text \<open>A save of a reset that succeeds had a password and a working store, and consumed the reset.\<close>

lemma reset_save_Inr:
  assumes "v \<in> set st" "distinct (map uid st)" "resetPasswordExpire v \<noteq> None"
    and "doc_save C True f (without_password v)
           ((without_password v)\<lparr>password := q, resetPasswordExpire := None\<rparr>) st = Inr (y, st')"
  shows "q \<noteq> [] \<and> \<not> f \<and> st' = consume_reset (uid v) (bcrypt_hash C q) st"
proof -
  have "(without_password v)\<lparr>password := q, resetPasswordExpire := None\<rparr> \<noteq> without_password v"
    using assms(3) by (auto simp: without_password_def dest: arg_cong [where f = resetPasswordExpire])
  then have q: "q \<noteq> []" "\<not> f" "email v \<noteq> []"
    using assms(4) by (auto simp: doc_save_def missing_paths_def without_password_def split: if_splits)
  moreover obtain y' where "doc_save C True f (without_password v)
      ((without_password v)\<lparr>password := q, resetPasswordExpire := None\<rparr>) st =
      Inr (y', consume_reset (uid v) (bcrypt_hash C q) st)"
    using save_new_password [OF assms(1,2) q, where C = C] by blast
  ultimately show ?thesis using assms(4) by simp
qed

lemma forgotPassword_store:
  assumes "distinct (map uid st)"
  shows "snd (forgotPassword C cfg ev req st) = st \<or>
         (\<exists>v \<in> set st. body_field req ''email'' = Some (email v) \<and>
            (snd (forgotPassword C cfg ev req st) =
               set_reset_fields (uid v) (Some (sha256_hex C (random_hex ev)))
                 (Some (int (req_time ev + reset_window))) st \<or>
             snd (forgotPassword C cfg ev req st) = set_reset_fields (uid v) None None st))"
proof (cases "case body_field req ''email'' of None \<Rightarrow> None | Some e \<Rightarrow> find_by_email st e")
  case None
  then show ?thesis by (simp add: forgotPassword_def)
next
  case (Some v)
  then have v: "v \<in> set st" "body_field req ''email'' = Some (email v)"
    by (auto split: option.splits)
  show ?thesis
    using Some v
    by (auto simp: forgotPassword_def getResetPasswordToken_def Let_def
        split: sum.splits prod.splits dest!: save_reset_fields_Inr [OF v(1) assms])
qed

lemma resetPassword_store:
  assumes "distinct (map uid st)"
  shows "snd (resetPassword C cfg ev req st) = st \<or>
         (\<exists>t v q. map_of (query req) ''resetToken'' = Some t \<and> body_field req ''password'' = Some q \<and>
            find_by_reset st (sha256_hex C t) (req_time ev) = Some v \<and>
            snd (resetPassword C cfg ev req st) = consume_reset (uid v) (bcrypt_hash C q) st)"
proof (cases "map_of (query req) ''resetToken''")
  case (Some t)
  show ?thesis
  proof (cases "find_by_reset st (sha256_hex C t) (req_time ev)")
    case (Some v)
    then have v: "v \<in> set st" "resetPasswordExpire v \<noteq> None"
      by (auto simp: reset_live_def split: option.splits)
    show ?thesis
      using \<open>map_of (query req) ''resetToken'' = Some t\<close> Some
      by (auto simp: resetPassword_def Let_def split: sum.splits prod.splits option.splits
          dest!: reset_save_Inr [OF v(1) assms v(2)])
  qed (simp add: resetPassword_def \<open>map_of (query req) ''resetToken'' = Some t\<close>)
qed (simp add: resetPassword_def)

subsection \<open>The collection stays well formed\<close>

lemma forgotPassword_wf: "wf_store st \<Longrightarrow> wf_store (snd (forgotPassword C cfg ev req st))"
  by (auto simp: forgotPassword_def getResetPasswordToken_def without_password_def Let_def
      split: option.splits sum.splits elim!: doc_save_wf_store)

lemma resetPassword_wf: "wf_store st \<Longrightarrow> wf_store (snd (resetPassword C cfg ev req st))"
  by (auto simp: resetPassword_def without_password_def Let_def
      split: option.splits sum.splits elim!: doc_save_wf_store)

lemma updatePassword_wf: "wf_store st \<Longrightarrow> wf_store (snd (updatePassword C cfg ev req st))"
  by (auto simp: updatePassword_def split: option.splits sum.splits elim!: doc_save_wf_store)

end
