(* ===== verification/Credential.thy ===== *)
theory Credential
  imports Auth
begin

text \<open>
  The spec's contract for the credential state of a user (sections 3, 4.3 and 4.4), as an
  abstract machine: a credential is an email, a password hash and a reset state, either
  no reset or a pending one with the token's hash and its expiry; the UserRecordStore
  maps identities to credentials. Its transitions are labelled with the event that
  causes them, each with the spec's guard: ResetTokenManager's \<open>issueResetToken\<close> for
  the account of a given email, \<open>consumeResetToken\<close> with a given token and new
  password at a given time (the hash must match, the expiry must not be past), the
  rollback of \<open>requestPasswordReset\<close> for a given email, and \<open>updatePassword\<close> given
  the current password. The abstraction \<open>abs_store\<close> reads a collection of documents
  as such a store; the lemmas here show that every write the credential handlers of Auth
  make is a transition labelled by an event their request carries.
\<close>

section \<open>The abstract credential store\<close>

datatype reset_state = NoReset | Pending string int

record credential =
  cred_email :: string
  cred_hash :: string
  cred_reset :: reset_state

type_synonym cred_store = "oid \<Rightarrow> credential option"

datatype reset_error = ResetTokenInvalid | ResetTokenExpired

text \<open>\<open>issueResetToken\<close>: the plaintext token and the credential with its hash and expiry.\<close>

definition issue_reset_token :: "crypto \<Rightarrow> time \<Rightarrow> string \<Rightarrow> credential \<Rightarrow> string \<times> credential" where
  "issue_reset_token C now rnd c =
     (rnd, c\<lparr>cred_reset := Pending (sha256_hex C rnd) (int (now + reset_window))\<rparr>)"

text \<open>
  \<open>consumeResetToken\<close> followed by the new password hash: absent or mismatched is
  invalid, past the expiry is expired; success clears the reset state.
\<close>

definition consume_reset_token ::
  "crypto \<Rightarrow> time \<Rightarrow> string \<Rightarrow> string \<Rightarrow> credential \<Rightarrow> reset_error + credential" where
  "consume_reset_token C now t p c =
     (case cred_reset c of
        NoReset \<Rightarrow> Inl ResetTokenInvalid
      | Pending h x \<Rightarrow>
          if h \<noteq> sha256_hex C t then Inl ResetTokenInvalid
          else if x < int now then Inl ResetTokenExpired
          else Inr (c\<lparr>cred_hash := bcrypt_hash C p, cred_reset := NoReset\<rparr>))"

text \<open>The events: an issue for an email, a consumption, a rollback for an email, an update.\<close>

datatype cred_event =
  Issue string string time
| Consume string string time
| Rollback string
| Update string string

text \<open>
  The transition of the credential of identity \<open>i\<close> on an event. A voluntary update
  needs the current password and also clears the reset state (spec section 3).
\<close>

inductive cred_step :: "crypto \<Rightarrow> cred_store \<Rightarrow> oid \<Rightarrow> cred_event \<Rightarrow> cred_store \<Rightarrow> bool" for C where
  issue: "A i = Some c \<Longrightarrow> cred_email c = e \<Longrightarrow> issue_reset_token C now rnd c = (tok, c') \<Longrightarrow>
    cred_step C A i (Issue e rnd now) (A(i \<mapsto> c'))"
| consume: "A i = Some c \<Longrightarrow> consume_reset_token C now t p c = Inr c' \<Longrightarrow>
    cred_step C A i (Consume t p now) (A(i \<mapsto> c'))"
| rollback: "A i = Some c \<Longrightarrow> cred_email c = e \<Longrightarrow>
    cred_step C A i (Rollback e) (A(i \<mapsto> c\<lparr>cred_reset := NoReset\<rparr>))"
| update: "A i = Some c \<Longrightarrow> cred_hash c = bcrypt_hash C old \<Longrightarrow>
    cred_step C A i (Update old new) (A(i \<mapsto> c\<lparr>cred_hash := bcrypt_hash C new, cred_reset := NoReset\<rparr>))"

text \<open>The effect of a request: no change, or one transition on one of the request's events.\<close>

inductive cred_effect :: "crypto \<Rightarrow> cred_store \<Rightarrow> cred_event list \<Rightarrow> cred_store \<Rightarrow> bool" for C where
  unchanged: "cred_effect C A es A"
| step: "e \<in> set es \<Longrightarrow> cred_step C A i e A' \<Longrightarrow> cred_effect C A es A'"

text \<open>
  The events a request to a credential route carries: \<open>forgotPassword\<close> an issue for
  its email at the request's time, with the random bytes of the request, or the
  rollback; \<open>resetPassword\<close> the consumption of its token with its new password at the
  request's time.
\<close>

definition forgot_events :: "env \<Rightarrow> request \<Rightarrow> cred_event list" where
  "forgot_events ev req =
     (case body_field req ''email'' of
        None \<Rightarrow> []
      | Some e \<Rightarrow> [Issue e (random_hex ev) (req_time ev), Rollback e])"

definition reset_events :: "env \<Rightarrow> request \<Rightarrow> cred_event list" where
  "reset_events ev req =
     (case (map_of (query req) ''resetToken'', body_field req ''password'') of
        (Some t, Some p) \<Rightarrow> [Consume t p (req_time ev)]
      | _ \<Rightarrow> [])"

section \<open>Abstraction of the collection\<close>

text \<open>
  A document's credential: its email, its password hash, and a pending reset when both
  reset fields are set. A token hash without an expiry matches no reset query, so it is
  no reset.
\<close>

definition cred_of :: "user \<Rightarrow> credential" where
  "cred_of u =
     \<lparr>cred_email = email u, cred_hash = password u,
      cred_reset = (case (resetPasswordToken u, resetPasswordExpire u) of
                      (Some h, Some x) \<Rightarrow> Pending h x
                    | _ \<Rightarrow> NoReset)\<rparr>"

definition abs_store :: "store \<Rightarrow> cred_store" where
  "abs_store st i = map_option cred_of (find_by_id st i)"

section \<open>Lemmas\<close>

lemma abs_store_map_one:
  assumes "\<And>w. uid (g w) = uid w"
  shows "abs_store (map (\<lambda>w. if uid w = i then g w else w) st) =
           (abs_store st)(i := map_option (cred_of \<circ> g) (find_by_id st i))"
proof
  fix j
  have "find_by_id (map (\<lambda>w. if uid w = i then g w else w) st) j =
      map_option (\<lambda>w. if uid w = i then g w else w) (find_by_id st j)"
    using assms by (intro find_by_id_map) simp
  moreover have "find_by_id st j = Some w \<Longrightarrow> uid w = j" for w
    by (auto simp: find_by_id_def)
  ultimately show "abs_store (map (\<lambda>w. if uid w = i then g w else w) st) j =
      ((abs_store st)(i := map_option (cred_of \<circ> g) (find_by_id st i))) j"
    by (cases "find_by_id st j") (auto simp: abs_store_def)
qed

lemma abs_store_Some: "v \<in> set st \<Longrightarrow> distinct (map uid st) \<Longrightarrow> abs_store st (uid v) = Some (cred_of v)"
  by (simp add: abs_store_def find_by_id_in_wf)

lemma abs_set_reset_fields:
  assumes "v \<in> set st" "distinct (map uid st)"
  shows "abs_store (set_reset_fields (uid v) h x st) =
           (abs_store st)(uid v \<mapsto> cred_of (v\<lparr>resetPasswordToken := h, resetPasswordExpire := x\<rparr>))"
  unfolding set_reset_fields_def
  by (subst abs_store_map_one) (simp_all add: find_by_id_in_wf [OF assms(2,1)])

lemma abs_consume_reset:
  assumes "v \<in> set st" "distinct (map uid st)"
  shows "abs_store (consume_reset (uid v) h st) =
           (abs_store st)(uid v \<mapsto> cred_of (v\<lparr>password := h, resetPasswordExpire := None\<rparr>))"
  unfolding consume_reset_def
  by (subst abs_store_map_one) (simp_all add: find_by_id_in_wf [OF assms(2,1)])

subsection \<open>The credential handlers refine the abstract machine\<close>

lemma forgotPassword_refines:
  assumes "distinct (map uid st)"
  shows "cred_effect C (abs_store st) (forgot_events ev req) (abs_store (snd (forgotPassword C cfg ev req st)))"
  using forgotPassword_store [OF assms, of C cfg ev req]
proof (elim disjE bexE conjE)
  fix v assume v: "v \<in> set st" and e: "body_field req ''email'' = Some (email v)"
  have A: "abs_store st (uid v) = Some (cred_of v)" using abs_store_Some [OF v assms] .
  have ev: "Issue (email v) (random_hex ev) (req_time ev) \<in> set (forgot_events ev req)"
    "Rollback (email v) \<in> set (forgot_events ev req)"
    using e by (simp_all add: forgot_events_def)
  {
    assume "snd (forgotPassword C cfg ev req st) =
        set_reset_fields (uid v) (Some (sha256_hex C (random_hex ev))) (Some (int (req_time ev + reset_window))) st"
    moreover have "cred_step C (abs_store st) (uid v) (Issue (email v) (random_hex ev) (req_time ev))
        ((abs_store st)(uid v \<mapsto> snd (issue_reset_token C (req_time ev) (random_hex ev) (cred_of v))))"
      by (rule cred_step.issue [where A = "abs_store st" and i = "uid v", OF A]) (simp_all add: cred_of_def issue_reset_token_def)
    ultimately show ?thesis
      using abs_set_reset_fields [OF v assms] cred_effect.step [OF ev(1)]
      by (simp add: issue_reset_token_def cred_of_def)
  next
    assume "snd (forgotPassword C cfg ev req st) = set_reset_fields (uid v) None None st"
    moreover have "cred_step C (abs_store st) (uid v) (Rollback (email v))
        ((abs_store st)(uid v \<mapsto> (cred_of v)\<lparr>cred_reset := NoReset\<rparr>))"
      by (rule cred_step.rollback [where A = "abs_store st" and i = "uid v", OF A]) (simp add: cred_of_def)
    ultimately show ?thesis
      using abs_set_reset_fields [OF v assms] cred_effect.step [OF ev(2)]
      by (simp add: cred_of_def)
  }
qed (simp add: cred_effect.unchanged)

lemma updatePassword_refines:
  "cred_effect C (abs_store st) es (abs_store (snd (updatePassword C cfg ev req st)))"
  by (simp add: updatePassword_def doc_save_def cred_effect.unchanged split: option.splits)

lemma resetPassword_refines:
  assumes "distinct (map uid st)"
  shows "cred_effect C (abs_store st) (reset_events ev req) (abs_store (snd (resetPassword C cfg ev req st)))"
  using resetPassword_store [OF assms, of C cfg ev req]
proof (elim disjE exE conjE)
  fix t v q
  assume t: "map_of (query req) ''resetToken'' = Some t" and q: "body_field req ''password'' = Some q"
    and found: "find_by_reset st (sha256_hex C t) (req_time ev) = Some v"
    and st': "snd (resetPassword C cfg ev req st) = consume_reset (uid v) (bcrypt_hash C q) st"
  from found obtain x where v: "v \<in> set st" "resetPasswordToken v = Some (sha256_hex C t)"
      "resetPasswordExpire v = Some x" "int (req_time ev) < x"
    by (auto simp: reset_live_def split: option.splits)
  have "consume_reset_token C (req_time ev) t q (cred_of v) =
      Inr (cred_of (v\<lparr>password := bcrypt_hash C q, resetPasswordExpire := None\<rparr>))"
    using v by (simp add: consume_reset_token_def cred_of_def)
  moreover have "Consume t q (req_time ev) \<in> set (reset_events ev req)"
    using t q by (simp add: reset_events_def)
  ultimately show ?thesis
    using cred_step.consume [where A = "abs_store st" and i = "uid v", OF abs_store_Some [OF v(1) assms]]
      st' abs_consume_reset [OF v(1) assms] cred_effect.step
    by metis
qed (simp add: cred_effect.unchanged)


subsection \<open>Properties\<close>

text \<open>
  C34. The boundary of the reset window. Spec 4.3 fails a consumption only when the clock
  is past \<open>resetTokenExpiry\<close>, so at the expiry instant the credential machine still
  consumes the token; the query of line 161 keeps a token only while its expiry is
  strictly after \<open>Date.now()\<close>, so \<open>resetPassword\<close> at that instant answers
  \<open>Invalid Token\<close> and writes nothing.
\<close>

theorem reset_at_expiry_instant:
  assumes "map_of (query req) ''resetToken'' = Some t" "v \<in> set st"
    and "resetPasswordToken v = Some (sha256_hex C t)" "resetPasswordExpire v = Some (int (req_time ev))"
    and "\<forall>w\<in>set st. resetPasswordToken w = Some (sha256_hex C t) \<longrightarrow> resetPasswordExpire w = Some (int (req_time ev))"
  shows "resetPassword C cfg ev req st = (Inl (Error ''Invalid Token''), st) \<and>
         consume_reset_token C (req_time ev) t p (cred_of v) =
           Inr \<lparr>cred_email = email v, cred_hash = bcrypt_hash C p, cred_reset = NoReset\<rparr>"
proof -
  have "find_by_reset st (sha256_hex C t) (req_time ev) = None"
    using assms(5) by (auto simp: find_by_reset_def find_None_iff reset_live_def)
  then show ?thesis
    using assms(1,3,4) by (simp add: resetPassword_def consume_reset_token_def cred_of_def)
qed

end
