(* ===== verification/Concurrency.thy ===== *)
theory Concurrency
  imports Auth
begin

text \<open>
  Spec section 5: operations on the same user may run concurrently, and the store must
  make two reset-confirm attempts with one token unable to both succeed. A handler of
  src/controllers/userController.js runs atomically between its \<open>await\<close>s;
  \<open>resetPassword\<close> (lines 156-173) has two: the lookup of the document by token hash
  (lines 157-164) and the save of the new password (lines 166-172). This theory splits
  the handler into those two phases, shows that running them back to back is the
  handler, and runs two requests interleaved: both lookups, then both saves. It does the
  same for \<open>forgotPassword\<close> (lines 129-154), whose awaits are the lookup by email, the
  save of the fresh token and, in the catch block, the save of the cleared fields. Two
  interleavings of the two handlers are run: two forgot-password requests with a failing
  save, and a forgot-password request between the lookup and the save of a reset.
\<close>

section \<open>The two phases of resetPassword\<close>

text \<open>Lines 157-164: hash the presented token and find a document holding it live.\<close>

definition reset_lookup :: "crypto \<Rightarrow> env \<Rightarrow> request \<Rightarrow> store \<Rightarrow> js_error + user" where
  "reset_lookup C ev req st =
     (case map_of (query req) ''resetToken'' of
        None \<Rightarrow> Inl (TypeError ''The data argument must be of type string'')
      | Some t \<Rightarrow>
          (case find_by_reset st (sha256_hex C t) (req_time ev) of
             None \<Rightarrow> Inl (Error ''Invalid Token'')
           | Some v \<Rightarrow> Inr v))"

text \<open>Lines 166-172: assign and save the document read, against the store of that moment.\<close>

definition reset_commit :: "crypto \<Rightarrow> config \<Rightarrow> env \<Rightarrow> request \<Rightarrow> user \<Rightarrow> store \<Rightarrow> outcome" where
  "reset_commit C cfg ev req v st =
     (let u = without_password v;
          u1 = u\<lparr>password := (case body_field req ''password'' of None \<Rightarrow> [] | Some p \<Rightarrow> p),
                 resetPasswordExpire := None\<rparr>
      in case doc_save C True (write_fails ev 0) u u1 st of
           Inl e \<Rightarrow> (Inl e, st)
         | Inr (u2, st1) \<Rightarrow> (sendTokenResponse C cfg (req_time ev) u2 200, st1))"

section \<open>The three phases of forgotPassword\<close>

text \<open>Lines 130-133: find the document by the email of the body.\<close>

definition forgot_lookup :: "request \<Rightarrow> store \<Rightarrow> js_error + user" where
  "forgot_lookup req st =
     (case (case body_field req ''email'' of None \<Rightarrow> None | Some e \<Rightarrow> find_by_email st e) of
        None \<Rightarrow> Inl (Error ''NO USER FOUND'')
      | Some v \<Rightarrow> Inr v)"

text \<open>
  Lines 135-146: set a fresh token on the document read and save it; on success the token
  is sent back. A failed save leaves the collection as it was and hands the error to the
  catch block.
\<close>

definition forgot_save :: "crypto \<Rightarrow> env \<Rightarrow> user \<Rightarrow> store \<Rightarrow> (js_error + response) \<times> store" where
  "forgot_save C ev v st =
     (let u = without_password v;
          (tok, u1) = getResetPasswordToken C (req_time ev) (random_hex ev) u
      in case doc_save C False (write_fails ev 0) u u1 st of
           Inr (_, st1) \<Rightarrow> (Inr (forgot_ok_response tok), st1)
         | Inl e \<Rightarrow> (Inl e, st))"

text \<open>
  Lines 148-152, the catch block: clear both fields on the same in-memory document and
  save it again, against the collection of that moment, then throw.
\<close>

definition forgot_rollback :: "crypto \<Rightarrow> env \<Rightarrow> user \<Rightarrow> store \<Rightarrow> outcome" where
  "forgot_rollback C ev v st =
     (let u = without_password v;
          (tok, u1) = getResetPasswordToken C (req_time ev) (random_hex ev) u;
          u2 = u1\<lparr>resetPasswordToken := None, resetPasswordExpire := None\<rparr>
      in case doc_save C False (write_fails ev 1) u u2 st of
           Inl e \<Rightarrow> (Inl e, st)
         | Inr (_, st2) \<Rightarrow> (Inl (Error ''FAILED TO SAVE PASSWORD TOKEN''), st2))"

section \<open>Lemmas\<close>

lemma consume_reset_twice [simp]:
  "consume_reset i h (consume_reset i h' st) = consume_reset i h st"
  by (induction st) (simp_all add: consume_reset_def)

text \<open>
  The save of a reset writes the same two paths whatever the collection holds by then:
  the password (hashed) and the expiry (cleared) of the document with that id; the paths
  it did not assign keep what another request wrote since the read.
\<close>

lemma reset_save_any:
  assumes "resetPasswordExpire v \<noteq> None" "p \<noteq> []" "uid v \<in> set (map uid st)" "email v \<noteq> []"
  shows "\<exists>y. doc_save C True False (without_password v)
             ((without_password v)\<lparr>password := p, resetPasswordExpire := None\<rparr>) st =
           Inr (y, consume_reset (uid v) (bcrypt_hash C p) st) \<and> uid y = uid v"
proof -
  let ?o = "without_password v" and ?u = "(without_password v)\<lparr>password := p, resetPasswordExpire := None\<rparr>"
  have ne: "?u \<noteq> ?o"
    using assms(1) by (auto simp: without_password_def dest: arg_cong [where f = resetPasswordExpire])
  have "store_update ?o ?u (pre_save C ?o ?u) st = consume_reset (uid v) (bcrypt_hash C p) st"
    unfolding store_update_def consume_reset_def
  proof (rule map_cong [OF refl])
    fix w
    show "(if uid w = uid ?u then merge_delta ?o ?u (pre_save C ?o ?u) w else w) =
          (if uid w = uid v then w\<lparr>password := bcrypt_hash C p, resetPasswordExpire := None\<rparr> else w)"
      using assms(1,2) by (auto simp: merge_delta_def without_password_def pre_save_def pick_def)
  qed
  then show ?thesis
    using ne assms(2-4) by (simp add: doc_save_def Let_def without_password_def missing_paths_def)
qed

lemma find_by_reset_consume_reset:
  "\<forall>w\<in>set st. resetPasswordToken w = Some k \<longrightarrow> uid w = i \<Longrightarrow>
   find_by_reset (consume_reset i h st) k now = None"
  by (auto simp: find_by_reset_def find_None_iff consume_reset_def reset_live_def)

text \<open>
  The save of a reset read before another reset of the same document was written still
  succeeds: the paths it assigned differ from the ones it read.
\<close>

lemma commit_after_consume:
  assumes "v \<in> set st" "distinct (map uid st)" "resetPasswordExpire v \<noteq> None" "p \<noteq> []"
    and "email v \<noteq> []"
  shows "\<exists>y. doc_save C True False (without_password v)
             ((without_password v)\<lparr>password := p, resetPasswordExpire := None\<rparr>)
             (consume_reset (uid v) h' st) =
           Inr (y, consume_reset (uid v) (bcrypt_hash C p) st)"
proof -
  have "uid v \<in> set (map uid (consume_reset (uid v) h' st))"
    using assms(1) by (auto simp: consume_reset_def image_iff)
  from reset_save_any [OF assms(3,4) this assms(5), where C = C] show ?thesis by auto
qed


lemma reset_commit_ok:
  assumes "doc_save C True (write_fails ev 0) (without_password v)
             ((without_password v)\<lparr>password := p, resetPasswordExpire := None\<rparr>) st = Inr (y, st')"
    and "body_field req ''password'' = Some p" "uid y = uid v" "session_ok cfg (req_time ev)"
  shows "\<exists>r. reset_commit C cfg ev req v st = (Inr r, st') \<and>
             response_token r = Some (getSignedJwtToken C cfg (req_time ev) v)"
proof -
  obtain r where r: "sendTokenResponse C cfg (req_time ev) y 200 = Inr r"
    using sendTokenResponse_ok assms(4) by blast
  then show ?thesis
    using assms(1,2) sendTokenResponse_Inr [OF r] getSignedJwtToken_uid [OF assms(3)]
    by (simp add: reset_commit_def)
qed

text \<open>
  A save of the two reset fields of a document read earlier, against a collection in which
  another request has since written those fields: each field the save assigns a value
  other than the one read overwrites what the other request wrote.
\<close>

lemma save_reset_fields_over:
  assumes "v \<in> set st" "distinct (map uid st)" "\<not> f"
    and "h \<noteq> resetPasswordToken v" "x \<noteq> resetPasswordExpire v"
  shows "\<exists>y. doc_save C False f (without_password v)
             ((without_password v)\<lparr>resetPasswordToken := h, resetPasswordExpire := x\<rparr>)
             (set_reset_fields (uid v) h' x' st) =
           Inr (y, set_reset_fields (uid v) h x st)"
proof -
  let ?o = "without_password v" and ?u = "(without_password v)\<lparr>resetPasswordToken := h, resetPasswordExpire := x\<rparr>"
  have ne: "?u \<noteq> ?o"
    using assms(4) by (simp add: reset_fields_unchanged)
  have "store_update ?o ?u (pre_save C ?o ?u) (set_reset_fields (uid v) h' x' st) =
      set_reset_fields (uid v) h x st"
    unfolding store_update_def set_reset_fields_def map_map
  proof (rule map_cong [OF refl])
    fix w assume w: "w \<in> set st"
    show "((\<lambda>y. if uid y = uid ?u then merge_delta ?o ?u (pre_save C ?o ?u) y else y) \<circ>
           (\<lambda>w. if uid w = uid v then w\<lparr>resetPasswordToken := h', resetPasswordExpire := x'\<rparr> else w)) w =
          (if uid w = uid v then w\<lparr>resetPasswordToken := h, resetPasswordExpire := x\<rparr> else w)"
    proof (cases "uid w = uid v")
      case True
      then have "w = v" using uid_unique [OF assms(2,1) w] by simp
      then show ?thesis
        using assms(4,5) by (cases v) (auto simp: merge_delta_def pick_def without_password_def pre_save_def)
    qed (simp add: without_password_def)
  qed
  moreover have "uid ?u \<in> set (map uid (set_reset_fields (uid v) h' x' st))"
    using assms(1) by (auto simp: set_reset_fields_def without_password_def image_iff)
  ultimately show ?thesis
    using ne assms(3) by (simp add: doc_save_def Let_def)
qed

lemma find_by_reset_set_reset_fields_gen:
  assumes "\<forall>w\<in>set st. uid w \<noteq> i \<longrightarrow> resetPasswordToken w \<noteq> Some k"
    and "\<forall>w\<in>set st. uid w = i \<longrightarrow> w = v"
  shows "find_by_reset (set_reset_fields i h x st) k now =
           (if (\<exists>w\<in>set st. uid w = i) \<and> h = Some k \<and>
               reset_live now (v\<lparr>resetPasswordToken := h, resetPasswordExpire := x\<rparr>)
            then Some (v\<lparr>resetPasswordToken := h, resetPasswordExpire := x\<rparr>) else None)"
  using assms by (induction st) (auto simp: find_by_reset_def set_reset_fields_def)

text \<open>
  Where no other document holds the hash \<open>k\<close>, a reset lookup of \<open>k\<close> after a write of
  the reset fields of \<open>v\<close> sees exactly that write.
\<close>

lemma find_by_reset_set_reset_fields:
  assumes "v \<in> set st" "distinct (map uid st)"
    and "\<forall>w\<in>set st. uid w \<noteq> uid v \<longrightarrow> resetPasswordToken w \<noteq> Some k"
  shows "find_by_reset (set_reset_fields (uid v) h x st) k now =
           (if h = Some k \<and> reset_live now (v\<lparr>resetPasswordToken := h, resetPasswordExpire := x\<rparr>)
            then Some (v\<lparr>resetPasswordToken := h, resetPasswordExpire := x\<rparr>) else None)"
  using find_by_reset_set_reset_fields_gen [OF assms(3), of v h x now] uid_unique [OF assms(2,1)] assms(1)
  by auto

subsection \<open>Properties\<close>

text \<open>
  The handler is its two phases run back to back: the lookup, then, when it finds a
  document, the save against the same collection.
\<close>

lemma resetPassword_phases:
  "resetPassword C cfg ev req st =
     (case reset_lookup C ev req st of
        Inl e \<Rightarrow> (Inl e, st)
      | Inr v \<Rightarrow> reset_commit C cfg ev req v st)"
  by (simp add: resetPassword_def reset_lookup_def reset_commit_def split: option.split)

text \<open>
  C26. Spec section 5 asks that two concurrent reset-confirm attempts with the same token
  cannot both succeed. When two requests carrying one live token both look the document
  up before either saves, both saves succeed: each client gets a session for the account,
  and the password is the one saved last.
\<close>

theorem concurrent_reset_double_use:
  assumes "map_of (query reqA) ''resetToken'' = Some t" "map_of (query reqB) ''resetToken'' = Some t"
    and "find_by_reset st (sha256_hex C t) (req_time evA) = Some v"
    and "find_by_reset st (sha256_hex C t) (req_time evB) = Some v"
    and "body_field reqA ''password'' = Some pA" "pA \<noteq> []"
    and "body_field reqB ''password'' = Some pB" "pB \<noteq> []"
    and "wf_store st" "\<not> write_fails evA 0" "\<not> write_fails evB 0"
    and "session_ok cfg (req_time evA)" "session_ok cfg (req_time evB)" "email v \<noteq> []"
  shows "reset_lookup C evA reqA st = Inr v \<and> reset_lookup C evB reqB st = Inr v \<and>
         (\<exists>rA rB stA.
            reset_commit C cfg evA reqA v st = (Inr rA, stA) \<and>
            reset_commit C cfg evB reqB v stA = (Inr rB, consume_reset (uid v) (bcrypt_hash C pB) st) \<and>
            response_token rA = Some (getSignedJwtToken C cfg (req_time evA) v) \<and>
            response_token rB = Some (getSignedJwtToken C cfg (req_time evB) v))"
proof -
  from assms(3) have v: "v \<in> set st" "resetPasswordExpire v \<noteq> None"
    by (auto simp: reset_live_def split: option.splits)
  have dist: "distinct (map uid st)" using assms(9) by (simp add: wf_store_def)
  obtain yA where yA: "doc_save C True (write_fails evA 0) (without_password v)
      ((without_password v)\<lparr>password := pA, resetPasswordExpire := None\<rparr>) st =
      Inr (yA, consume_reset (uid v) (bcrypt_hash C pA) st)" "uid yA = uid v"
    using save_new_password [OF v(1) dist assms(6,10,14), where C = C] by blast
  obtain rA where rA: "reset_commit C cfg evA reqA v st = (Inr rA, consume_reset (uid v) (bcrypt_hash C pA) st)"
      "response_token rA = Some (getSignedJwtToken C cfg (req_time evA) v)"
    using reset_commit_ok [OF yA(1) assms(5) yA(2) assms(12)] by blast
  obtain yB where yB: "doc_save C True (write_fails evB 0) (without_password v)
      ((without_password v)\<lparr>password := pB, resetPasswordExpire := None\<rparr>)
      (consume_reset (uid v) (bcrypt_hash C pA) st) = Inr (yB, consume_reset (uid v) (bcrypt_hash C pB) st)"
    using commit_after_consume [OF v(1) dist v(2) assms(8,14), where C = C and h' = "bcrypt_hash C pA"]
      assms(11) by auto
  have "uid yB = uid v"
    using doc_save_Inr [OF yB] by (auto simp: without_password_def)
  then obtain rB where "reset_commit C cfg evB reqB v (consume_reset (uid v) (bcrypt_hash C pA) st) =
      (Inr rB, consume_reset (uid v) (bcrypt_hash C pB) st)"
      "response_token rB = Some (getSignedJwtToken C cfg (req_time evB) v)"
    using reset_commit_ok [OF yB assms(7) _ assms(13)] by blast
  with rA assms(1-4) show ?thesis
    by (auto simp: reset_lookup_def)
qed

text \<open>
  The handler \<open>forgotPassword\<close> is its three phases run back to back: the lookup, the
  save of a fresh token, and, when that save throws, the catch block's clearing save.
\<close>

lemma forgotPassword_phases:
  "forgotPassword C cfg ev req st =
     (case forgot_lookup req st of
        Inl e \<Rightarrow> (Inl e, st)
      | Inr v \<Rightarrow>
          (case forgot_save C ev v st of
             (Inr r, st1) \<Rightarrow> (Inr r, st1)
           | (Inl _, _) \<Rightarrow> forgot_rollback C ev v st))"
  by (simp add: forgotPassword_def forgot_lookup_def forgot_save_def forgot_rollback_def
      getResetPasswordToken_def Let_def split: option.split sum.split)

text \<open>
  C31. Spec section 5: a failed mid-operation write is compensated by a clear. Two
  forgot-password requests A and B for one account that already holds a reset token both
  read the document; A's save fails, B's succeeds and B's client is sent its token; then
  A's catch block clears the reset fields it read, and the write of the two modified paths
  erases B's token from the collection. B's token, which a reset lookup accepted before
  A's rollback, is refused as invalid after it.
\<close>

theorem concurrent_forgot_rollback_erases_token:
  assumes "body_field reqA ''email'' = Some e" "body_field reqB ''email'' = Some e"
    and "find_by_email st e = Some v" "wf_store st"
    and "resetPasswordToken v \<noteq> None" "resetPasswordExpire v \<noteq> None"
    and "write_fails evA 0" "\<not> write_fails evA 1" "\<not> write_fails evB 0"
    and "map_of (query reqR) ''resetToken'' = Some (random_hex evB)"
    and "req_time evR < req_time evB + reset_window"
    and "\<forall>w\<in>set st. uid w \<noteq> uid v \<longrightarrow> resetPasswordToken w \<noteq> Some (sha256_hex C (random_hex evB))"
    and "resetPasswordToken v \<noteq> Some (sha256_hex C (random_hex evA))"
  shows "forgot_lookup reqA st = Inr v \<and> forgot_lookup reqB st = Inr v \<and>
         forgot_save C evA v st = (Inl StoreError, st) \<and>
         (\<exists>stB. forgot_save C evB v st = (Inr (forgot_ok_response (random_hex evB)), stB) \<and>
            (\<exists>w. reset_lookup C evR reqR stB = Inr w \<and> uid w = uid v) \<and>
            (\<exists>stF. forgot_rollback C evA v stB = (Inl (Error ''FAILED TO SAVE PASSWORD TOKEN''), stF) \<and>
               reset_lookup C evR reqR stF = Inl (Error ''Invalid Token'')))"
proof -
  let ?u = "without_password v"
  let ?hB = "Some (sha256_hex C (random_hex evB))" and ?xB = "Some (int (req_time evB + reset_window))"
  from assms(3) have v: "v \<in> set st" by auto
  have dist: "distinct (map uid st)" using assms(4) by (simp add: wf_store_def)
  have A: "forgot_save C evA v st = (Inl StoreError, st)"
    using assms(7,13) by (simp add: forgot_save_def getResetPasswordToken_def doc_save_def reset_fields_unchanged)
  obtain y where yB: "doc_save C False (write_fails evB 0) ?u
      (?u\<lparr>resetPasswordToken := ?hB, resetPasswordExpire := ?xB\<rparr>) st =
      Inr (y, set_reset_fields (uid v) ?hB ?xB st)"
    using save_reset_fields [OF v dist assms(9)] by blast
  then have B: "forgot_save C evB v st =
      (Inr (forgot_ok_response (random_hex evB)), set_reset_fields (uid v) ?hB ?xB st)"
    by (simp add: forgot_save_def getResetPasswordToken_def)
  obtain y' where "doc_save C False (write_fails evA 1) ?u
      (?u\<lparr>resetPasswordToken := None, resetPasswordExpire := None\<rparr>) (set_reset_fields (uid v) ?hB ?xB st) =
      Inr (y', set_reset_fields (uid v) None None st)"
    using save_reset_fields_over [OF v dist assms(8), of None None C ?hB ?xB] assms(5,6) by auto
  then have R: "forgot_rollback C evA v (set_reset_fields (uid v) ?hB ?xB st) =
      (Inl (Error ''FAILED TO SAVE PASSWORD TOKEN''), set_reset_fields (uid v) None None st)"
    by (simp add: forgot_rollback_def getResetPasswordToken_def)
  have lB: "reset_lookup C evR reqR (set_reset_fields (uid v) ?hB ?xB st) =
      Inr (v\<lparr>resetPasswordToken := ?hB, resetPasswordExpire := ?xB\<rparr>)"
    using find_by_reset_set_reset_fields [OF v dist assms(12)] assms(10,11)
    by (simp add: reset_lookup_def reset_live_def)
  have lF: "reset_lookup C evR reqR (set_reset_fields (uid v) None None st) = Inl (Error ''Invalid Token'')"
    using find_by_reset_set_reset_fields [OF v dist assms(12)] assms(10)
    by (simp add: reset_lookup_def)
  show ?thesis
    using A B R lB lF assms(1-3) by (auto simp: forgot_lookup_def)
qed

text \<open>
  C32. A forgot-password request that runs between the lookup and the save of a reset of
  the same account: its token is saved and sent to its client, then the reset's save
  clears the expiry it did not read, so the reset signs its client in and the token just
  issued is refused as invalid from then on.
\<close>

theorem forgot_during_reset_voids_token:
  assumes "map_of (query reqR) ''resetToken'' = Some t"
    and "find_by_reset st (sha256_hex C t) (req_time evR) = Some v"
    and "body_field reqR ''password'' = Some p" "p \<noteq> []"
    and "body_field reqF ''email'' = Some e" "e \<noteq> []" "find_by_email st e = Some v" "distinct (map uid st)"
    and "\<not> write_fails evF 0" "\<not> write_fails evR 0" "session_ok cfg (req_time evR)"
    and "map_of (query reqQ) ''resetToken'' = Some (random_hex evF)"
    and "\<forall>w\<in>set st. uid w \<noteq> uid v \<longrightarrow> resetPasswordToken w \<noteq> Some (sha256_hex C (random_hex evF))"
  shows "reset_lookup C evR reqR st = Inr v \<and> forgot_lookup reqF st = Inr v \<and>
         (\<exists>stF. forgot_save C evF v st = (Inr (forgot_ok_response (random_hex evF)), stF) \<and>
            (\<exists>r st'. reset_commit C cfg evR reqR v stF = (Inr r, st') \<and>
               response_token r = Some (getSignedJwtToken C cfg (req_time evR) v) \<and>
               reset_lookup C evQ reqQ st' = Inl (Error ''Invalid Token'')))"
proof -
  let ?hF = "Some (sha256_hex C (random_hex evF))" and ?xF = "Some (int (req_time evF + reset_window))"
  let ?stF = "set_reset_fields (uid v) ?hF ?xF st"
  from assms(2) have v: "v \<in> set st" "resetPasswordExpire v \<noteq> None"
    by (auto simp: reset_live_def split: option.splits)
  obtain y where "doc_save C False (write_fails evF 0) (without_password v)
      ((without_password v)\<lparr>resetPasswordToken := ?hF, resetPasswordExpire := ?xF\<rparr>) st = Inr (y, ?stF)"
    using save_reset_fields [OF v(1) assms(8,9)] by blast
  then have F: "forgot_save C evF v st = (Inr (forgot_ok_response (random_hex evF)), ?stF)"
    by (simp add: forgot_save_def getResetPasswordToken_def)
  have "uid v \<in> set (map uid ?stF)"
    using v(1) by (auto simp: set_reset_fields_def image_iff)
  then obtain y' where y': "doc_save C True (write_fails evR 0) (without_password v)
      ((without_password v)\<lparr>password := p, resetPasswordExpire := None\<rparr>) ?stF =
      Inr (y', consume_reset (uid v) (bcrypt_hash C p) ?stF)" "uid y' = uid v"
    using reset_save_any [OF v(2) assms(4), where C = C] assms(6,7,10) by auto
  obtain r where R: "reset_commit C cfg evR reqR v ?stF = (Inr r, consume_reset (uid v) (bcrypt_hash C p) ?stF)"
      "response_token r = Some (getSignedJwtToken C cfg (req_time evR) v)"
    using reset_commit_ok [OF y'(1) assms(3) y'(2) assms(11)] by blast
  have "\<forall>w\<in>set ?stF. resetPasswordToken w = ?hF \<longrightarrow> uid w = uid v"
    using assms(13) by (auto simp: set_reset_fields_def)
  then have "reset_lookup C evQ reqQ (consume_reset (uid v) (bcrypt_hash C p) ?stF) = Inl (Error ''Invalid Token'')"
    using assms(12) by (simp add: reset_lookup_def find_by_reset_consume_reset)
  with F R assms(1,2,5,7) show ?thesis
    by (auto simp: reset_lookup_def forgot_lookup_def)
qed

end
