(* ===== verification/Session.thy ===== *)
theory Session
  imports Auth
begin

text \<open>
  The session check in front of the protected routes. \<open>updatePassword\<close> reads
  \<open>req.user.id\<close> (line 176), which an authentication middleware sets from the session
  token; that middleware is not in the repository, so it is modelled from the spec
  (TokenSigner.\<open>verify\<close>, section 4.2): the token names the identity when its signature
  holds and it has not expired. \<open>guarded\<close> composes it with a handler, the way the
  router runs the middleware before the controller. The lemmas follow a session from
  \<open>login\<close> through the middleware to \<open>updatePassword\<close>, and bound its lifetime.
\<close>

section \<open>The middleware\<close>

text \<open>The identity of a session token, or why it is refused.\<close>

definition authenticate :: "crypto \<Rightarrow> config \<Rightarrow> time \<Rightarrow> string \<Rightarrow> jwt_error + oid" where
  "authenticate C cfg now tok = jwt_verify C (jwt_secret cfg) now tok"

text \<open>
  A protected route: a refused token ends the request with an error and no write; an
  accepted one becomes \<open>req.user\<close> for the handler.
\<close>

definition guarded ::
  "crypto \<Rightarrow> config \<Rightarrow> time \<Rightarrow> string \<Rightarrow> (request \<Rightarrow> store \<Rightarrow> outcome) \<Rightarrow> request \<Rightarrow> store \<Rightarrow> outcome" where
  "guarded C cfg now tok h req st =
     (case authenticate C cfg now tok of
        Inl _ \<Rightarrow> (Inl (Error ''Not authorized to access this route''), st)
      | Inr i \<Rightarrow> h (req\<lparr>auth_user := Some i\<rparr>) st)"

section \<open>Lemmas\<close>

lemma body_field_auth_user [simp]: "body_field (req\<lparr>auth_user := a\<rparr>) k = body_field req k"
  by (simp add: body_field_def)

lemma authenticate_session:
  "jwt_sign_error cfg = None \<Longrightarrow>
   authenticate C cfg now' (getSignedJwtToken C cfg now u) =
     (if int (now' div 1000) < int (now div 1000) + session_ttl cfg then Inr (uid u) else Inl TokenExpired)"
  by (simp add: authenticate_def getSignedJwtToken_def jwt_sign_def Let_def jwt_verify_encode
      jwt_sign_error_None)

text \<open>The session token a successful login sets is the user's signed token.\<close>

lemma login_session:
  assumes "body_field req ''email'' = Some e" "e \<noteq> []" "body_field req ''password'' = Some p" "p \<noteq> []"
    and "find_by_email st e = Some u" "bcrypt_hash C p = password u" "session_ok cfg (req_time ev)"
  shows "\<exists>r. login C cfg ev req st = (Inr r, st) \<and>
             response_token r = Some (getSignedJwtToken C cfg (req_time ev) u)"
proof -
  obtain r where r: "sendTokenResponse C cfg (req_time ev) u 200 = Inr r"
    using sendTokenResponse_ok assms(7) by blast
  then show ?thesis
    using assms sendTokenResponse_Inr [OF r] by (simp add: login_cases)
qed

text \<open>A wire token determines its claims and its signature.\<close>

lemma jwt_encode_inj: "jwt_encode c sig = jwt_encode c' sig' \<longleftrightarrow> c = c' \<and> sig = sig'"
  by (metis jwt_decode_encode option.inject prod.inject)

subsection \<open>Properties\<close>

text \<open>
  C27. Spec 4.4: a session proves a prior login. The token a login sets passes the
  middleware as that user until it expires, and \<open>updatePassword\<close> behind it, given the
  current password, answers with a fresh session for the same user (and, as C8 shows,
  writes nothing).
\<close>

theorem session_update_password:
  assumes "wf_store st" "body_field req ''email'' = Some e" "e \<noteq> []"
    and "body_field req ''password'' = Some p" "p \<noteq> []"
    and "find_by_email st e = Some u" "bcrypt_hash C p = password u" "password u \<noteq> []"
    and "session_ok cfg (req_time ev)" "session_ok cfg (req_time ev')"
    and "int (now' div 1000) < int (req_time ev div 1000) + session_ttl cfg"
  shows "\<exists>r s r'. login C cfg ev req st = (Inr r, st) \<and> response_token r = Some s \<and>
           authenticate C cfg now' s = Inr (uid u) \<and>
           guarded C cfg now' s (updatePassword C cfg ev') req st = (Inr r', st) \<and>
           response_token r' = Some (getSignedJwtToken C cfg (req_time ev') u)"
proof -
  obtain r where r: "login C cfg ev req st = (Inr r, st)"
      "response_token r = Some (getSignedJwtToken C cfg (req_time ev) u)"
    using login_session [OF assms(2-7,9)] by blast
  have auth: "authenticate C cfg now' (getSignedJwtToken C cfg (req_time ev) u) = Inr (uid u)"
    using assms(9,11) by (simp add: authenticate_session session_ok_def)
  have u: "find_by_id st (uid u) = Some u"
    using find_by_id_in_wf assms(1,6) by (auto simp: wf_store_def)
  obtain r' where r': "sendTokenResponse C cfg (req_time ev') u 200 = Inr r'"
    using sendTokenResponse_ok assms(10) by blast
  have "email u = e" using assms(6) by auto
  then have "guarded C cfg now' (getSignedJwtToken C cfg (req_time ev) u) (updatePassword C cfg ev') req st = (Inr r', st)"
    using auth u assms(3,4,7,8) r' by (simp add: guarded_def updatePassword_def doc_save_def missing_paths_def)
  then show ?thesis
    using r auth sendTokenResponse_Inr [OF r'] by blast
qed

text \<open>
  C28. The lifetime of a session is the whole seconds of \<open>ms(JWT_EXPIRE)\<close> (a bare
  number there is milliseconds) from the second the token was issued: the cookie \<open>sendTokenResponse\<close> sets passes the middleware strictly
  before that and is refused as expired from then on, so a protected handler behind it
  never runs.
\<close>

theorem session_lifetime:
  assumes "sendTokenResponse C cfg now u code = Inr r" "response_token r = Some tok"
  shows "guarded C cfg now' tok h req st =
           (if int (now' div 1000) < int (now div 1000) + session_ttl cfg
            then h (req\<lparr>auth_user := Some (uid u)\<rparr>) st
            else (Inl (Error ''Not authorized to access this route''), st))"
  using sendTokenResponse_Inr [OF assms(1)] sendTokenResponse_session_ok [OF assms(1)] assms(2)
  by (simp add: guarded_def authenticate_session session_ok_def)



end
