(* ===== verification/Crud.thy ===== *)
theory Crud
  imports Http "HOL-Library.List_Lexorder" "HOL-Library.Char_ord" "HOL-Library.Multiset"
begin

text \<open>
  The user CRUD handlers of src/controllers/userController.js: \<open>getUsers\<close> (lines
  4-45), \<open>postUser\<close> (47-55), \<open>deleteUsers\<close> (57-68), \<open>getUser\<close> (70-81),
  \<open>updateUser\<close> (83-95) and \<open>deleteUser\<close> (97-108). They reach the collection through
  Mongoose calls that are not in the repository (\<open>find\<close> with a projection and
  options, \<open>create\<close>, \<open>deleteMany\<close>, \<open>findById\<close>, \<open>findByIdAndUpdate\<close>,
  \<open>findByIdAndDelete\<close>); those are written here as the library behaves: the schema
  hides the password unless a projection asks for it, ids and the \<open>limit\<close> option are
  cast from text, \<open>findByIdAndUpdate\<close> writes \<open>$set\<close> directly, without validation
  or the pre-save hook, and the unique index on email refuses duplicates. Reads of the
  store are taken to succeed; writes may fail as in the other handlers.
\<close>

section \<open>The library calls\<close>

text \<open>The schema's paths the query string can select, in the order of the source.\<close>

definition user_paths :: "string list" where
  "user_paths = [''userName'', ''email'', ''password'', ''firstName'', ''lastName'', ''gender'']"

text \<open>
  A document as JSON: every path that is set, in schema order, after \<open>_id\<close>; the expiry
  is a Date, which \<open>res.json\<close> writes as its ISO text.
\<close>

definition user_fields :: "user \<Rightarrow> (string \<times> json) list" where
  "user_fields u =
     [(''userName'', JStr (userName u)), (''email'', JStr (email u)), (''password'', JStr (password u)),
      (''firstName'', JStr (firstName u)), (''lastName'', JStr (lastName u)), (''gender'', JStr (gender u))]
     @ (case resetPasswordToken u of None \<Rightarrow> [] | Some h \<Rightarrow> [(''resetPasswordToken'', JStr h)])
     @ (case resetPasswordExpire u of None \<Rightarrow> [] | Some x \<Rightarrow> [(''resetPasswordExpire'', JDate x)])"

text \<open>
  A projection: an empty one is the schema's default, which leaves out the password
  (\<open>select: false\<close>); an inclusive one keeps \<open>_id\<close> and the paths it names, the
  password too when named. The id is written as its hexadecimal text.
\<close>

definition project :: "string list \<Rightarrow> user \<Rightarrow> json" where
  "project ps u =
     JObj ((''_id'', JStr (show_oid (uid u))) #
           (if ps = [] then filter (\<lambda>(k, _). k \<noteq> ''password'') (user_fields u)
            else filter (\<lambda>(k, _). k \<in> set ps) (user_fields u)))"

record find_options =
  opt_limit :: "string option"
  opt_sort :: "int option"

text \<open>
  \<open>Query.prototype.limit\<close> casts a text with \<open>Number(v)\<close> and throws a
  \<open>CastError\<close> on \<open>NaN\<close>. The driver sends the absolute value of a negative limit
  (with \<open>singleBatch\<close>), and the server reads it as a 64-bit integer, truncating a
  fraction and saturating at its largest value; 0 means no limit.
\<close>

definition max_limit :: nat where
  "max_limit = 2 ^ 63 - 1"

definition find_limit :: "string \<Rightarrow> js_error + nat" where
  "find_limit l =
     (case js_number l of
        NaN \<Rightarrow> Inl (CastError ''Number'' l ''limit'' None)
      | Infinity _ \<Rightarrow> Inr max_limit
      | Finite neg m e \<Rightarrow> Inr (min max_limit (nat \<bar>js_trunc neg m e\<bar>)))"

text \<open>
  \<open>User.find({}, projection, options)\<close>: sort on \<open>firstName\<close> (1 ascending, -1
  descending, ties in natural order), then \<open>limit\<close>.
\<close>

definition sort_first_name :: "int \<Rightarrow> store \<Rightarrow> store" where
  "sort_first_name d st = (if d = 1 then sort_key firstName st else rev (sort_key firstName (rev st)))"

definition mongo_find :: "string list \<Rightarrow> find_options \<Rightarrow> store \<Rightarrow> js_error + json list" where
  "mongo_find ps opts st =
     (let sorted = (case opt_sort opts of None \<Rightarrow> st | Some d \<Rightarrow> sort_first_name d st)
      in case opt_limit opts of
           None \<Rightarrow> Inr (map (project ps) sorted)
         | Some l \<Rightarrow>
             (case find_limit l of
                Inl e \<Rightarrow> Inl e
              | Inr n \<Rightarrow> Inr (map (project ps) (if n = 0 then sorted else take n sorted))))"

text \<open>\<open>ObjectId.createFromTime\<close> and kin are not modelled: a fresh id is one above all ids.\<close>

definition new_oid :: "store \<Rightarrow> oid" where
  "new_oid st = Suc (foldr max (map uid st) 0)"

text \<open>
  \<open>User.create(doc)\<close>: validation reports the paths whose cast failed when the
  document was built, then the required paths left empty (email and password); then the
  pre-save hook (the password of a new document is hashed), the write, and the unique
  index on email.
\<close>

definition user_create ::
  "crypto \<Rightarrow> bool \<Rightarrow> (string \<times> string) list \<Rightarrow> user \<Rightarrow> store \<Rightarrow> js_error + (user \<times> store)" where
  "user_create C fails cast_errs u st =
     (let es = cast_errs @ map required_error (missing_paths u)
      in if es \<noteq> [] then Inl (ValidationError (Some ''User'') es)
      else if fails then Inl StoreError
      else if email u \<in> set (map email st) then Inl (Error ''E11000 duplicate key error: email'')
      else let u' = u\<lparr>password := bcrypt_hash C (password u)\<rparr> in Inr (u', st @ [u']))"

text \<open>
  Mongoose's \<open>castDate\<close> of a text: the empty text is \<open>null\<close>; a text that
  \<open>Number\<close> reads as at least 275761 or below -271820 is a count of milliseconds,
  \<open>new Date(Number(v))\<close>; any other text is \<open>new Date(v)\<close>, parsed by the engine. An
  invalid date is a \<open>CastError\<close>.
\<close>

definition cast_date :: "(string \<Rightarrow> int option) \<Rightarrow> string \<Rightarrow> js_error + int option" where
  "cast_date dparse v =
     (if v = [] then Inr None
      else let t = (case js_number v of
                      NaN \<Rightarrow> dparse v
                    | Infinity _ \<Rightarrow> None
                    | Finite neg m e \<Rightarrow>
                        (let (n, d) = frac_of neg m e
                         in if 275761 * int d \<le> n \<or> n < -271820 * int d then js_date 0 (Finite neg m e) 1
                            else dparse v))
           in case t of
                None \<Rightarrow> Inl (CastError ''date'' v ''resetPasswordExpire'' None)
              | Some x \<Rightarrow> Inr (Some x))"

text \<open>
  A path of \<open>req.body\<close> cast to an assignment on the document: the schema's string
  paths take the text as it is (the password too: no hook runs), the expiry is cast to
  a Date, and paths the schema does not know are dropped (strict mode).
\<close>

definition cast_path :: "(string \<Rightarrow> int option) \<Rightarrow> string \<Rightarrow> string \<Rightarrow> js_error + (user \<Rightarrow> user)" where
  "cast_path dparse k v =
     (if k = ''userName'' then Inr (\<lambda>u. u\<lparr>userName := v\<rparr>)
      else if k = ''email'' then Inr (\<lambda>u. u\<lparr>email := v\<rparr>)
      else if k = ''password'' then Inr (\<lambda>u. u\<lparr>password := v\<rparr>)
      else if k = ''firstName'' then Inr (\<lambda>u. u\<lparr>firstName := v\<rparr>)
      else if k = ''lastName'' then Inr (\<lambda>u. u\<lparr>lastName := v\<rparr>)
      else if k = ''gender'' then Inr (\<lambda>u. u\<lparr>gender := v\<rparr>)
      else if k = ''resetPasswordToken'' then Inr (\<lambda>u. u\<lparr>resetPasswordToken := Some v\<rparr>)
      else if k = ''resetPasswordExpire'' then
        (case cast_date dparse v of
           Inl e \<Rightarrow> Inl e
         | Inr x \<Rightarrow> Inr (\<lambda>u. u\<lparr>resetPasswordExpire := x\<rparr>))
      else Inr id)"

text \<open>
  Every path of the body is cast, in order (a later value of a path wins); the failures
  are collected with their messages, the others assigned.
\<close>

fun cast_body :: "(string \<Rightarrow> int option) \<Rightarrow> (string \<times> string) list \<Rightarrow> (string \<times> string) list \<times> (user \<Rightarrow> user)" where
  "cast_body dparse [] = ([], id)"
| "cast_body dparse ((k, v) # kvs) =
     (let (es, g) = cast_body dparse kvs
      in case cast_path dparse k v of
           Inl e \<Rightarrow> ((k, err_message e) # es, g)
         | Inr f \<Rightarrow> (es, g \<circ> f))"

text \<open>
  The cast of an update (\<open>castUpdate\<close>): a failed path makes the whole update a
  \<open>ValidationError\<close> of no model, listing every failed path.
\<close>

definition cast_update :: "(string \<Rightarrow> int option) \<Rightarrow> (string \<times> string) list \<Rightarrow> js_error + (user \<Rightarrow> user)" where
  "cast_update dparse kvs =
     (case cast_body dparse kvs of
        ([], f) \<Rightarrow> Inr f
      | (es, _) \<Rightarrow> Inl (ValidationError None es))"

text \<open>The document built from \<open>req.body\<close> for \<open>User.create\<close>: unset paths are empty.\<close>

definition blank_user :: "oid \<Rightarrow> user" where
  "blank_user i = \<lparr>uid = i, userName = [], email = [], password = [], firstName = [], lastName = [],
     gender = [], resetPasswordToken = None, resetPasswordExpire = None\<rparr>"

text \<open>
  \<open>req.params.userId\<close> as text (\<open>undefined\<close> when absent; the routes always supply it)
  and cast to an id when the query's filter is cast, with the model named in the error.
\<close>

definition param_text :: "request \<Rightarrow> string" where
  "param_text req = (case map_of (params req) ''userId'' of None \<Rightarrow> ''undefined'' | Some s \<Rightarrow> s)"

definition param_oid :: "request \<Rightarrow> js_error + oid" where
  "param_oid req =
     (case parse_oid (param_text req) of
        None \<Rightarrow> Inl (CastError ''ObjectId'' (param_text req) ''_id'' (Some ''User''))
      | Some i \<Rightarrow> Inr i)"

text \<open>The members of a JSON object, read back from a response.\<close>

definition json_fields :: "json \<Rightarrow> (string \<times> json) list" where
  "json_fields j = (case j of JObj kvs \<Rightarrow> kvs | _ \<Rightarrow> [])"

section \<open>Handlers\<close>

definition query_field :: "request \<Rightarrow> string \<Rightarrow> string option" where
  "query_field req k = map_of (query req) k"

text \<open>Lines 5 and 8-27: the projection, one inclusive path per truthy query field.\<close>

definition users_filter :: "request \<Rightarrow> string list" where
  "users_filter req =
     (if query req = [] then [] else filter (\<lambda>k. truthy (query_field req k)) user_paths)"

text \<open>Lines 6, 8 and 28-31: \<open>limit\<close>, and the sort on \<open>firstName\<close>.\<close>

definition users_options :: "request \<Rightarrow> find_options" where
  "users_options req =
     (if query req = [] then \<lparr>opt_limit = None, opt_sort = None\<rparr>
      else \<lparr>opt_limit = (if truthy (query_field req ''limit'') then query_field req ''limit'' else None),
            opt_sort = (if truthy (query_field req ''sortByFirstName'')
                        then Some (if query_field req ''sortByFirstName'' = Some ''asc'' then 1 else -1)
                        else None)\<rparr>)"

definition getUsers :: "env \<Rightarrow> request \<Rightarrow> store \<Rightarrow> outcome" where
  "getUsers ev req st =
     (case mongo_find (users_filter req) (users_options req) st of
        Inl e \<Rightarrow> (Inl (Error (''ERROR RETRIEVING USERS: '' @ err_message e)), st)
      | Inr users \<Rightarrow> (Inr (json_ok (JArr users)), st))"

text \<open>
  \<open>postUser\<close>: the document is created from the body, then the token is sent; a throw
  of \<open>sendTokenResponse\<close> is caught too, after the document was written.
\<close>

definition postUser :: "crypto \<Rightarrow> config \<Rightarrow> env \<Rightarrow> request \<Rightarrow> store \<Rightarrow> outcome" where
  "postUser C cfg ev req st =
     (let fail = (\<lambda>e st'. (Inl (Error (''ERROR POSTING USER: '' @ err_message e)), st'))
      in case cast_body (date_parse ev) (body req) of
           (errs, f) \<Rightarrow>
             (case user_create C (write_fails ev 0) errs (f (blank_user (new_oid st))) st of
                Inl e \<Rightarrow> fail e st
              | Inr (u, st') \<Rightarrow>
                  (case sendTokenResponse C cfg (req_time ev) u 201 of
                     Inl e \<Rightarrow> fail e st'
                   | Inr r \<Rightarrow> (Inr r, st'))))"

text \<open>\<open>deleteUsers\<close>: every document goes; note the Content-Type it sets.\<close>

definition deleteUsers :: "env \<Rightarrow> request \<Rightarrow> store \<Rightarrow> outcome" where
  "deleteUsers ev req st =
     (if write_fails ev 0 then (Inl (Error (''ERROR DELETING USERS: '' @ err_message StoreError)), st)
      else (Inr (res_json (JObj [(''success'', JBool True), (''msg'', JStr ''succesfully deleted all users!'')])
                   (res_set_header ''Content-Type'' ''applicaton/json'' (res_status 200 new_response))), []))"

text \<open>\<open>getUser\<close>: the document with the default projection, or \<open>null\<close>.\<close>

definition getUser :: "env \<Rightarrow> request \<Rightarrow> store \<Rightarrow> outcome" where
  "getUser ev req st =
     (case param_oid req of
        Inl e \<Rightarrow> (Inl (Error (''ERROR GETTING USER '' @ param_text req @ '': '' @ err_message e)), st)
      | Inr i \<Rightarrow> (Inr (json_ok (case find_by_id st i of None \<Rightarrow> JNull | Some u \<Rightarrow> project [] u)), st))"

text \<open>
  \<open>updateUser\<close>: \<open>findByIdAndUpdate(id, {$set: req.body}, {new: true})\<close>. The update is
  cast first; a missing document gives \<open>null\<close>; the unique index refuses an email
  another document holds.
\<close>

definition updateUser :: "env \<Rightarrow> request \<Rightarrow> store \<Rightarrow> outcome" where
  "updateUser ev req st =
     (let fail = (\<lambda>e. (Inl (Error (''ERROR UPDATING USER  '' @ param_text req @ '': '' @ err_message e)), st))
      in case param_oid req of
           Inl e \<Rightarrow> fail e
         | Inr i \<Rightarrow>
             (case cast_update (date_parse ev) (body req) of
                Inl e \<Rightarrow> fail e
              | Inr f \<Rightarrow>
                  (case find_by_id st i of
                     None \<Rightarrow> (Inr (json_ok JNull), st)
                   | Some u \<Rightarrow>
                       if email (f u) \<in> set (map email (filter (\<lambda>w. uid w \<noteq> i) st))
                       then fail (Error ''E11000 duplicate key error: email'')
                       else if write_fails ev 0 then fail StoreError
                       else (Inr (json_ok (project [] (f u))),
                             map (\<lambda>w. if uid w = i then f w else w) st))))"

text \<open>\<open>deleteUser\<close>: success is reported whether or not the document existed.\<close>

definition deleteUser :: "env \<Rightarrow> request \<Rightarrow> store \<Rightarrow> outcome" where
  "deleteUser ev req st =
     (let fail = (\<lambda>e. (Inl (Error (''ERROR DELETING USER '' @ param_text req @ '': '' @ err_message e)), st))
      in case param_oid req of
           Inl e \<Rightarrow> fail e
         | Inr i \<Rightarrow>
             if write_fails ev 0 then fail StoreError
             else (Inr (json_ok (JObj [(''success'', JBool True),
                     (''msg'', JStr (''User with id '' @ param_text req @ '' has been deleted!''))])),
                   filter (\<lambda>w. uid w \<noteq> i) st))"

section \<open>Lemmas\<close>

subsection \<open>Casting and creating\<close>

lemma cast_path_uid: "cast_path dp k v = Inr f \<Longrightarrow> uid (f u) = uid u"
  unfolding cast_path_def by (auto split: if_splits sum.splits)

lemma cast_body_uid: "cast_body dp kvs = (es, f) \<Longrightarrow> uid (f u) = uid u"
proof (induction kvs arbitrary: es f u)
  case Nil
  then show ?case by auto
next
  case (Cons kv kvs)
  then show ?case
    by (cases kv) (auto dest: cast_path_uid split: sum.splits prod.splits)
qed

lemma cast_update_uid: "cast_update dp kvs = Inr f \<Longrightarrow> uid (f u) = uid u"
  by (auto simp: cast_update_def intro: cast_body_uid split: prod.splits list.splits)

lemma cast_update_password [simp]: "cast_update dp [(''password'', p)] = Inr (\<lambda>u. u\<lparr>password := p\<rparr>)"
  by (simp add: cast_update_def cast_path_def comp_def)

lemma foldr_max_ge: "x \<in> set xs \<Longrightarrow> x \<le> foldr max xs (0::nat)"
  by (induction xs) auto

lemma new_oid_fresh: "new_oid st \<notin> set (map uid st)"
  using foldr_max_ge [of "new_oid st" "map uid st"] by (auto simp: new_oid_def)

lemma user_create_Inr:
  "user_create C b es u st = Inr (u', st') \<Longrightarrow>
   st' = st @ [u'] \<and> u' = u\<lparr>password := bcrypt_hash C (password u)\<rparr> \<and> email u \<notin> set (map email st) \<and>
   email u \<noteq> [] \<and> password u \<noteq> [] \<and> \<not> b \<and> es = []"
  unfolding user_create_def by (auto simp: missing_paths_def Let_def split: if_splits)

lemma user_create_wf:
  "user_create C b es u st = Inr (u', st') \<Longrightarrow> uid u \<notin> set (map uid st) \<Longrightarrow> wf_store st \<Longrightarrow> wf_store st'"
  by (auto simp: wf_store_def dest!: user_create_Inr)

lemma param_oid_Inr: "param_oid req = Inr i \<longleftrightarrow> parse_oid (param_text req) = Some i"
  by (simp add: param_oid_def split: option.split)

subsection \<open>Reading the collection\<close>

lemma users_filter_password:
  "''password'' \<in> set (users_filter req) \<longleftrightarrow> truthy (query_field req ''password'')"
  by (auto simp: users_filter_def user_paths_def query_field_def split: option.splits)

lemma project_password:
  "(''password'', x) \<in> set (json_fields (project ps u)) \<longleftrightarrow>
   ps \<noteq> [] \<and> ''password'' \<in> set ps \<and> x = JStr (password u)"
  by (auto simp: project_def json_fields_def user_fields_def split: option.splits)

lemma mset_sort_first_name [simp]: "mset (sort_first_name d st) = mset st"
  by (simp add: sort_first_name_def)

lemma length_sort_first_name [simp]: "length (sort_first_name d st) = length st"
  by (simp add: sort_first_name_def)

lemma set_sort_first_name [simp]: "set (sort_first_name d st) = set st"
  by (simp add: sort_first_name_def)

lemma sorted_sort_first_name:
  "sorted (map firstName (sort_first_name 1 st))"
  "d \<noteq> 1 \<Longrightarrow> sorted (rev (map firstName (sort_first_name d st)))"
  by (simp_all add: sort_first_name_def rev_map [symmetric])

lemma mongo_find_Inr: "mongo_find ps opts st = Inr js \<Longrightarrow> set js \<subseteq> project ps ` set st"
  by (auto simp: mongo_find_def Let_def split: option.splits if_splits sum.splits
      dest!: in_set_takeD)

lemma mongo_find_limit_Inl:
  "opt_limit opts = Some l \<Longrightarrow> find_limit l = Inl e \<Longrightarrow> mongo_find ps opts st = Inl e"
  by (simp add: mongo_find_def Let_def)

lemma mongo_find_limit_Inr:
  "opt_limit opts = Some l \<Longrightarrow> find_limit l = Inr n \<Longrightarrow>
   \<exists>js. mongo_find ps opts st = Inr js \<and> length js = (if n = 0 then length st else min n (length st))"
  by (auto simp: mongo_find_def Let_def min.commute split: option.split)

lemma max_limit_pos: "max_limit \<noteq> 0"
  by (simp add: max_limit_def)

lemma getUsers_store [simp]: "snd (getUsers ev req st) = st"
  by (simp add: getUsers_def split: sum.split)

lemma getUsers_Inr:
  "fst (getUsers ev req st) = Inr r \<Longrightarrow>
   \<exists>js. mongo_find (users_filter req) (users_options req) st = Inr js \<and> r = json_ok (JArr js)"
  by (simp add: getUsers_def split: sum.splits)

subsection \<open>Writing the collection\<close>

lemma email_fresh_others:
  "wf_store st \<Longrightarrow> find_by_id st i = Some u \<Longrightarrow> email u \<notin> set (map email (filter (\<lambda>w. uid w \<noteq> i) st))"
  by (auto simp: wf_store_def find_by_id_def dest: inj_onD [OF distinct_map [THEN iffD1, THEN conjunct2]])

text \<open>An update of the one document with a given id keeps the collection well formed.\<close>

lemma wf_store_update_one:
  assumes "wf_store st" "find_by_id st i = Some u" "\<And>w. uid (f w) = uid w"
    and "email (f u) \<notin> set (map email (filter (\<lambda>w. uid w \<noteq> i) st))"
  shows "wf_store (map (\<lambda>w. if uid w = i then f w else w) st)"
proof -
  let ?g = "\<lambda>w. if uid w = i then f w else w"
  from assms(2) have u: "u \<in> set st" "uid u = i" by (auto simp: find_by_id_def)
  then obtain xs ys where st: "st = xs @ u # ys" by (meson split_list)
  have d: "distinct (map uid (xs @ u # ys))" "distinct (map email (xs @ u # ys))"
    using assms(1) st by (simp_all add: wf_store_def)
  have "i \<notin> uid ` set xs" "i \<notin> uid ` set ys"
    using d(1) u(2) by simp_all
  then have out: "\<forall>w \<in> set xs \<union> set ys. uid w \<noteq> i"
    by blast
  have mx: "map ?g xs = xs"
    by (rule map_idI) (use out in auto)
  have my: "map ?g ys = ys"
    by (rule map_idI) (use out in auto)
  have filt: "filter (\<lambda>w. uid w \<noteq> i) st = xs @ ys"
    unfolding st using out u(2) by simp
  have m: "map ?g st = xs @ f u # ys"
    unfolding st using mx my u(2) by simp
  have fr: "email (f u) \<notin> email ` set xs" "email (f u) \<notin> email ` set ys"
    using assms(4) by (simp_all add: filt)
  have "distinct (map uid (xs @ f u # ys))"
    using d(1) assms(3) [of u] by simp
  moreover have "distinct (map email (xs @ f u # ys))"
    using d(2) fr by auto
  ultimately show ?thesis
    by (simp add: wf_store_def m)
qed

lemma updateUser_found:
  assumes "param_oid req = Inr i" "cast_update (date_parse ev) (body req) = Inr f" "find_by_id st i = Some u"
    and "email (f u) \<notin> set (map email (filter (\<lambda>w. uid w \<noteq> i) st))" "\<not> write_fails ev 0"
  shows "updateUser ev req st = (Inr (json_ok (project [] (f u))), map (\<lambda>w. if uid w = i then f w else w) st)"
  using assms by (simp add: updateUser_def)

lemma param_oid_text:
  "params req = [(''userId'', s)] \<Longrightarrow> parse_oid s = Some i \<Longrightarrow> param_oid req = Inr i"
  by (simp add: param_oid_def param_text_def)

lemma getUser_store [simp]: "snd (getUser ev req st) = st"
  by (simp add: getUser_def split: sum.split)

lemma postUser_wf:
  assumes "wf_store st"
  shows "wf_store (snd (postUser C cfg ev req st))"
proof -
  have "uid (f (blank_user (new_oid st))) \<notin> set (map uid st)" if "cast_body (date_parse ev) (body req) = (es, f)" for es f
    using cast_body_uid [OF that] new_oid_fresh by (simp add: blank_user_def)
  then show ?thesis
    using assms by (auto simp: postUser_def Let_def split: sum.splits prod.splits elim!: user_create_wf)
qed

lemma deleteUsers_wf: "wf_store st \<Longrightarrow> wf_store (snd (deleteUsers ev req st))"
  by (simp add: deleteUsers_def wf_store_def)

lemma deleteUser_wf: "wf_store st \<Longrightarrow> wf_store (snd (deleteUser ev req st))"
  by (auto simp: deleteUser_def wf_store_def distinct_map_filter split: sum.split)

lemma updateUser_wf: "wf_store st \<Longrightarrow> wf_store (snd (updateUser ev req st))"
  by (auto simp: updateUser_def Let_def split: sum.splits option.splits
      intro!: wf_store_update_one dest: cast_update_uid)

subsection \<open>Every answer is JSON\<close>

lemma postUser_json:
  "fst (postUser C cfg ev req st) = Inr r \<Longrightarrow> json_response r \<and> status r \<in> {200, 201}"
  by (auto simp: postUser_def Let_def split: sum.splits prod.splits dest: sendTokenResponse_json)

lemma getUsers_json:
  "fst (getUsers ev req st) = Inr r \<Longrightarrow> json_response r \<and> status r \<in> {200, 201}"
  by (auto simp: getUsers_def split: sum.splits)

lemma getUser_json:
  "fst (getUser ev req st) = Inr r \<Longrightarrow> json_response r \<and> status r \<in> {200, 201}"
  by (auto simp: getUser_def split: sum.splits)

lemma updateUser_json:
  "fst (updateUser ev req st) = Inr r \<Longrightarrow> json_response r \<and> status r \<in> {200, 201}"
  by (auto simp: updateUser_def Let_def split: sum.splits option.splits if_splits)

lemma deleteUser_json:
  "fst (deleteUser ev req st) = Inr r \<Longrightarrow> json_response r \<and> status r \<in> {200, 201}"
  by (auto simp: deleteUser_def Let_def split: sum.splits if_splits)

lemma deleteUsers_json:
  "fst (deleteUsers ev req st) = Inr r \<Longrightarrow> json_response r \<and> status r \<in> {200, 201}"
  by (auto simp: deleteUsers_def res_status_def res_set_header_def split: if_splits)

subsection \<open>Properties of the handlers\<close>

text \<open>
  C3. \<open>getUsers\<close> answers with a password hash exactly when the query string has a
  truthy \<open>password\<close> field: the inclusive projection overrides \<open>select: false\<close>,
  so \<open>GET /users?password=1\<close> lists every stored hash.
\<close>

theorem getUsers_password_exposure:
  assumes "fst (getUsers ev req st) = Inr r" "json_body r = Some (JArr js)" "j \<in> set js"
  shows "(\<exists>u \<in> set st. (''password'', JStr (password u)) \<in> set (json_fields j)) \<longleftrightarrow>
         truthy (query_field req ''password'')"
proof -
  obtain js' where "mongo_find (users_filter req) (users_options req) st = Inr js'" "r = json_ok (JArr js')"
    using getUsers_Inr [OF assms(1)] by blast
  with assms(2,3) obtain u where u: "u \<in> set st" "j = project (users_filter req) u"
    by (auto dest!: mongo_find_Inr)
  moreover have "truthy (query_field req ''password'') \<Longrightarrow> users_filter req \<noteq> []"
    using users_filter_password [of req] by force
  ultimately show ?thesis
    by (auto simp: project_password users_filter_password)
qed

text \<open>
  C19. With \<open>sortByFirstName\<close> and no \<open>limit\<close>, \<open>getUsers\<close> lists every document
  once, ordered on \<open>firstName\<close>: ascending for \<open>asc\<close>, descending for any other value.
\<close>

theorem getUsers_sorted:
  assumes "query_field req ''sortByFirstName'' = Some s" "s \<noteq> []" "\<not> truthy (query_field req ''limit'')"
  shows "\<exists>us. mset us = mset st \<and>
           (if s = ''asc'' then sorted (map firstName us) else sorted (rev (map firstName us))) \<and>
           getUsers ev req st = (Inr (json_ok (JArr (map (project (users_filter req)) us))), st)"
proof -
  have "query req \<noteq> []" using assms(1) by (auto simp: query_field_def)
  then have "users_options req = \<lparr>opt_limit = None, opt_sort = Some (if s = ''asc'' then 1 else -1)\<rparr>"
    using assms by (simp add: users_options_def)
  then have "getUsers ev req st =
      (Inr (json_ok (JArr (map (project (users_filter req)) (sort_first_name (if s = ''asc'' then 1 else -1) st)))), st)"
    by (simp add: getUsers_def mongo_find_def)
  then show ?thesis
    using sorted_sort_first_name(1) [where st = st] sorted_sort_first_name(2) [where d = "-1" and st = st]
    by (intro exI [where x = "sort_first_name (if s = ''asc'' then 1 else -1) st"]) simp
qed

text \<open>
  C4. \<open>updateUser\<close> writes \<open>req.body.password\<close> into the document as it is:
  \<open>findByIdAndUpdate\<close> runs no save hook, so the password is stored in plaintext.
\<close>

theorem updateUser_plaintext_password:
  assumes "wf_store st" "find_by_id st i = Some u" "\<not> write_fails ev 0"
    and "params req = [(''userId'', s)]" "parse_oid s = Some i" "body req = [(''password'', p)]"
  shows "\<exists>r st'. updateUser ev req st = (Inr r, st') \<and> wf_store st' \<and>
           find_by_id st' i = Some (u\<lparr>password := p\<rparr>)"
proof -
  have upd: "updateUser ev req st =
      (Inr (json_ok (project [] (u\<lparr>password := p\<rparr>))), map (\<lambda>w. if uid w = i then w\<lparr>password := p\<rparr> else w) st)"
    using assms email_fresh_others [OF assms(1,2)] by (intro updateUser_found) (simp_all add: param_oid_text)
  have "uid u = i" using assms(2) by (auto simp: find_by_id_def)
  then have "find_by_id (map (\<lambda>w. if uid w = i then w\<lparr>password := p\<rparr> else w) st) i = Some (u\<lparr>password := p\<rparr>)"
    using assms(2) by (subst find_by_id_map) simp_all
  with upd show ?thesis
    using updateUser_wf [OF assms(1), of ev req] by auto
qed

text \<open>
  C17. \<open>postUser\<close> writes the new document before \<open>sendTokenResponse\<close> runs; when that
  throws (\<open>JWT_COOKIE_EXPIRE\<close> not a number of days, \<open>JWT_SECRET\<close> empty,
  \<open>JWT_EXPIRE\<close> not a timespan) the handler reports that error, yet the account exists.
\<close>

theorem postUser_error_keeps_user:
  assumes "body req = [(''email'', e), (''password'', p)]" "e \<noteq> []" "p \<noteq> []"
    and "e \<notin> set (map email st)" "\<not> write_fails ev 0" "\<not> session_ok cfg (req_time ev)"
  shows "\<exists>x. sendTokenResponse C cfg (req_time ev)
             ((blank_user (new_oid st))\<lparr>email := e, password := bcrypt_hash C p\<rparr>) 201 = Inl x \<and>
           postUser C cfg ev req st =
           (Inl (Error (''ERROR POSTING USER: '' @ err_message x)),
            st @ [(blank_user (new_oid st))\<lparr>email := e, password := bcrypt_hash C p\<rparr>])"
proof -
  let ?u = "(blank_user (new_oid st))\<lparr>email := e, password := bcrypt_hash C p\<rparr>"
  obtain x where x: "sendTokenResponse C cfg (req_time ev) ?u 201 = Inl x"
    using sendTokenResponse_not_ok assms(6) by blast
  have "postUser C cfg ev req st = (Inl (Error (''ERROR POSTING USER: '' @ err_message x)), st @ [?u])"
    using assms(1-5) x
    by (simp add: postUser_def user_create_def cast_path_def missing_paths_def blank_user_def Let_def)
  with x show ?thesis by blast
qed

text \<open>
  C21. \<open>deleteUsers\<close> removes every document and answers 200 with the Content-Type
  \<open>applicaton/json\<close> (sic, line 63).
\<close>

theorem deleteUsers_clears:
  "\<not> write_fails ev 0 \<Longrightarrow>
   \<exists>r. deleteUsers ev req st = (Inr r, []) \<and> status r = 200 \<and>
     map_of (headers r) ''Content-Type'' = Some ''applicaton/json; charset=utf-8''"
  by (simp add: deleteUsers_def res_json_def res_set_header_def res_status_def new_response_def)

text \<open>
  C18. An id that names no document is not an error: \<open>getUser\<close> and \<open>updateUser\<close>
  answer 200 with \<open>null\<close>, and \<open>deleteUser\<close> reports the deletion, the collection
  unchanged; the spec wants no success masquerading a failure.
\<close>

theorem absent_user_not_an_error:
  assumes "params req = [(''userId'', s)]" "parse_oid s = Some i" "find_by_id st i = None"
    and "cast_update (date_parse ev) (body req) = Inr f" "\<not> write_fails ev 0"
  shows "getUser ev req st = (Inr (json_ok JNull), st) \<and>
         updateUser ev req st = (Inr (json_ok JNull), st) \<and>
         deleteUser ev req st = (Inr (json_ok (JObj [(''success'', JBool True),
            (''msg'', JStr (''User with id '' @ s @ '' has been deleted!''))])), st)"
proof -
  have "filter (\<lambda>w. uid w \<noteq> i) st = st"
    using assms(3) by (auto simp: find_by_id_def find_None_iff)
  then show ?thesis
    using assms by (simp add: getUser_def updateUser_def deleteUser_def param_text_def param_oid_text)
qed

text \<open>
  C20. \<open>getUser\<close> of a stored id answers with that document under the default
  projection, which has no password member.
\<close>

theorem getUser_found:
  assumes "params req = [(''userId'', s)]" "parse_oid s = Some i" "find_by_id st i = Some u"
  shows "getUser ev req st = (Inr (json_ok (project [] u)), st) \<and>
         (\<forall>x. (''password'', x) \<notin> set (json_fields (project [] u)))"
  using assms by (simp add: getUser_def project_password param_oid_text)


text \<open>
  C24. The \<open>limit\<close> query field bounds the answer of \<open>getUsers\<close> as \<open>Number(limit)\<close>
  reads it: a text that is not a number is a cast error, reported as \<open>ERROR RETRIEVING
  USERS\<close>; otherwise the answer has as many documents as the absolute value of the number
  truncated (saturated at the largest 64-bit integer), 0 meaning all of them.
\<close>

theorem getUsers_limit:
  assumes "query_field req ''limit'' = Some l" "l \<noteq> []"
  shows "case js_number l of
           NaN \<Rightarrow> fst (getUsers ev req st) =
                   Inl (Error (''ERROR RETRIEVING USERS: Cast to Number failed for value '' @ quoted l @
                               '' (type string) at path '' @ quoted ''limit''))
         | Infinity _ \<Rightarrow> \<exists>js. fst (getUsers ev req st) = Inr (json_ok (JArr js)) \<and>
                             length js = min max_limit (length st)
         | Finite neg m e \<Rightarrow>
             \<exists>js. fst (getUsers ev req st) = Inr (json_ok (JArr js)) \<and>
               (let n = min max_limit (nat \<bar>js_trunc neg m e\<bar>)
                in length js = (if n = 0 then length st else min n (length st)))"
proof -
  have "query req \<noteq> []" using assms(1) by (auto simp: query_field_def)
  then have lim: "opt_limit (users_options req) = Some l"
    using assms by (simp add: users_options_def)
  show ?thesis
  proof (cases "js_number l")
    case NaN
    then show ?thesis
      using mongo_find_limit_Inl [OF lim] by (simp add: getUsers_def find_limit_def err_message_def)
  next
    case (Infinity b)
    then show ?thesis
      using mongo_find_limit_Inr [OF lim, where n = max_limit and ps = "users_filter req" and st = st]
        max_limit_pos
      by (auto simp: getUsers_def find_limit_def)
  next
    case (Finite neg m e)
    let ?n = "min max_limit (nat \<bar>js_trunc neg m e\<bar>)"
    obtain js where js: "mongo_find (users_filter req) (users_options req) st = Inr js"
        "length js = (if ?n = 0 then length st else min ?n (length st))"
      using mongo_find_limit_Inr [OF lim, where ps = "users_filter req" and st = st] Finite
      by (auto simp: find_limit_def)
    then have "fst (getUsers ev req st) = Inr (json_ok (JArr js))"
      by (simp add: getUsers_def)
    with js(2) show ?thesis
      unfolding Finite js_num.case Let_def by blast
  qed
qed

end
