(* ===== verification/Spec2Isabelle.thy ===== *)
theory Spec2Isabelle
  imports Credential Concurrency Session Crud
begin

text \<open>
  \<^bold>\<open>A verification library for the user-account controller of darylsimene/e-commerce.\<close>

  \<^emph>\<open>The program.\<close> src/controllers/userController.js exports eleven Express handlers
  (lines 217-229): CRUD on users (\<open>getUsers\<close>, \<open>postUser\<close>, \<open>deleteUsers\<close>,
  \<open>getUser\<close>, \<open>updateUser\<close>, \<open>deleteUser\<close>, lines 4-108) and the credential
  flows (\<open>login\<close>, \<open>forgotPassword\<close>, \<open>resetPassword\<close>, \<open>updatePassword\<close>,
  \<open>logout\<close>, lines 111-197), with the helper \<open>sendTokenResponse\<close> (199-214). The
  handlers call the Mongoose \<open>User\<close> model (not under src/): its queries, \<open>create\<close>,
  \<open>findByIdAndUpdate\<close>, \<open>save()\<close> with a pre-save hook that bcrypt-hashes a modified
  password, and the methods \<open>matchPassword\<close>, \<open>getSignedJwtToken\<close> and
  \<open>getResetPasswordToken\<close>, which are modelled from the spec and from the libraries
  they call. The spec names four components: SecretHasher, TokenSigner,
  ResetTokenManager and CredentialService, over the UserRecordStore.

  \<^emph>\<open>The theories.\<close>
  \<^item> Prelude: clock and id types, the process configuration (\<open>process.env\<close>: the
    secret, \<open>JWT_EXPIRE\<close> and \<open>JWT_COOKIE_EXPIRE\<close> as the texts they are), JS
    truthiness, decimal printing and lexing with its round trip.
  \<^item> JsText: how JavaScript and the libraries read texts: \<open>Number(s)\<close> (StringToNumber:
    trimming, \<open>Infinity\<close>, the 0x/0o/0b literals, decimals with fraction and exponent,
    kept exact), the \<open>ms\<close> package that reads \<open>JWT_EXPIRE\<close> (a bare number is
    milliseconds), an ObjectId's 24 hexadecimal digits (printing, parsing, their round
    trip), signed integers in JSON, and \<open>new Date(n)\<close> with TimeClip.
  \<^item> Base64: the base64url encoding \<open>jsonwebtoken\<close> writes token segments in, with the
    round trip \<open>b64url_decode (b64url_encode s) = Some s\<close>.
  \<^item> Crypto: SecretHasher and TokenSigner. The primitives (bcrypt, SHA-256, HMAC) are
    parameters in the record \<open>crypto\<close>, so every theorem holds for any of them and
    assumes of them only what it states. \<open>timing_safe_equal\<close> is the constant-time
    comparison; JWTs are modelled in their wire form \<open>header.payload.signature\<close>, the
    payload \<open>{"id","iat","exp"}\<close> with the id in hexadecimal, with \<open>jwt_sign\<close>,
    \<open>jwt_decode\<close> and \<open>jwt_verify\<close> (an empty key refused, signature before expiry).
  \<^item> Store: the \<open>User\<close> document (a record), the collection (a list in natural
    order, so \<open>findOne\<close> is \<open>find\<close>), the queries the controller issues, Mongoose's
    \<open>doc.save()\<close> (\<open>doc_save\<close>: validation of the required paths, no write without a
    change, the pre-save hash, a write that may fail, a write of the modified paths only),
    the model methods (\<open>getSignedJwtToken\<close> with the errors \<open>jwt.sign\<close> throws for an
    empty secret or an unreadable \<open>JWT_EXPIRE\<close>), the thrown errors (\<open>js_error\<close>, with
    Mongoose's cast and validation messages) and the environment of a request (\<open>env\<close>:
    clock, random bytes, which writes fail, the engine's \<open>Date.parse\<close>).
  \<^item> Http: requests, the Express response (status, headers, cookies, JSON body) and the
    helpers \<open>sendTokenResponse\<close> (the cookie's expiry is \<open>Date.now() +
    JWT_COOKIE_EXPIRE * 86400000\<close>, an invalid Date making \<open>res.cookie\<close> throw) and
    \<open>logout\<close>.
  \<^item> Auth: \<open>login\<close>, \<open>forgotPassword\<close>, \<open>resetPassword\<close> and \<open>updatePassword\<close>.
  \<^item> Crud: the six CRUD handlers, over the Mongoose calls they make: \<open>find\<close> with a
    projection, sort and a \<open>limit\<close> cast by \<open>Number()\<close> (\<open>mongo_find\<close>,
    \<open>find_limit\<close>), \<open>create\<close> (\<open>user_create\<close>), the cast of \<open>req.body\<close>
    (\<open>cast_body\<close>, \<open>cast_update\<close>: strict schema, the expiry by \<open>castDate\<close>) and of
    \<open>req.params.userId\<close> to an ObjectId (\<open>param_oid\<close>).
  \<^item> Credential: the spec's credential machine (an email, a password hash and a reset
    state per identity; transitions labelled by the events issue, consume, rollback and
    update, each with its guard), the events a request carries, and the abstraction
    \<open>abs_store\<close> of a collection to the machine's store.
  \<^item> Concurrency: \<open>resetPassword\<close> split at its \<open>await\<close>s into a lookup and a save
    (\<open>reset_lookup\<close>, \<open>reset_commit\<close>), and \<open>forgotPassword\<close> into a lookup, a
    save of the fresh token and the catch block's clearing save (\<open>forgot_lookup\<close>,
    \<open>forgot_save\<close>, \<open>forgot_rollback\<close>), with lemmas that the phases run back to
    back are the handlers, so that two requests can be interleaved.
  \<^item> Session: the authentication middleware in front of \<open>updatePassword\<close> (not in
    the repository; modelled from spec 4.2 as verification of the session token), and
    \<open>guarded\<close>, which runs it before a handler.
  \<^item> This theory: the route table (\<open>handle\<close>, one equation per exported handler), the
    service as a transition system (\<open>reachable\<close>: any sequence of requests from a
    well-formed collection, whose states all stay well formed, \<open>reachable_wf_store\<close>),
    the properties that span components, and their witnesses.

  A handler is a function from the request and the collection to the response or the
  thrown error, paired with the collection it leaves (a throw after a write keeps the
  write).

  \<^emph>\<open>What is proved\<close> (claim ids C1-C35, each stated in the text before its theorem).
  Login succeeds exactly for the right password and its token verifies to the user (C9,
  C10); registration then login works (C12); a reset logs in with the new password only
  (C11). A reset token is single use (C6), is overwritten by a newer one (C13) and stops
  working after ten minutes (C14); a failed token save is rolled back (C15); a wrong
  current password changes nothing (C16). The CRUD handlers: sorting (C19), the default
  projection (C20), bulk delete (C21) and \<open>limit\<close> as \<open>Number()\<close> reads it (C24). The
  session cookie (C22) and logout (C23). The credential routes refine the spec's
  credential machine: each request leaves the credentials as they were or makes one
  guarded transition on an event it carries (C25); \<open>updateUser\<close>, which writes any
  field, is outside it (C2). The machine is live: from every reachable collection an
  account's owner can get back in through a reset (C29). Every answer that is not a throw
  is JSON with status 200 or 201 (C30). A session from a login opens
  \<open>updatePassword\<close> for that user (C27) for the whole seconds of
  \<open>ms(JWT_EXPIRE)\<close> (C28); the middleware admits a token exactly when its signature is
  the MAC of its own claims and they have not expired, so edited claims pass only by a
  MAC forgery (C33). Library lemmas show that base64url, ObjectId text and tokens
  round-trip, that only genuinely signed tokens verify, and that the comparison takes a
  number of steps depending on lengths only.

  \<^emph>\<open>Where the code departs from the spec or from its intent\<close> (each a theorem):
  \<^item> \<open>forgotPassword\<close> returns the plaintext reset token, so anyone who knows an
    email can take over the account (C1);
  \<^item> \<open>updateUser\<close> accepts the reset fields from the body, so anyone who knows an id
    can plant a token and reset the password (C2), and it stores a body password in
    plaintext (C4); it runs no validators, so it can clear the required email, after
    which every validated save of the account fails and its owner cannot complete a
    reset (C35);
  \<^item> \<open>getUsers?password=1\<close> lists every password hash (C3);
  \<^item> \<open>resetPassword\<close> clears the expiry twice (line 168) and never the token hash (C5);
  \<^item> \<open>login\<close> reveals whether an email has an account (C7);
  \<^item> \<open>updatePassword\<close> writes nothing (C8);
  \<^item> an expired reset token gets the same error as a wrong one (C14); \<open>postUser\<close>
    reports an error after creating the account (C17); an unknown id is answered with
    success or \<open>null\<close> (C18); \<open>deleteUsers\<close> sends \<open>applicaton/json\<close> (C21); the
    cookie lives \<open>JWT_COOKIE_EXPIRE\<close> days where the comment says two hours (C22); a
    \<open>JWT_EXPIRE\<close> written as a bare number of seconds is read as milliseconds (C28);
    a reset token is refused at its expiry instant, where the spec accepts it until then
    (the strict \<open>$gt\<close> of line 161, \<open>reset_live\<close> against \<open>consume_reset_token\<close>,
    C34);
  \<^item> two reset requests with one token, interleaved lookup-lookup-save-save, both
    succeed and both clients get a session (C26): the save is not conditional on the
    token still being live, as spec section 5 requires;
  \<^item> the catch block of \<open>forgotPassword\<close> clears the reset fields of the document as
    it read it: when a concurrent \<open>forgotPassword\<close> for the same account saved its
    token after this request's save failed, the rollback erases that token although its
    client was already sent it (C31);
  \<^item> a \<open>forgotPassword\<close> that runs between the lookup and the save of a
    \<open>resetPassword\<close> of the same account has its token voided by that save, which
    clears the expiry it read live: the forgot client holds a token that never works
    (C32). The spec does not say which of a concurrent issue and consume wins.

  \<^emph>\<open>Modelling choices and limits.\<close> Time is \<open>Date.now()\<close> in milliseconds, JWT
  times are whole seconds (\<open>div 1000\<close>, and \<open>exp = iat + floor(ms(JWT_EXPIRE)/1000)\<close>);
  the reset window is ten minutes. Numbers read from text are kept exact, where
  JavaScript rounds them to doubles: the two differ only for texts with more than about
  fifteen significant digits. Requests carry text fields only (no nested JSON, no
  repeated query keys). Object ids are naturals printed as 24 hexadecimal digits, and a
  new id is one above the largest (\<open>ObjectId\<close>'s clock and counter are not modelled).
  The engine's \<open>Date.parse\<close> is a parameter of the environment, since ECMA-262 leaves
  all but the ISO format to the implementation; theorems that cast a date assume only
  what they state of it. Mongo sorts are taken stable. No loop of the program needs
  fuel: the source has no loop of its own, so no claim is of the termination kind; the
  recursion it relies on is in libraries (base64url coding, decimal and hexadecimal
  printing and parsing, the list scans of queries, the casts of a body), all structural
  recursions. Each handler is atomic except \<open>resetPassword\<close> and
  \<open>forgotPassword\<close>, whose phases are interleaved in Concurrency; every other handler
  only reads, issues one atomic operation (\<open>create\<close>, \<open>findByIdAndUpdate\<close>,
  \<open>deleteMany\<close>, \<open>findByIdAndDelete\<close>), or, like \<open>updatePassword\<close>, saves
  nothing (C8), so an interleaving of it with another request is equivalent to running
  the two in some order, which \<open>reachable\<close> already covers. The authentication
  middleware is modelled from the spec (Session). The base64url decoder is strict where
  Node's skips symbols outside the alphabet; the tokens the server issues hold none, and
  a token altered to hold one fails the signature check either way, since the MAC covers
  the segment text as received. The signature segment is the MAC as a text: the HMAC is
  a parameter, and its base64url form is part of it. Reads of the collection do not
  fail: a failing read rejects its \<open>await\<close> before any write of the handler, so it
  would only add a throw that leaves the collection unchanged. Mongoose's version key
  \<open>__v\<close> and the full text of a duplicate-key error are not modelled. Not modelled:
  the Express router beyond the route table (the route table and \<open>guarded\<close> stand for
  it; Express's response methods are the builders of Http).
\<close>

section \<open>Routes\<close>

text \<open>The eleven handlers of \<open>module.exports\<close> (lines 217-229).\<close>

datatype route =
  GetUsers | PostUser | DeleteUsers | GetUser | UpdateUser | DeleteUser
| Login | ForgotPassword | ResetPassword | UpdatePassword | Logout

fun handle :: "crypto \<Rightarrow> config \<Rightarrow> env \<Rightarrow> route \<Rightarrow> request \<Rightarrow> store \<Rightarrow> outcome" where
  "handle C cfg ev GetUsers req st = getUsers ev req st"
| "handle C cfg ev PostUser req st = postUser C cfg ev req st"
| "handle C cfg ev DeleteUsers req st = deleteUsers ev req st"
| "handle C cfg ev GetUser req st = getUser ev req st"
| "handle C cfg ev UpdateUser req st = updateUser ev req st"
| "handle C cfg ev DeleteUser req st = deleteUser ev req st"
| "handle C cfg ev Login req st = login C cfg ev req st"
| "handle C cfg ev ForgotPassword req st = forgotPassword C cfg ev req st"
| "handle C cfg ev ResetPassword req st = resetPassword C cfg ev req st"
| "handle C cfg ev UpdatePassword req st = updatePassword C cfg ev req st"
| "handle C cfg ev Logout req st = (Inr (logout (req_time ev)), st)"

text \<open>
  The events of the credential machine a request to a route carries (Credential): the
  CRUD routes, \<open>login\<close>, \<open>logout\<close> and \<open>updatePassword\<close> carry none.
\<close>

definition route_events :: "route \<Rightarrow> env \<Rightarrow> request \<Rightarrow> cred_event list" where
  "route_events rt ev req =
     (case rt of ForgotPassword \<Rightarrow> forgot_events ev req | ResetPassword \<Rightarrow> reset_events ev req | _ \<Rightarrow> [])"

section \<open>The service as a transition system\<close>

text \<open>
  The collections the service can reach: from any well-formed collection, any request
  to any route, in any environment.
\<close>

inductive reachable :: "crypto \<Rightarrow> config \<Rightarrow> store \<Rightarrow> bool" for C cfg where
  init: "wf_store st \<Longrightarrow> reachable C cfg st"
| step: "reachable C cfg st \<Longrightarrow> handle C cfg ev rt req st = (res, st') \<Longrightarrow> reachable C cfg st'"

section \<open>Requests of the scenarios\<close>

definition login_request :: "string \<Rightarrow> string \<Rightarrow> request" where
  "login_request e p = \<lparr>body = [(''email'', e), (''password'', p)], query = [], params = [], auth_user = None\<rparr>"

definition forgot_request :: "string \<Rightarrow> request" where
  "forgot_request e = \<lparr>body = [(''email'', e)], query = [], params = [], auth_user = None\<rparr>"

definition reset_request :: "string \<Rightarrow> string \<Rightarrow> request" where
  "reset_request t p = \<lparr>body = [(''password'', p)], query = [(''resetToken'', t)], params = [], auth_user = None\<rparr>"

text \<open>
  A \<open>PUT /users/:userId\<close> for the id text \<open>sid\<close> whose body sets the two reset
  fields, the expiry as a text.
\<close>

definition plant_request :: "string \<Rightarrow> string \<Rightarrow> string \<Rightarrow> request" where
  "plant_request sid h s =
     \<lparr>body = [(''resetPasswordToken'', h), (''resetPasswordExpire'', s)], query = [],
      params = [(''userId'', sid)], auth_user = None\<rparr>"

section \<open>Concrete instances for the witnesses\<close>

text \<open>
  Primitives that are easy to compute with and injective where a theorem assumes it; a
  collection of two users; environments at given clock readings.
\<close>

definition C0 :: crypto where
  "C0 = \<lparr>bcrypt_hash = (\<lambda>p. ''$2a$'' @ p), sha256_hex = (\<lambda>s. ''h:'' @ s),
         hmac_sha256 = (\<lambda>k m. k @ ''|'' @ m)\<rparr>"

definition cfg0 :: config where
  "cfg0 = \<lparr>jwt_secret = ''k'', jwt_expire = Some ''1h'', jwt_cookie_expire = Some ''2'', node_env = ''production''\<rparr>"

definition alice :: user where
  "alice = \<lparr>uid = 1, userName = ''alice'', email = ''a@x.io'', password = ''$2a$pw1'',
     firstName = ''Alice'', lastName = ''A'', gender = ''f'',
     resetPasswordToken = None, resetPasswordExpire = None\<rparr>"

definition bob :: user where
  "bob = \<lparr>uid = 2, userName = ''bob'', email = ''b@x.io'', password = ''$2a$pw2'',
     firstName = ''Bob'', lastName = ''B'', gender = ''m'',
     resetPasswordToken = None, resetPasswordExpire = None\<rparr>"

definition st0 :: store where
  "st0 = [alice, bob]"

definition ev_at :: "time \<Rightarrow> string \<Rightarrow> nat list \<Rightarrow> env" where
  "ev_at t r fs = \<lparr>req_time = t, random_hex = r, failing_writes = fs, date_parse = (\<lambda>_. None)\<rparr>"

definition req_of :: "(string \<times> string) list \<Rightarrow> (string \<times> string) list \<Rightarrow> (string \<times> string) list \<Rightarrow> request" where
  "req_of b q ps = \<lparr>body = b, query = q, params = ps, auth_user = None\<rparr>"

definition st_r :: store where
  "st_r = [alice\<lparr>resetPasswordToken := Some ''h:tok'', resetPasswordExpire := Some 9000\<rparr>, bob]"

text \<open>The configuration of the witnesses: a one-hour session, a two-day cookie.\<close>

lemma cfg0_expires: "expires_in (jwt_expire cfg0) = Some 3600"
  by (simp add: cfg0_def expires_in_def ms_parse_def ms_unit_def Let_def is_digit_def)

lemma cfg0_sign [simp]: "jwt_sign_error cfg0 = None"
  by (simp add: jwt_sign_error_None cfg0_expires) (simp add: cfg0_def)

lemma cfg0_ttl [simp]: "session_ttl cfg0 = 3600"
  by (simp add: session_ttl_def cfg0_expires)

lemma cfg0_fields [simp]: "jwt_secret cfg0 = ''k''" "node_env cfg0 = ''production''"
  "jwt_cookie_expire cfg0 = Some (show_nat 2)"
  by (simp_all add: cfg0_def show_nat.simps digit_char_def char_of_def bit_0)

lemma cfg0_ok [simp]: "t \<le> 1000000000 \<Longrightarrow> session_ok cfg0 t"
  by (simp add: session_ok_def cookie_expiry_days)

lemmas witness_defs = C0_def alice_def bob_def st0_def ev_at_def

section \<open>Properties across components\<close>

lemma handle_wf: "wf_store st \<Longrightarrow> wf_store (snd (handle C cfg ev rt req st))"
  by (cases rt) (simp_all add: forgotPassword_wf resetPassword_wf updatePassword_wf
      postUser_wf deleteUsers_wf updateUser_wf deleteUser_wf)

lemma reachable_wf_store: "reachable C cfg st \<Longrightarrow> wf_store st"
proof (induction rule: reachable.induct)
  case (init st)
  then show ?case .
next
  case (step st ev rt req res st')
  then show ?case using handle_wf [of st C cfg ev rt req] by simp
qed

text \<open>
  C25. Refinement of the spec's credential machine (sections 3, 4.3, 4.4): every request to
  a credential route leaves the abstract credential store as it was or makes one
  transition of the machine on an event the request carries, with that event's guard:
  an issue or a rollback for the account of the email it names, or the consumption of
  the token it presents with the password it gives, at its clock reading (so a live
  token with a matching hash).
\<close>

theorem credential_refinement:
  assumes "wf_store st" "rt \<in> {Login, ForgotPassword, ResetPassword, UpdatePassword, Logout}"
  shows "cred_effect C (abs_store st) (route_events rt ev req) (abs_store (snd (handle C cfg ev rt req st)))"
proof -
  have "distinct (map uid st)" using assms(1) by (simp add: wf_store_def)
  then show ?thesis
    using assms(2) by (auto simp: forgotPassword_refines resetPassword_refines updatePassword_refines
        route_events_def cred_effect.unchanged)
qed

text \<open>
  C30. The shape of every answer: whatever the route, a request that does not throw is
  answered with status 200 or 201, a JSON body, and a Content-Type carrying the charset.
\<close>

theorem responses_are_json:
  assumes "handle C cfg ev rt req st = (Inr r, st')"
  shows "json_response r \<and> status r \<in> {200, 201}"
proof -
  have "fst (handle C cfg ev rt req st) = Inr r" using assms by simp
  then show ?thesis
    by (cases rt) (auto simp: logout_def res_status_def dest: getUsers_json postUser_json deleteUsers_json getUser_json
        updateUser_json deleteUser_json login_json forgotPassword_json resetPassword_json updatePassword_json)
qed

subsection \<open>Reset tokens across requests\<close>

lemma map_uid_set_reset_fields [simp]: "map uid (set_reset_fields i h x st) = map uid st"
  by (induction st) (simp_all add: set_reset_fields_def)

lemma set_reset_fields_member:
  "v \<in> set st \<Longrightarrow>
   v\<lparr>resetPasswordToken := h, resetPasswordExpire := x\<rparr> \<in> set (set_reset_fields (uid v) h x st)"
  by (force simp: set_reset_fields_def)

lemma set_set_reset_fieldsD:
  "w \<in> set (set_reset_fields i h x st) \<Longrightarrow>
   (\<exists>v \<in> set st. uid v = i \<and> w = v\<lparr>resetPasswordToken := h, resetPasswordExpire := x\<rparr>) \<or>
   (w \<in> set st \<and> uid w \<noteq> i)"
  by (auto simp: set_reset_fields_def)

text \<open>
  Right after \<open>forgotPassword\<close> stored a token for \<open>v\<close>, and while it is live, the
  reset query finds exactly that document, provided no other document holds the hash.
\<close>

lemma find_by_reset_issued:
  assumes "v \<in> set st" "distinct (map uid st)" "int now < x"
    and "\<forall>w\<in>set st. uid w \<noteq> uid v \<longrightarrow> resetPasswordToken w \<noteq> Some h"
  shows "find_by_reset (set_reset_fields (uid v) (Some h) (Some x) st) h now =
           Some (v\<lparr>resetPasswordToken := Some h, resetPasswordExpire := Some x\<rparr>)"
  unfolding find_by_reset_def
proof (rule find_unique)
  show "v\<lparr>resetPasswordToken := Some h, resetPasswordExpire := Some x\<rparr>
      \<in> set (set_reset_fields (uid v) (Some h) (Some x) st)"
    using assms(1) by (rule set_reset_fields_member)
next
  fix y assume "y \<in> set (set_reset_fields (uid v) (Some h) (Some x) st)"
    "resetPasswordToken y = Some h \<and> reset_live now y"
  then show "y = v\<lparr>resetPasswordToken := Some h, resetPasswordExpire := Some x\<rparr>"
    using assms(4) uid_unique [OF assms(2,1)] by (auto dest!: set_set_reset_fieldsD)
qed (use assms(3) in \<open>simp add: reset_live_def\<close>)

text \<open>Reading a document back after its reset fields or its password were written.\<close>

lemma find_by_id_set_reset_fields:
  "find_by_id st i = Some v \<Longrightarrow>
   find_by_id (set_reset_fields i h x st) i = Some (v\<lparr>resetPasswordToken := h, resetPasswordExpire := x\<rparr>)"
  unfolding set_reset_fields_def by (subst find_by_id_map) auto

lemma find_by_id_consume_reset:
  "find_by_id st i = Some v \<Longrightarrow>
   find_by_id (consume_reset i h st) i = Some (v\<lparr>password := h, resetPasswordExpire := None\<rparr>)"
  unfolding consume_reset_def by (subst find_by_id_map) auto

lemma forgot_reset_run:
  assumes "find_by_email st e = Some v" "distinct (map uid st)"
    and "\<not> write_fails ev_f 0" "\<not> write_fails ev_r 0"
    and "req_time ev_r < req_time ev_f + reset_window"
    and "\<forall>w\<in>set st. uid w \<noteq> uid v \<longrightarrow> resetPasswordToken w \<noteq> Some (sha256_hex C (random_hex ev_f))"
    and "p \<noteq> []" "e \<noteq> []" "session_ok cfg (req_time ev_r)"
  shows "\<exists>r2. forgotPassword C cfg ev_f (forgot_request e) st =
       (Inr (forgot_ok_response (random_hex ev_f)),
        set_reset_fields (uid v) (Some (sha256_hex C (random_hex ev_f))) (Some (int (req_time ev_f + reset_window))) st) \<and>
     resetPassword C cfg ev_r (reset_request (random_hex ev_f) p)
       (set_reset_fields (uid v) (Some (sha256_hex C (random_hex ev_f))) (Some (int (req_time ev_f + reset_window))) st) =
       (Inr r2, consume_reset (uid v) (bcrypt_hash C p)
          (set_reset_fields (uid v) (Some (sha256_hex C (random_hex ev_f))) (Some (int (req_time ev_f + reset_window))) st)) \<and>
     response_token r2 = Some (getSignedJwtToken C cfg (req_time ev_r) v)"
proof -
  let ?h = "sha256_hex C (random_hex ev_f)" and ?x = "int (req_time ev_f + reset_window)"
  let ?st1 = "set_reset_fields (uid v) (Some ?h) (Some ?x) st"
  let ?v1 = "v\<lparr>resetPasswordToken := Some ?h, resetPasswordExpire := Some ?x\<rparr>"
  have v: "v \<in> set st" using assms(1) by auto
  have forgot: "forgotPassword C cfg ev_f (forgot_request e) st = (Inr (forgot_ok_response (random_hex ev_f)), ?st1)"
    using forgotPassword_ok [OF _ assms(1,2,3)] by (simp add: forgot_request_def body_field_def)
  have "int (req_time ev_r) < ?x" using assms(5) by simp
  then have found: "find_by_reset ?st1 ?h (req_time ev_r) = Some ?v1"
    using find_by_reset_issued [OF v assms(2) _ assms(6)] by blast
  obtain r2 where "resetPassword C cfg ev_r (reset_request (random_hex ev_f) p) ?st1 =
        (Inr r2, consume_reset (uid v) (bcrypt_hash C p) ?st1)"
      "response_token r2 = Some (getSignedJwtToken C cfg (req_time ev_r) ?v1)"
    using resetPassword_ok [OF _ found _ assms(7,4) _ assms(9), where req = "reset_request (random_hex ev_f) p"]
      assms(1,2,8) by (auto simp: reset_request_def body_field_def)
  with forgot show ?thesis
    using getSignedJwtToken_uid [of ?v1 v] by auto
qed

lemma find_by_id_after_reset:
  "find_by_id st (uid v) = Some v \<Longrightarrow>
   find_by_id (consume_reset (uid v) hp (set_reset_fields (uid v) (Some h) (Some x) st)) (uid v) =
     Some (v\<lparr>resetPasswordToken := Some h, resetPasswordExpire := None, password := hp\<rparr>)"
  using find_by_id_consume_reset [OF find_by_id_set_reset_fields] by simp

text \<open>
  C1. Spec sections 4.3 and 8: \<open>forgotPassword\<close> hands the plaintext token to whoever
  asked. Knowing only an account's email, a client gets a token, resets the password to
  one of its choosing, and receives a session token for that account.
\<close>

theorem account_takeover:
  assumes "find_by_email st e = Some v" "distinct (map uid st)"
    and "\<not> write_fails ev_f 0" "\<not> write_fails ev_r 0"
    and "req_time ev_r < req_time ev_f + reset_window"
    and "\<forall>w\<in>set st. uid w \<noteq> uid v \<longrightarrow> resetPasswordToken w \<noteq> Some (sha256_hex C (random_hex ev_f))"
    and "p \<noteq> []" "e \<noteq> []" "session_ok cfg (req_time ev_r)" "0 < session_ttl cfg"
  shows "\<exists>r1 st1 tok r2 st2 s u.
     forgotPassword C cfg ev_f (forgot_request e) st = (Inr r1, st1) \<and>
     json_body r1 = Some (JObj [(''success'', JBool True), (''msg'', JStr (''YOU CAN RESET PW WITH TOKEN: '' @ tok))]) \<and>
     resetPassword C cfg ev_r (reset_request tok p) st1 = (Inr r2, st2) \<and>
     response_token r2 = Some s \<and> jwt_verify C (jwt_secret cfg) (req_time ev_r) s = Inr (uid v) \<and>
     find_by_id st2 (uid v) = Some u \<and> password u = bcrypt_hash C p"
proof -
  obtain r2 where run: "forgotPassword C cfg ev_f (forgot_request e) st =
       (Inr (forgot_ok_response (random_hex ev_f)),
        set_reset_fields (uid v) (Some (sha256_hex C (random_hex ev_f))) (Some (int (req_time ev_f + reset_window))) st)"
      "resetPassword C cfg ev_r (reset_request (random_hex ev_f) p)
       (set_reset_fields (uid v) (Some (sha256_hex C (random_hex ev_f))) (Some (int (req_time ev_f + reset_window))) st) =
       (Inr r2, consume_reset (uid v) (bcrypt_hash C p)
          (set_reset_fields (uid v) (Some (sha256_hex C (random_hex ev_f))) (Some (int (req_time ev_f + reset_window))) st))"
      "response_token r2 = Some (getSignedJwtToken C cfg (req_time ev_r) v)"
    using forgot_reset_run [OF assms(1-9)] by blast
  have body: "json_body (forgot_ok_response (random_hex ev_f)) =
      Some (JObj [(''success'', JBool True), (''msg'', JStr (''YOU CAN RESET PW WITH TOKEN: '' @ random_hex ev_f))])"
    by (simp add: forgot_ok_response_def res_json_def res_set_header_def res_status_def new_response_def)
  have tok: "jwt_verify C (jwt_secret cfg) (req_time ev_r) (getSignedJwtToken C cfg (req_time ev_r) v) = Inr (uid v)"
    using assms(9,10) by (simp add: session_ok_def jwt_verify_getSignedJwtToken)
  have "find_by_id st (uid v) = Some v" using find_by_id_in_wf [OF assms(2)] assms(1) by auto
  with run body tok show ?thesis by (fastforce dest: find_by_id_after_reset)
qed

text \<open>
  C2. Spec 4.3 and 7: only the holder of a reset token issued by \<open>forgotPassword\<close> can
  reset a password. \<open>updateUser\<close> accepts the reset fields in its body, so any client
  that knows an id can store the hash of a token of its choosing and then reset that
  account's password with it.
\<close>

theorem updateUser_plants_reset_token:
  assumes "wf_store st" "parse_oid sid = Some i" "find_by_id st i = Some u" "email u \<noteq> []"
    and "\<not> write_fails ev 0" "\<not> write_fails ev' 0"
    and "cast_date (date_parse ev) s = Inr (Some x)" "int (req_time ev') < x"
    and "p \<noteq> []" "session_ok cfg (req_time ev')"
    and "\<forall>w\<in>set st. uid w \<noteq> i \<longrightarrow> resetPasswordToken w \<noteq> Some (sha256_hex C t)"
  shows "\<exists>r st1 r' st2 v. updateUser ev (plant_request sid (sha256_hex C t) s) st = (Inr r, st1) \<and>
           resetPassword C cfg ev' (reset_request t p) st1 = (Inr r', st2) \<and>
           find_by_id st2 i = Some v \<and> password v = bcrypt_hash C p"
proof -
  let ?h = "sha256_hex C t"
  let ?st1 = "set_reset_fields i (Some ?h) (Some x) st"
  let ?u1 = "u\<lparr>resetPasswordToken := Some ?h, resetPasswordExpire := Some x\<rparr>"
  have u: "u \<in> set st" "uid u = i" using assms(3) by auto
  have dist: "distinct (map uid st)" using assms(1) by (simp add: wf_store_def)
  have oid: "param_oid (plant_request sid ?h s) = Inr i"
    using assms(2) by (simp add: param_oid_text plant_request_def)
  have cu: "cast_update (date_parse ev) (body (plant_request sid ?h s)) =
      Inr (\<lambda>w. w\<lparr>resetPasswordToken := Some ?h, resetPasswordExpire := Some x\<rparr>)"
    using assms(7) by (simp add: plant_request_def cast_update_def cast_path_def comp_def)
  have upd: "updateUser ev (plant_request sid ?h s) st = (Inr (json_ok (project [] ?u1)), ?st1)"
    using updateUser_found [OF oid cu assms(3)] assms(5) email_fresh_others [OF assms(1,3)]
    by (simp add: set_reset_fields_def)
  have "find_by_reset ?st1 ?h (req_time ev') = Some ?u1"
    using find_by_reset_issued [OF u(1) dist assms(8)] assms(11) u(2) by simp
  then obtain r' where r': "resetPassword C cfg ev' (reset_request t p) ?st1 =
      (Inr r', consume_reset (uid ?u1) (bcrypt_hash C p) ?st1)"
    using resetPassword_ok [OF _ _ _ assms(9,6) _ assms(10), where req = "reset_request t p"] dist assms(4)
    by (fastforce simp: reset_request_def body_field_def)
  have "find_by_id (consume_reset i (bcrypt_hash C p) ?st1) i =
      Some (?u1\<lparr>password := bcrypt_hash C p, resetPasswordExpire := None\<rparr>)"
    using find_by_id_consume_reset [OF find_by_id_set_reset_fields [OF assms(3)]] .
  with upd r' u(2) show ?thesis by auto
qed

subsection \<open>Registration\<close>

lemma find_by_email_snoc:
  "e \<notin> set (map email st) \<Longrightarrow> email u = e \<Longrightarrow> find_by_email (st @ [u]) e = Some u"
  by (induction st) (auto simp: find_by_email_def)

text \<open>
  C12. Registration then login (spec 4.4): \<open>postUser\<close> with a fresh email creates an
  account under a new id, and logging in with the same email and password gives a session
  token for that id.
\<close>

theorem register_then_login:
  assumes "wf_store st" "e \<noteq> []" "p \<noteq> []" "e \<notin> set (map email st)" "\<not> write_fails ev 0"
    and "session_ok cfg (req_time ev)" "session_ok cfg (req_time ev')" "0 < session_ttl cfg"
  shows "\<exists>r st' r' s. postUser C cfg ev (login_request e p) st = (Inr r, st') \<and> status r = 201 \<and>
           wf_store st' \<and> login C cfg ev' (login_request e p) st' = (Inr r', st') \<and>
           response_token r' = Some s \<and> jwt_verify C (jwt_secret cfg) (req_time ev') s = Inr (new_oid st)"
proof -
  let ?u = "(blank_user (new_oid st))\<lparr>email := e, password := bcrypt_hash C p\<rparr>"
  obtain r where r: "sendTokenResponse C cfg (req_time ev) ?u 201 = Inr r"
    using sendTokenResponse_ok assms(6) by blast
  have post: "postUser C cfg ev (login_request e p) st = (Inr r, st @ [?u])"
    using assms(2-5) r
    by (simp add: postUser_def user_create_def cast_path_def missing_paths_def login_request_def Let_def)
  have wf: "wf_store (st @ [?u])"
    using postUser_wf [OF assms(1), of C cfg ev "login_request e p"] post by simp
  obtain r' where r': "sendTokenResponse C cfg (req_time ev') ?u 200 = Inr r'"
    using sendTokenResponse_ok assms(7) by blast
  have "login C cfg ev' (login_request e p) (st @ [?u]) = (Inr r', st @ [?u])"
    using assms(2-4) r' find_by_email_snoc [OF assms(4), of ?u]
    by (simp add: login_cases login_request_def body_field_def)
  moreover have "jwt_verify C (jwt_secret cfg) (req_time ev') (getSignedJwtToken C cfg (req_time ev') ?u) =
      Inr (new_oid st)"
    using assms(7,8) jwt_verify_getSignedJwtToken [of cfg "req_time ev'" "req_time ev'" C ?u]
    by (simp add: blank_user_def session_ok_def)
  ultimately show ?thesis
    using post wf sendTokenResponse_Inr [OF r] sendTokenResponse_Inr [OF r'] by auto
qed

lemma set_reset_fields_twice [simp]:
  "set_reset_fields i a b (set_reset_fields i c d st) = set_reset_fields i a b st"
  by (induction st) (simp_all add: set_reset_fields_def)

text \<open>A token that no document holds live is not found.\<close>

lemma find_by_reset_set_reset_None:
  assumes "\<forall>w\<in>set st. uid w \<noteq> i \<longrightarrow> resetPasswordToken w \<noteq> Some h"
    and "h' = h \<Longrightarrow> x \<le> int now"
  shows "find_by_reset (set_reset_fields i (Some h') (Some x) st) h now = None"
  using assms by (auto simp: find_by_reset_def find_None_iff reset_live_def dest!: set_set_reset_fieldsD)

lemma find_by_email_set_reset_fields:
  "find_by_email st e = Some v \<Longrightarrow>
   find_by_email (set_reset_fields (uid v) h x st) e =
     Some (v\<lparr>resetPasswordToken := h, resetPasswordExpire := x\<rparr>)"
  unfolding set_reset_fields_def by (subst find_by_email_map) simp_all

lemma forgot_request_ok:
  "find_by_email st e = Some v \<Longrightarrow> distinct (map uid st) \<Longrightarrow> \<not> write_fails ev 0 \<Longrightarrow>
   snd (forgotPassword C cfg ev (forgot_request e) st) =
     set_reset_fields (uid v) (Some (sha256_hex C (random_hex ev))) (Some (int (req_time ev + reset_window))) st"
  using forgotPassword_ok [of "forgot_request e" e st v ev C cfg]
  by (simp add: forgot_request_def body_field_def)

text \<open>
  C13. Spec 4.3 and 8: requesting a new reset token invalidates the outstanding one. After a
  second \<open>forgotPassword\<close>, the first token finds no document.
\<close>

theorem reset_token_overwritten:
  assumes "find_by_email st e = Some v" "distinct (map uid st)"
    and "\<not> write_fails ev_f 0" "\<not> write_fails ev_g 0"
    and "sha256_hex C (random_hex ev_f) \<noteq> sha256_hex C (random_hex ev_g)"
    and "\<forall>w\<in>set st. uid w \<noteq> uid v \<longrightarrow> resetPasswordToken w \<noteq> Some (sha256_hex C (random_hex ev_f))"
  shows "fst (resetPassword C cfg ev_r (reset_request (random_hex ev_f) p)
           (snd (forgotPassword C cfg ev_g (forgot_request e)
              (snd (forgotPassword C cfg ev_f (forgot_request e) st))))) = Inl (Error ''Invalid Token'')"
proof -
  let ?st1 = "set_reset_fields (uid v) (Some (sha256_hex C (random_hex ev_f))) (Some (int (req_time ev_f + reset_window))) st"
  have st1: "snd (forgotPassword C cfg ev_f (forgot_request e) st) = ?st1"
    using forgot_request_ok [OF assms(1,2,3)] .
  have "find_by_email ?st1 e = Some (v\<lparr>resetPasswordToken := Some (sha256_hex C (random_hex ev_f)),
      resetPasswordExpire := Some (int (req_time ev_f + reset_window))\<rparr>)"
    using find_by_email_set_reset_fields [OF assms(1)] .
  from forgot_request_ok [OF this _ assms(4)] assms(2)
  have "snd (forgotPassword C cfg ev_g (forgot_request e) ?st1) =
      set_reset_fields (uid v) (Some (sha256_hex C (random_hex ev_g))) (Some (int (req_time ev_g + reset_window))) st"
    by simp
  moreover have "find_by_reset (set_reset_fields (uid v) (Some (sha256_hex C (random_hex ev_g)))
      (Some (int (req_time ev_g + reset_window))) st) (sha256_hex C (random_hex ev_f)) (req_time ev_r) = None"
    using assms(5,6) by (intro find_by_reset_set_reset_None) auto
  ultimately show ?thesis
    using st1 by (simp add: resetPassword_def reset_request_def)
qed

text \<open>
  C14. Spec scenario D: once ten minutes have passed the token is refused. The spec asks for a
  distinct \<open>ResetTokenExpired\<close>; the source answers as for a wrong token.
\<close>

theorem reset_token_expires:
  assumes "find_by_email st e = Some v" "distinct (map uid st)" "\<not> write_fails ev_f 0"
    and "req_time ev_f + reset_window \<le> req_time ev_r"
    and "\<forall>w\<in>set st. uid w \<noteq> uid v \<longrightarrow> resetPasswordToken w \<noteq> Some (sha256_hex C (random_hex ev_f))"
  shows "fst (resetPassword C cfg ev_r (reset_request (random_hex ev_f) p)
           (snd (forgotPassword C cfg ev_f (forgot_request e) st))) = Inl (Error ''Invalid Token'')"
proof -
  have "find_by_reset (set_reset_fields (uid v) (Some (sha256_hex C (random_hex ev_f)))
      (Some (int (req_time ev_f + reset_window))) st) (sha256_hex C (random_hex ev_f)) (req_time ev_r) = None"
    using assms(4,5) by (intro find_by_reset_set_reset_None) auto
  then show ?thesis
    using forgot_request_ok [OF assms(1,2,3)] by (simp add: resetPassword_def reset_request_def)
qed

text \<open>
  C11. Spec scenario C: after a reset the new password logs in and the old one does not.
\<close>

theorem reset_then_login:
  assumes "find_by_reset st (sha256_hex C t) (req_time ev) = Some v" "wf_store st"
    and "p \<noteq> []" "\<not> write_fails ev 0" "session_ok cfg (req_time ev)" "session_ok cfg (req_time ev')"
    and "email v \<noteq> []" "old \<noteq> []" "bcrypt_hash C old \<noteq> bcrypt_hash C p"
  shows "\<exists>r st'. resetPassword C cfg ev (reset_request t p) st = (Inr r, st') \<and>
     (\<exists>r'. login C cfg ev' (login_request (email v) p) st' = (Inr r', st')) \<and>
     login C cfg ev' (login_request (email v) old) st' = (Inl (Error ''Invalid Credential''), st')"
proof -
  let ?st' = "consume_reset (uid v) (bcrypt_hash C p) st"
  let ?v' = "v\<lparr>password := bcrypt_hash C p, resetPasswordExpire := None\<rparr>"
  have v: "v \<in> set st" using assms(1) by auto
  have dist: "distinct (map uid st)" "distinct (map email st)"
    using assms(2) by (simp_all add: wf_store_def)
  obtain r where r: "resetPassword C cfg ev (reset_request t p) st = (Inr r, ?st')"
    using resetPassword_ok [OF _ assms(1) _ assms(3,4) dist(1) assms(5,7), where req = "reset_request t p"]
    by (auto simp: reset_request_def body_field_def)
  have "find_by_email st (email v) = Some v"
    using find_distinct_key [OF dist(2) v] by (simp add: find_by_email_def)
  then have found: "find_by_email ?st' (email v) = Some ?v'"
    unfolding consume_reset_def by (subst find_by_email_map) simp_all
  obtain r' where "sendTokenResponse C cfg (req_time ev') ?v' 200 = Inr r'"
    using sendTokenResponse_ok assms(6) by blast
  with found assms(3,7,8,9) r show ?thesis
    by (auto simp: login_cases login_request_def body_field_def)
qed

subsection \<open>Recovery of an account\<close>

text \<open>
  C29. Liveness of the credential machine (spec 4.4, \<open>Any \<rightarrow> ResetPending \<rightarrow>
  Authenticated\<close>): from every reachable collection, the owner of an account can get back
  in. A reset request answered with a token whose hash no other document holds (random
  bytes the environment supplies: SHA-256 has far more values than a collection has
  documents), then a reset with that token and a new password, lead to a reachable
  collection in which the new password logs in, whatever earlier requests did.
\<close>

theorem account_recovery:
  assumes "reachable C cfg st" "find_by_email st e = Some v" "e \<noteq> []" "p \<noteq> []"
    and "\<exists>rnd. \<forall>w\<in>set st. uid w \<noteq> uid v \<longrightarrow> resetPasswordToken w \<noteq> Some (sha256_hex C rnd)"
    and "session_ok cfg (req_time ev')"
  shows "\<exists>ev_f ev_r st1 st2. snd (handle C cfg ev_f ForgotPassword (forgot_request e) st) = st1 \<and>
           snd (handle C cfg ev_r ResetPassword (reset_request (random_hex ev_f) p) st1) = st2 \<and>
           reachable C cfg st2 \<and> (\<exists>r. login C cfg ev' (login_request e p) st2 = (Inr r, st2))"
proof -
  have wf: "wf_store st" using reachable_wf_store [OF assms(1)] .
  then have dist: "distinct (map uid st)" by (simp add: wf_store_def)
  obtain rnd where rnd: "\<forall>w\<in>set st. uid w \<noteq> uid v \<longrightarrow> resetPasswordToken w \<noteq> Some (sha256_hex C rnd)"
    using assms(5) by blast
  let ?ev_f = "ev'\<lparr>random_hex := rnd, failing_writes := []\<rparr>"
  let ?ev_r = "ev'\<lparr>failing_writes := []\<rparr>"
  let ?v1 = "v\<lparr>resetPasswordToken := Some (sha256_hex C rnd),
                resetPasswordExpire := Some (int (req_time ev' + reset_window))\<rparr>"
  let ?st1 = "set_reset_fields (uid v) (Some (sha256_hex C rnd)) (Some (int (req_time ev' + reset_window))) st"
  let ?st2 = "consume_reset (uid v) (bcrypt_hash C p) ?st1"
  obtain r2 where run: "forgotPassword C cfg ?ev_f (forgot_request e) st = (Inr (forgot_ok_response rnd), ?st1)"
      "resetPassword C cfg ?ev_r (reset_request rnd p) ?st1 = (Inr r2, ?st2)"
    using forgot_reset_run [OF assms(2) dist, of ?ev_f ?ev_r C p cfg] rnd assms(3,4,6)
    by (auto simp: write_fails_def reset_window_def)
  have reach: "reachable C cfg ?st2"
    using reachable.step [OF reachable.step [OF assms(1), where rt = ForgotPassword], where rt = ResetPassword] run
    by (metis handle.simps(8,9))
  have "find_by_email ?st2 e = Some (?v1\<lparr>password := bcrypt_hash C p, resetPasswordExpire := None\<rparr>)"
    unfolding consume_reset_def
    using find_by_email_set_reset_fields [OF assms(2)] by (subst find_by_email_map) simp_all
  moreover obtain r where "sendTokenResponse C cfg (req_time ev')
      (?v1\<lparr>password := bcrypt_hash C p, resetPasswordExpire := None\<rparr>) 200 = Inr r"
    using sendTokenResponse_ok assms(6) by blast
  ultimately have "login C cfg ev' (login_request e p) ?st2 = (Inr r, ?st2)"
    using assms(3,4) by (simp add: login_cases login_request_def body_field_def)
  with run reach show ?thesis
    by (intro exI [where x = ?ev_f] exI [where x = ?ev_r]) auto
qed


subsection \<open>Updates that bypass validation\<close>

text \<open>
  C35. \<open>findByIdAndUpdate\<close> runs no validators, so \<open>updateUser\<close> can clear the
  required email of an account (when no other document has an empty one). Every later
  validated save of that document then fails: a reset with a live token presented with
  a new password is refused with the model's validation error and leaves the token in
  place, so the owner cannot complete a reset (spec 4.4: \<open>ResetPending \<rightarrow>
  Authenticated\<close> via a successful reset-confirm).
\<close>

theorem blank_email_blocks_reset:
  assumes "wf_store st" "parse_oid sid = Some i" "find_by_id st i = Some u" "[] \<notin> set (map email st)"
    and "\<not> write_fails ev 0"
    and "resetPasswordToken u = Some (sha256_hex C t)" "resetPasswordExpire u = Some x" "int (req_time ev') < x"
    and "\<forall>w\<in>set st. uid w \<noteq> i \<longrightarrow> resetPasswordToken w \<noteq> Some (sha256_hex C t)" "p \<noteq> []"
  shows "\<exists>r st1. updateUser ev (req_of [(''email'', [])] [] [(''userId'', sid)]) st = (Inr r, st1) \<and>
           wf_store st1 \<and>
           resetPassword C cfg ev' (reset_request t p) st1 =
             (Inl (ValidationError (Some ''User'') [required_error ''email'']), st1)"
proof -
  let ?req = "req_of [(''email'', [])] [] [(''userId'', sid)]"
  let ?g = "\<lambda>w. if uid w = i then w\<lparr>email := []\<rparr> else w"
  have u: "u \<in> set st" "uid u = i" using assms(3) by auto
  have dist: "distinct (map uid st)" using assms(1) by (simp add: wf_store_def)
  have oid: "param_oid ?req = Inr i"
    using assms(2) by (simp add: param_oid_text req_of_def)
  have cu: "cast_update (date_parse ev) (body ?req) = Inr (\<lambda>w. w\<lparr>email := []\<rparr>)"
    by (simp add: req_of_def cast_update_def cast_path_def)
  have upd: "updateUser ev ?req st = (Inr (json_ok (project [] (u\<lparr>email := []\<rparr>))), map ?g st)"
    using updateUser_found [OF oid cu assms(3)] assms(4,5) by auto
  have wf: "wf_store (map ?g st)"
    using updateUser_wf [OF assms(1), of ev ?req] upd by simp
  have "find_by_reset st (sha256_hex C t) (req_time ev') = Some u"
    unfolding find_by_reset_def
    by (rule find_unique [OF u(1)]) (use assms(6-9) uid_unique [OF dist u(1)] u(2) in
        \<open>auto simp: reset_live_def\<close>)
  then have "find_by_reset (map ?g st) (sha256_hex C t) (req_time ev') = Some (u\<lparr>email := []\<rparr>)"
    using u(2) by (simp add: find_by_reset_map)
  then have "resetPassword C cfg ev' (reset_request t p) (map ?g st) =
      (Inl (ValidationError (Some ''User'') [required_error ''email'']), map ?g st)"
    using assms(10)
    by (simp add: resetPassword_def reset_request_def body_field_def doc_save_def missing_paths_def
        without_password_def)
  with upd wf show ?thesis by blast
qed


section \<open>Witnesses\<close>

text \<open>
  Each property with hypotheses, applied to the concrete instances above: the hypotheses
  hold there, so none of the properties is vacuous.
\<close>

theorem account_takeover_witness:
  "\<exists>r1 st1 tok r2 st2 s u.
     forgotPassword C0 cfg0 (ev_at 5000 ''ab12'' []) (forgot_request ''a@x.io'') st0 = (Inr r1, st1) \<and>
     json_body r1 = Some (JObj [(''success'', JBool True), (''msg'', JStr (''YOU CAN RESET PW WITH TOKEN: '' @ tok))]) \<and>
     resetPassword C0 cfg0 (ev_at 65000 ''zz'' []) (reset_request tok ''mine'') st1 = (Inr r2, st2) \<and>
     response_token r2 = Some s \<and> jwt_verify C0 (jwt_secret cfg0) 65000 s = Inr 1 \<and>
     find_by_id st2 1 = Some u \<and> password u = bcrypt_hash C0 ''mine''"
  using account_takeover [where st = st0 and e = "''a@x.io''" and v = alice and ev_f = "ev_at 5000 ''ab12'' []"
      and ev_r = "ev_at 65000 ''zz'' []" and C = C0 and cfg = cfg0 and p = "''mine''"]
  by (simp add: witness_defs find_by_email_def write_fails_def reset_window_def)

theorem updateUser_plants_reset_token_witness:
  "\<exists>r st1 r' st2 v.
     updateUser (ev_at 1000 [] []) (plant_request (show_oid 2) (sha256_hex C0 ''tt'') (show_nat 1000000)) st0 =
       (Inr r, st1) \<and>
     resetPassword C0 cfg0 (ev_at 2000 [] []) (reset_request ''tt'' ''mine'') st1 = (Inr r', st2) \<and>
     find_by_id st2 2 = Some v \<and> password v = bcrypt_hash C0 ''mine''"
  using updateUser_plants_reset_token [where st = st0 and i = 2 and u = bob and ev = "ev_at 1000 [] []"
      and ev' = "ev_at 2000 [] []" and x = 1000000 and s = "show_nat 1000000" and sid = "show_oid 2"
      and p = "''mine''" and cfg = cfg0 and C = C0 and t = "''tt''"]
  by (simp add: witness_defs wf_store_def find_by_id_def write_fails_def cast_date_def js_date_def
      frac_of_def time_clip_def)

theorem getUsers_password_exposure_witness:
  "fst (getUsers (ev_at 0 [] []) (req_of [] [(''password'', ''1'')] []) st0) =
     Inr (json_ok (JArr [project [''password''] alice, project [''password''] bob])) \<and>
   (\<exists>u \<in> set st0. (''password'', JStr (password u)) \<in> set (json_fields (project [''password''] alice))) \<and>
   truthy (query_field (req_of [] [(''password'', ''1'')] []) ''password'')"
proof -
  have run: "fst (getUsers (ev_at 0 [] []) (req_of [] [(''password'', ''1'')] []) st0) =
     Inr (json_ok (JArr [project [''password''] alice, project [''password''] bob]))"
    by (simp add: getUsers_def mongo_find_def users_filter_def users_options_def user_paths_def
        query_field_def req_of_def st0_def)
  have "truthy (query_field (req_of [] [(''password'', ''1'')] []) ''password'')"
    by (simp add: query_field_def req_of_def)
  with getUsers_password_exposure [OF run, of "[project [''password''] alice, project [''password''] bob]"
      "project [''password''] alice"] run
  show ?thesis by simp
qed

theorem updateUser_plaintext_password_witness:
  "\<exists>r st'. updateUser (ev_at 0 [] []) (req_of [(''password'', ''plain'')] [] [(''userId'', show_oid 1)]) st0 =
       (Inr r, st') \<and>
     wf_store st' \<and> find_by_id st' 1 = Some (alice\<lparr>password := ''plain''\<rparr>)"
  using updateUser_plaintext_password [where st = st0 and i = 1 and u = alice and ev = "ev_at 0 [] []"
      and req = "req_of [(''password'', ''plain'')] [] [(''userId'', show_oid 1)]" and p = "''plain''"
      and s = "show_oid 1"]
  by (simp add: witness_defs wf_store_def find_by_id_def write_fails_def req_of_def)

lemma reset_run:
  "\<exists>r. resetPassword C0 cfg0 (ev_at 5000 [] []) (reset_request ''tok'' ''new'') st_r =
     (Inr r, consume_reset 1 (bcrypt_hash C0 ''new'') st_r)"
  using resetPassword_ok [where req = "reset_request ''tok'' ''new''" and st = st_r and C = C0 and cfg = cfg0
      and ev = "ev_at 5000 [] []" and p = "''new''" and t = "''tok''"
      and v = "alice\<lparr>resetPasswordToken := Some ''h:tok'', resetPasswordExpire := Some 9000\<rparr>"]
  by (simp add: witness_defs st_r_def reset_request_def body_field_def find_by_reset_def reset_live_def
      write_fails_def) blast

theorem resetPassword_leaves_token_hash_witness:
  "\<exists>r st'. resetPassword C0 cfg0 (ev_at 5000 [] []) (reset_request ''tok'' ''new'') st_r = (Inr r, st') \<and>
     (\<exists>u \<in> set st'. resetPasswordToken u = Some (sha256_hex C0 ''tok'') \<and> \<not> reset_paired u)"
proof -
  obtain r where r: "resetPassword C0 cfg0 (ev_at 5000 [] []) (reset_request ''tok'' ''new'') st_r =
      (Inr r, consume_reset 1 (bcrypt_hash C0 ''new'') st_r)"
    using reset_run by blast
  show ?thesis
    using r resetPassword_leaves_token_hash [OF r]
    by (simp add: st_r_def witness_defs reset_request_def)
qed

theorem resetPassword_single_use_witness:
  "\<exists>r st'. resetPassword C0 cfg0 (ev_at 5000 [] []) (reset_request ''tok'' ''new'') st_r = (Inr r, st') \<and>
     resetPassword C0 cfg0 (ev_at 6000 [] []) (reset_request ''tok'' ''new'') st' = (Inl (Error ''Invalid Token''), st')"
proof -
  obtain r where r: "resetPassword C0 cfg0 (ev_at 5000 [] []) (reset_request ''tok'' ''new'') st_r =
      (Inr r, consume_reset 1 (bcrypt_hash C0 ''new'') st_r)"
    using reset_run by blast
  show ?thesis
    using r resetPassword_single_use [OF r, where ev' = "ev_at 6000 [] []"]
    by (simp add: st_r_def witness_defs reset_request_def)
qed

theorem login_reveals_account_witness:
  "fst (login C0 cfg0 (ev_at 0 [] []) (login_request ''a@x.io'' ''guess'') [bob]) \<noteq>
   fst (login C0 cfg0 (ev_at 0 [] []) (login_request ''a@x.io'' ''guess'') st0)"
  using login_reveals_account [where req = "login_request ''a@x.io'' ''guess''" and e = "''a@x.io''"
      and p = "''guess''" and st_u = "[bob]" and st_k = st0 and u = alice and C = C0 and cfg = cfg0
      and ev = "ev_at 0 [] []"]
  by (simp add: witness_defs login_request_def body_field_def find_by_email_def)

theorem login_ok_witness:
  "\<exists>r t. login C0 cfg0 (ev_at 7000 [] []) (login_request ''a@x.io'' ''pw1'') st0 = (Inr r, st0) \<and>
     status r = 200 \<and> response_token r = Some t \<and> jwt_verify C0 ''k'' 7000 t = Inr 1"
  using login_ok [where req = "login_request ''a@x.io'' ''pw1''" and e = "''a@x.io''" and p = "''pw1''"
      and st = st0 and u = alice and C = C0 and cfg = cfg0 and ev = "ev_at 7000 [] []"]
  by (simp add: witness_defs login_request_def body_field_def find_by_email_def)

theorem login_Inr_witness:
  "\<exists>r. fst (login C0 cfg0 (ev_at 7000 [] []) (login_request ''a@x.io'' ''pw1'') st0) = Inr r \<and>
     (\<exists>e p u. body_field (login_request ''a@x.io'' ''pw1'') ''email'' = Some e \<and>
        body_field (login_request ''a@x.io'' ''pw1'') ''password'' = Some p \<and>
        find_by_email st0 e = Some u \<and> bcrypt_hash C0 p = password u \<and>
        response_token r = Some (getSignedJwtToken C0 cfg0 7000 u))"
proof -
  obtain r where r: "fst (login C0 cfg0 (ev_at 7000 [] []) (login_request ''a@x.io'' ''pw1'') st0) = Inr r"
    using login_ok_witness by force
  show ?thesis
    using r login_Inr [OF r] by (auto simp: ev_at_def)
qed

theorem reset_then_login_witness:
  "\<exists>r st'. resetPassword C0 cfg0 (ev_at 5000 [] []) (reset_request ''tok'' ''new'') st_r = (Inr r, st') \<and>
     (\<exists>r'. login C0 cfg0 (ev_at 6000 [] []) (login_request ''a@x.io'' ''new'') st' = (Inr r', st')) \<and>
     login C0 cfg0 (ev_at 6000 [] []) (login_request ''a@x.io'' ''pw1'') st' = (Inl (Error ''Invalid Credential''), st')"
  using reset_then_login [where st = st_r and C = C0 and cfg = cfg0 and ev = "ev_at 5000 [] []"
      and ev' = "ev_at 6000 [] []" and t = "''tok''" and p = "''new''" and old = "''pw1''"
      and v = "alice\<lparr>resetPasswordToken := Some ''h:tok'', resetPasswordExpire := Some 9000\<rparr>"]
  by (simp add: witness_defs st_r_def find_by_reset_def reset_live_def wf_store_def write_fails_def)

theorem register_then_login_witness:
  "\<exists>r st' r' s. postUser C0 cfg0 (ev_at 0 [] []) (login_request ''c@x.io'' ''pw3'') st0 = (Inr r, st') \<and>
     status r = 201 \<and> wf_store st' \<and>
     login C0 cfg0 (ev_at 9000 [] []) (login_request ''c@x.io'' ''pw3'') st' = (Inr r', st') \<and>
     response_token r' = Some s \<and> jwt_verify C0 (jwt_secret cfg0) 9000 s = Inr (new_oid st0)"
  using register_then_login [where st = st0 and C = C0 and cfg = cfg0 and ev = "ev_at 0 [] []"
      and ev' = "ev_at 9000 [] []" and e = "''c@x.io''" and p = "''pw3''"]
  by (simp add: witness_defs wf_store_def write_fails_def)

theorem reset_token_overwritten_witness:
  "fst (resetPassword C0 cfg0 (ev_at 7000 [] []) (reset_request ''t1'' ''new'')
     (snd (forgotPassword C0 cfg0 (ev_at 6000 ''t2'' []) (forgot_request ''a@x.io'')
        (snd (forgotPassword C0 cfg0 (ev_at 5000 ''t1'' []) (forgot_request ''a@x.io'') st0))))) =
   Inl (Error ''Invalid Token'')"
  using reset_token_overwritten [where st = st0 and e = "''a@x.io''" and v = alice and C = C0 and cfg = cfg0
      and ev_f = "ev_at 5000 ''t1'' []" and ev_g = "ev_at 6000 ''t2'' []" and ev_r = "ev_at 7000 [] []"
      and p = "''new''"]
  by (simp add: witness_defs find_by_email_def write_fails_def)

theorem reset_token_expires_witness:
  "fst (resetPassword C0 cfg0 (ev_at 700000 [] []) (reset_request ''t1'' ''new'')
     (snd (forgotPassword C0 cfg0 (ev_at 5000 ''t1'' []) (forgot_request ''a@x.io'') st0))) =
   Inl (Error ''Invalid Token'')"
  using reset_token_expires [where st = st0 and e = "''a@x.io''" and v = alice and C = C0 and cfg = cfg0
      and ev_f = "ev_at 5000 ''t1'' []" and ev_r = "ev_at 700000 [] []" and p = "''new''"]
  by (simp add: witness_defs find_by_email_def write_fails_def reset_window_def)

theorem forgotPassword_rollback_witness:
  "forgotPassword C0 cfg0 (ev_at 5000 ''t1'' [0]) (forgot_request ''a@x.io'') st0 =
     (Inl (Error ''FAILED TO SAVE PASSWORD TOKEN''), set_reset_fields 1 None None st0)"
  using forgotPassword_rollback [where st = st0 and e = "''a@x.io''" and v = alice and C = C0 and cfg = cfg0
      and ev = "ev_at 5000 ''t1'' [0]" and req = "forgot_request ''a@x.io''"]
  by (simp add: witness_defs find_by_email_def write_fails_def forgot_request_def body_field_def)

theorem updatePassword_wrong_password_witness:
  "updatePassword C0 cfg0 (ev_at 0 [] []) \<lparr>body = [(''password'', ''nope'')], query = [], params = [], auth_user = Some 1\<rparr> st0 =
     (Inl (Error ''Password is incorrect''), st0)"
  using updatePassword_wrong_password [where st = st0 and i = 1 and u = alice and C = C0 and cfg = cfg0
      and ev = "ev_at 0 [] []" and p = "''nope''"
      and req = "\<lparr>body = [(''password'', ''nope'')], query = [], params = [], auth_user = Some 1\<rparr>"]
  by (simp add: witness_defs find_by_id_def body_field_def)

theorem postUser_error_keeps_user_witness:
  "postUser C0 (cfg0\<lparr>jwt_cookie_expire := None\<rparr>) (ev_at 0 [] []) (login_request ''c@x.io'' ''pw3'') st0 =
     (Inl (Error ''ERROR POSTING USER: option expires is invalid''),
      st0 @ [(blank_user (new_oid st0))\<lparr>email := ''c@x.io'', password := bcrypt_hash C0 ''pw3''\<rparr>])"
proof -
  let ?cfg = "cfg0\<lparr>jwt_cookie_expire := None\<rparr>"
  let ?u = "(blank_user (new_oid st0))\<lparr>email := ''c@x.io'', password := bcrypt_hash C0 ''pw3''\<rparr>"
  have "jwt_sign_error ?cfg = None"
    using cfg0_expires by (simp add: jwt_sign_error_None)
  then have s: "sendTokenResponse C0 ?cfg 0 ?u 201 = Inl (TypeError ''option expires is invalid'')"
    by (simp add: sendTokenResponse_def cookie_expiry_def)
  have "\<not> session_ok ?cfg 0"
    by (simp add: session_ok_def cookie_expiry_def)
  then obtain x where "sendTokenResponse C0 ?cfg 0 ?u 201 = Inl x"
      "postUser C0 ?cfg (ev_at 0 [] []) (login_request ''c@x.io'' ''pw3'') st0 =
       (Inl (Error (''ERROR POSTING USER: '' @ err_message x)), st0 @ [?u])"
    using postUser_error_keeps_user [where st = st0 and C = C0 and cfg = ?cfg
      and ev = "ev_at 0 [] []" and req = "login_request ''c@x.io'' ''pw3''" and e = "''c@x.io''" and p = "''pw3''"]
    by (auto simp: witness_defs login_request_def write_fails_def)
  with s show ?thesis by (simp add: err_message_def)
qed

theorem absent_user_not_an_error_witness:
  "getUser (ev_at 0 [] []) (req_of [] [] [(''userId'', show_oid 3)]) st0 = (Inr (json_ok JNull), st0) \<and>
   updateUser (ev_at 0 [] []) (req_of [] [] [(''userId'', show_oid 3)]) st0 = (Inr (json_ok JNull), st0) \<and>
   deleteUser (ev_at 0 [] []) (req_of [] [] [(''userId'', show_oid 3)]) st0 =
     (Inr (json_ok (JObj [(''success'', JBool True),
        (''msg'', JStr (''User with id '' @ show_oid 3 @ '' has been deleted!''))])), st0)"
  using absent_user_not_an_error [where st = st0 and i = 3 and f = id and ev = "ev_at 0 [] []"
      and req = "req_of [] [] [(''userId'', show_oid 3)]" and s = "show_oid 3"]
  by (simp add: witness_defs req_of_def find_by_id_def write_fails_def cast_update_def)

theorem getUsers_sorted_witness:
  "\<exists>us. mset us = mset st0 \<and> sorted (rev (map firstName us)) \<and>
     getUsers (ev_at 0 [] []) (req_of [] [(''sortByFirstName'', ''desc'')] []) st0 =
       (Inr (json_ok (JArr (map (project (users_filter (req_of [] [(''sortByFirstName'', ''desc'')] []))) us))), st0)"
  using getUsers_sorted [where req = "req_of [] [(''sortByFirstName'', ''desc'')] []" and s = "''desc''"
      and st = st0 and ev = "ev_at 0 [] []"]
  by (simp add: req_of_def query_field_def)

theorem getUser_found_witness:
  "getUser (ev_at 0 [] []) (req_of [] [] [(''userId'', show_oid 2)]) st0 = (Inr (json_ok (project [] bob)), st0) \<and>
   (\<forall>x. (''password'', x) \<notin> set (json_fields (project [] bob)))"
  using getUser_found [where st = st0 and i = 2 and u = bob and ev = "ev_at 0 [] []"
      and req = "req_of [] [] [(''userId'', show_oid 2)]" and s = "show_oid 2"]
  by (simp add: witness_defs req_of_def find_by_id_def)

theorem deleteUsers_clears_witness:
  "\<exists>r. deleteUsers (ev_at 0 [] []) (req_of [] [] []) st0 = (Inr r, []) \<and> status r = 200 \<and>
     map_of (headers r) ''Content-Type'' = Some ''applicaton/json; charset=utf-8''"
  using deleteUsers_clears [where ev = "ev_at 0 [] []" and req = "req_of [] [] []" and st = st0]
  by (simp add: ev_at_def write_fails_def)

theorem sendTokenResponse_cookie_witness:
  "\<exists>r. sendTokenResponse C0 cfg0 1000 alice 200 = Inr r \<and> status r = 200 \<and>
     cookies r = [(''token'', \<lparr>cookie_value = getSignedJwtToken C0 cfg0 1000 alice,
                     cookie_expires = int 1000 + int 2 * 86400000, cookie_http_only = True,
                     cookie_secure = (node_env cfg0 = ''production'')\<rparr>)]"
  using sendTokenResponse_cookie [where cfg = cfg0 and d = 2 and C = C0 and now = 1000 and u = alice and code = 200]
  by simp

theorem getUsers_limit_witness:
  "\<exists>js. fst (getUsers (ev_at 0 [] []) (req_of [] [(''limit'', ''-1'')] []) st0) = Inr (json_ok (JArr js)) \<and>
     length js = 1"
proof -
  have n: "js_number ''-1'' = Finite True 1 0"
    by (simp add: js_number_def js_trim_def js_space_def radix_literal_def decimal_literal_def Let_def
        exp_part_def all_digits_def is_digit_def)
  show ?thesis
    using getUsers_limit [where req = "req_of [] [(''limit'', ''-1'')] []" and l = "''-1''"
        and ev = "ev_at 0 [] []" and st = st0]
    by (simp add: req_of_def query_field_def st0_def n js_trunc_def max_limit_def)
qed

theorem credential_refinement_witness:
  "cred_effect C0 (abs_store st0) (route_events ForgotPassword (ev_at 5000 ''ab12'' []) (forgot_request ''a@x.io''))
     (abs_store (snd (handle C0 cfg0 (ev_at 5000 ''ab12'' []) ForgotPassword (forgot_request ''a@x.io'') st0)))"
  by (rule credential_refinement) (simp_all add: wf_store_def witness_defs)

theorem concurrent_reset_double_use_witness:
  "reset_lookup C0 (ev_at 5000 [] []) (reset_request ''tok'' ''a1'') st_r =
     Inr (alice\<lparr>resetPasswordToken := Some ''h:tok'', resetPasswordExpire := Some 9000\<rparr>) \<and>
   reset_lookup C0 (ev_at 5001 [] []) (reset_request ''tok'' ''b2'') st_r =
     Inr (alice\<lparr>resetPasswordToken := Some ''h:tok'', resetPasswordExpire := Some 9000\<rparr>) \<and>
   (\<exists>rA rB stA.
      reset_commit C0 cfg0 (ev_at 5000 [] []) (reset_request ''tok'' ''a1'')
        (alice\<lparr>resetPasswordToken := Some ''h:tok'', resetPasswordExpire := Some 9000\<rparr>) st_r = (Inr rA, stA) \<and>
      reset_commit C0 cfg0 (ev_at 5001 [] []) (reset_request ''tok'' ''b2'')
        (alice\<lparr>resetPasswordToken := Some ''h:tok'', resetPasswordExpire := Some 9000\<rparr>) stA =
        (Inr rB, consume_reset 1 (bcrypt_hash C0 ''b2'') st_r) \<and>
      response_token rA = Some (getSignedJwtToken C0 cfg0 5000
        (alice\<lparr>resetPasswordToken := Some ''h:tok'', resetPasswordExpire := Some 9000\<rparr>)) \<and>
      response_token rB = Some (getSignedJwtToken C0 cfg0 5001
        (alice\<lparr>resetPasswordToken := Some ''h:tok'', resetPasswordExpire := Some 9000\<rparr>)))"
  using concurrent_reset_double_use [where C = C0 and cfg = cfg0 and st = st_r and t = "''tok''"
      and evA = "ev_at 5000 [] []" and evB = "ev_at 5001 [] []" and pA = "''a1''" and pB = "''b2''"
      and reqA = "reset_request ''tok'' ''a1''" and reqB = "reset_request ''tok'' ''b2''"
      and v = "alice\<lparr>resetPasswordToken := Some ''h:tok'', resetPasswordExpire := Some 9000\<rparr>"]
  by (simp add: witness_defs st_r_def reset_request_def body_field_def find_by_reset_def reset_live_def
      wf_store_def write_fails_def)

theorem session_update_password_witness:
  "\<exists>r s r'. login C0 cfg0 (ev_at 7000 [] []) (login_request ''a@x.io'' ''pw1'') st0 = (Inr r, st0) \<and>
     response_token r = Some s \<and> authenticate C0 cfg0 8000 s = Inr 1 \<and>
     guarded C0 cfg0 8000 s (updatePassword C0 cfg0 (ev_at 8000 [] [])) (login_request ''a@x.io'' ''pw1'') st0 =
       (Inr r', st0) \<and>
     response_token r' = Some (getSignedJwtToken C0 cfg0 8000 alice)"
  using session_update_password [where st = st0 and req = "login_request ''a@x.io'' ''pw1''" and e = "''a@x.io''"
      and p = "''pw1''" and u = alice and C = C0 and cfg = cfg0 and ev = "ev_at 7000 [] []" and now' = 8000
      and ev' = "ev_at 8000 [] []"]
  by (simp add: witness_defs wf_store_def login_request_def body_field_def find_by_email_def)

theorem account_recovery_witness:
  "\<exists>ev_f ev_r st1 st2. snd (handle C0 cfg0 ev_f ForgotPassword (forgot_request ''a@x.io'') st0) = st1 \<and>
     snd (handle C0 cfg0 ev_r ResetPassword (reset_request (random_hex ev_f) ''new'') st1) = st2 \<and>
     reachable C0 cfg0 st2 \<and> (\<exists>r. login C0 cfg0 (ev_at 0 [] []) (login_request ''a@x.io'' ''new'') st2 = (Inr r, st2))"
proof -
  have "reachable C0 cfg0 st0" by (rule reachable.init) (simp add: wf_store_def witness_defs)
  moreover have "\<exists>rnd. \<forall>w\<in>set st0. uid w \<noteq> uid alice \<longrightarrow> resetPasswordToken w \<noteq> Some (sha256_hex C0 rnd)"
    by (simp add: witness_defs)
  ultimately show ?thesis
    using account_recovery [where st = st0 and e = "''a@x.io''" and v = alice and p = "''new''"
        and C = C0 and cfg = cfg0 and ev' = "ev_at 0 [] []"]
    by (simp add: witness_defs find_by_email_def)
qed

theorem responses_are_json_witness:
  "handle C0 cfg0 (ev_at 0 [] []) Logout (req_of [] [] []) st0 = (Inr (logout 0), st0) \<and>
   json_response (logout 0) \<and> status (logout 0) \<in> {200, 201}"
proof -
  have run: "handle C0 cfg0 (ev_at 0 [] []) Logout (req_of [] [] []) st0 = (Inr (logout 0), st0)"
    by (simp add: ev_at_def)
  show ?thesis using run responses_are_json [OF run] by simp
qed

theorem session_lifetime_witness:
  "sendTokenResponse C0 cfg0 7000 alice 200 =
     Inr (res_json (JObj [(''success'', JBool True), (''token'', JStr (getSignedJwtToken C0 cfg0 7000 alice))])
       (res_cookie ''token'' \<lparr>cookie_value = getSignedJwtToken C0 cfg0 7000 alice,
          cookie_expires = 7000 + 2 * 86400000, cookie_http_only = True, cookie_secure = True\<rparr>
          (res_status 200 new_response))) \<and>
   guarded C0 cfg0 3700000 (getSignedJwtToken C0 cfg0 7000 alice) (updatePassword C0 cfg0 (ev_at 0 [] []))
     (login_request ''a@x.io'' ''pw1'') st0 = (Inl (Error ''Not authorized to access this route''), st0)"
proof -
  have run: "sendTokenResponse C0 cfg0 7000 alice 200 =
     Inr (res_json (JObj [(''success'', JBool True), (''token'', JStr (getSignedJwtToken C0 cfg0 7000 alice))])
       (res_cookie ''token'' \<lparr>cookie_value = getSignedJwtToken C0 cfg0 7000 alice,
          cookie_expires = 7000 + 2 * 86400000, cookie_http_only = True, cookie_secure = True\<rparr>
          (res_status 200 new_response)))"
    using cookie_expiry_days [of 7000 2] by (simp add: sendTokenResponse_def Let_def)
  have tok: "response_token (res_json (JObj [(''success'', JBool True), (''token'', JStr (getSignedJwtToken C0 cfg0 7000 alice))])
       (res_cookie ''token'' \<lparr>cookie_value = getSignedJwtToken C0 cfg0 7000 alice,
          cookie_expires = 7000 + 2 * 86400000, cookie_http_only = True, cookie_secure = True\<rparr>
          (res_status 200 new_response))) = Some (getSignedJwtToken C0 cfg0 7000 alice)"
    by simp
  show ?thesis
    using run session_lifetime [OF run tok, where now' = 3700000 and h = "updatePassword C0 cfg0 (ev_at 0 [] [])"
        and req = "login_request ''a@x.io'' ''pw1''" and st = st0]
    by simp
qed

theorem concurrent_forgot_rollback_erases_token_witness:
  "forgot_lookup (forgot_request ''a@x.io'') st_r =
     Inr (alice\<lparr>resetPasswordToken := Some ''h:tok'', resetPasswordExpire := Some 9000\<rparr>) \<and>
   forgot_save C0 (ev_at 1000 ''ra'' [0])
     (alice\<lparr>resetPasswordToken := Some ''h:tok'', resetPasswordExpire := Some 9000\<rparr>) st_r = (Inl StoreError, st_r) \<and>
   (\<exists>stB. forgot_save C0 (ev_at 2000 ''rb'' [])
        (alice\<lparr>resetPasswordToken := Some ''h:tok'', resetPasswordExpire := Some 9000\<rparr>) st_r =
        (Inr (forgot_ok_response ''rb''), stB) \<and>
      (\<exists>w. reset_lookup C0 (ev_at 3000 [] []) (reset_request ''rb'' ''np'') stB = Inr w \<and> uid w = 1) \<and>
      (\<exists>stF. forgot_rollback C0 (ev_at 1000 ''ra'' [0])
          (alice\<lparr>resetPasswordToken := Some ''h:tok'', resetPasswordExpire := Some 9000\<rparr>) stB =
          (Inl (Error ''FAILED TO SAVE PASSWORD TOKEN''), stF) \<and>
        reset_lookup C0 (ev_at 3000 [] []) (reset_request ''rb'' ''np'') stF = Inl (Error ''Invalid Token'')))"
  using concurrent_forgot_rollback_erases_token [where C = C0 and st = st_r and e = "''a@x.io''"
      and reqA = "forgot_request ''a@x.io''" and reqB = "forgot_request ''a@x.io''"
      and evA = "ev_at 1000 ''ra'' [0]" and evB = "ev_at 2000 ''rb'' []" and evR = "ev_at 3000 [] []"
      and reqR = "reset_request ''rb'' ''np''"
      and v = "alice\<lparr>resetPasswordToken := Some ''h:tok'', resetPasswordExpire := Some 9000\<rparr>"]
  by (simp add: witness_defs st_r_def forgot_request_def reset_request_def body_field_def find_by_email_def
      wf_store_def write_fails_def reset_window_def)

theorem forgot_during_reset_voids_token_witness:
  "reset_lookup C0 (ev_at 5000 [] []) (reset_request ''tok'' ''np'') st_r =
     Inr (alice\<lparr>resetPasswordToken := Some ''h:tok'', resetPasswordExpire := Some 9000\<rparr>) \<and>
   forgot_lookup (forgot_request ''a@x.io'') st_r =
     Inr (alice\<lparr>resetPasswordToken := Some ''h:tok'', resetPasswordExpire := Some 9000\<rparr>) \<and>
   (\<exists>stF. forgot_save C0 (ev_at 5001 ''rf'' [])
        (alice\<lparr>resetPasswordToken := Some ''h:tok'', resetPasswordExpire := Some 9000\<rparr>) st_r =
        (Inr (forgot_ok_response ''rf''), stF) \<and>
      (\<exists>r st'. reset_commit C0 cfg0 (ev_at 5000 [] []) (reset_request ''tok'' ''np'')
          (alice\<lparr>resetPasswordToken := Some ''h:tok'', resetPasswordExpire := Some 9000\<rparr>) stF = (Inr r, st') \<and>
        response_token r = Some (getSignedJwtToken C0 cfg0 5000
          (alice\<lparr>resetPasswordToken := Some ''h:tok'', resetPasswordExpire := Some 9000\<rparr>)) \<and>
        reset_lookup C0 (ev_at 6000 [] []) (reset_request ''rf'' ''x'') st' = Inl (Error ''Invalid Token'')))"
  using forgot_during_reset_voids_token [where C = C0 and cfg = cfg0 and st = st_r and t = "''tok''"
      and p = "''np''" and e = "''a@x.io''"
      and reqR = "reset_request ''tok'' ''np''" and evR = "ev_at 5000 [] []"
      and reqF = "forgot_request ''a@x.io''" and evF = "ev_at 5001 ''rf'' []"
      and reqQ = "reset_request ''rf'' ''x''" and evQ = "ev_at 6000 [] []"
      and v = "alice\<lparr>resetPasswordToken := Some ''h:tok'', resetPasswordExpire := Some 9000\<rparr>"]
  by (simp add: witness_defs st_r_def reset_request_def forgot_request_def body_field_def find_by_reset_def
      reset_live_def find_by_email_def write_fails_def)

theorem reset_at_expiry_instant_witness:
  "resetPassword C0 cfg0 (ev_at 9000 [] []) (reset_request ''tok'' ''np'') st_r =
     (Inl (Error ''Invalid Token''), st_r) \<and>
   consume_reset_token C0 9000 ''tok'' ''np''
     (cred_of (alice\<lparr>resetPasswordToken := Some ''h:tok'', resetPasswordExpire := Some 9000\<rparr>)) =
     Inr \<lparr>cred_email = ''a@x.io'', cred_hash = bcrypt_hash C0 ''np'', cred_reset = NoReset\<rparr>"
  using reset_at_expiry_instant [where C = C0 and cfg = cfg0 and ev = "ev_at 9000 [] []" and st = st_r
      and req = "reset_request ''tok'' ''np''" and t = "''tok''" and p = "''np''"
      and v = "alice\<lparr>resetPasswordToken := Some ''h:tok'', resetPasswordExpire := Some 9000\<rparr>"]
  by (simp add: witness_defs st_r_def reset_request_def)

theorem blank_email_blocks_reset_witness:
  "\<exists>r st1. updateUser (ev_at 0 [] []) (req_of [(''email'', [])] [] [(''userId'', show_oid 1)]) st_r = (Inr r, st1) \<and>
     wf_store st1 \<and>
     resetPassword C0 cfg0 (ev_at 5000 [] []) (reset_request ''tok'' ''new'') st1 =
       (Inl (ValidationError (Some ''User'') [required_error ''email'']), st1)"
  using blank_email_blocks_reset [where st = st_r and sid = "show_oid 1" and i = 1 and C = C0 and cfg = cfg0
      and u = "alice\<lparr>resetPasswordToken := Some ''h:tok'', resetPasswordExpire := Some 9000\<rparr>"
      and ev = "ev_at 0 [] []" and ev' = "ev_at 5000 [] []" and t = "''tok''" and x = 9000 and p = "''new''"]
  by (simp add: witness_defs st_r_def wf_store_def find_by_id_def write_fails_def)

end
